theory Spec2Isabelle
  imports Complex_Main
begin

section \<open>Abyss Depth Diver: a shallow embedding of the simulation core\<close>

text \<open>
  The JavaScript sources (CollisionDetector.js, GameObject.js, Submarine.js, InputHandler.js,
  Renderer.js and Game.js) are modelled function by function.  Conventions:
  \<^item> a JavaScript number is a \<^typ>\<open>real\<close> (exact arithmetic; IEEE rounding is not modelled);
    entity ids and the id counter are \<^typ>\<open>nat\<close>; values of \<^verbatim>\<open>Date.now()\<close> are \<^typ>\<open>int\<close>
    milliseconds;
  \<^item> a class is a record, a method takes the object and returns the updated object;
    record fields whose JavaScript name would shadow a variable or a HOL constant carry a
    prefix (\<open>obj_x\<close> for \<^verbatim>\<open>GameObject.x\<close>, \<open>rect_x\<close> for the \<^verbatim>\<open>x\<close> of a hitbox literal);
  \<^item> \<^verbatim>\<open>Date.now()\<close> and \<^verbatim>\<open>Math.random()\<close> read the next element of two sequences held by
    a \<open>world\<close> value that is threaded through every function that calls them;
  \<^item> objects are compared by value where the source compares references
    (\<^verbatim>\<open>Array.includes\<close>); entities carry distinct ids, which makes the two agree;
  \<^item> DOM updates (HUD, menus, game-over screen) are presentation and are left out;
    message texts are written in ASCII.
\<close>

subsection \<open>The environment: clock and random source\<close>

record world =
  clock :: "nat \<Rightarrow> int"      \<comment> \<open>the successive results of \<^verbatim>\<open>Date.now()\<close>\<close>
  clockReads :: nat             \<comment> \<open>how many have been read\<close>
  random :: "nat \<Rightarrow> real"     \<comment> \<open>the successive raw draws behind \<^verbatim>\<open>Math.random()\<close>\<close>
  randomDraws :: nat

definition Date_now :: "world \<Rightarrow> int \<times> world" where
  "Date_now w = (clock w (clockReads w), w\<lparr>clockReads := Suc (clockReads w)\<rparr>)"

text \<open>\<^verbatim>\<open>Math.random()\<close> returns a number in \<open>[0, 1)\<close>: the raw draw is reduced to its
  fractional part.\<close>

definition Math_random :: "world \<Rightarrow> real \<times> world" where
  "Math_random w = (frac (random w (randomDraws w)), w\<lparr>randomDraws := Suc (randomDraws w)\<rparr>)"

definition Math_max :: "real \<Rightarrow> real \<Rightarrow> real" where
  "Math_max a b = max a b"

definition Math_min :: "real \<Rightarrow> real \<Rightarrow> real" where
  "Math_min a b = min a b"

subsection \<open>GameObject.js\<close>

record rect =
  rect_x :: real
  rect_y :: real
  rect_width :: real
  rect_height :: real

record GameObject =
  obj_x :: real
  obj_y :: real
  obj_width :: real
  obj_height :: real
  obj_type :: string
  velocityX :: real
  velocityY :: real
  obj_health :: real
  obj_speed :: real
  obj_id :: nat
  visible :: bool
  createdAt :: int

text \<open>The constructor reads the clock for \<^verbatim>\<open>createdAt\<close>.\<close>

definition new_GameObject :: "real \<Rightarrow> real \<Rightarrow> real \<Rightarrow> real \<Rightarrow> string \<Rightarrow> world \<Rightarrow> GameObject \<times> world" where
  "new_GameObject x y w h t wd =
     (let (now, wd') = Date_now wd in
      (\<lparr>obj_x = x, obj_y = y, obj_width = w, obj_height = h, obj_type = t,
        velocityX = 0, velocityY = 0, obj_health = 0, obj_speed = 0, obj_id = 0,
        visible = False, createdAt = now\<rparr>, wd'))"

definition isOffScreen :: "'a GameObject_scheme \<Rightarrow> real \<Rightarrow> real \<Rightarrow> real \<Rightarrow> bool" where
  "isOffScreen this screenWidth screenHeight depth =
     (if obj_x this < -200 \<or> obj_x this > screenWidth + 200 then True
      else if \<bar>obj_y this - depth\<bar> > 1200 then True
      else False)"

text \<open>\<^verbatim>\<open>getHitbox\<close>: the four locals start at the full rectangle and the \<^verbatim>\<open>switch\<close> on
  the type overwrites them.\<close>

definition getHitbox :: "'a GameObject_scheme \<Rightarrow> rect" where
  "getHitbox this =
     (let w = obj_width this; h = obj_height this;
          (offsetX, offsetY, hitboxWidth, hitboxHeight) =
            (if obj_type this = ''shark'' then (w * 0.1, h * 0.2, w * 0.8, h * 0.6)
             else if obj_type this = ''squid'' then (w * 0.2, h * 0.1, w * 0.6, h * 0.8)
             else if obj_type this = ''angler'' then (w * 0.15, h * 0.2, w * 0.7, h * 0.6)
             else if obj_type this = ''viper'' then (w * 0.05, h * 0.1, w * 0.9, h * 0.8)
             else if obj_type this = ''rock'' then (w * 0.1, h * 0.1, w * 0.8, h * 0.8)
             else if obj_type this = ''bubble'' then (w * 0.15, h * 0.15, w * 0.7, h * 0.7)
             else (0, 0, w, h))
      in \<lparr>rect_x = obj_x this + offsetX, rect_y = obj_y this + offsetY,
          rect_width = hitboxWidth, rect_height = hitboxHeight\<rparr>)"

subsection \<open>Submarine.js\<close>

record Submarine = GameObject +
  screenX :: real
  screenY :: real
  rotation :: real
  targetRotation :: real
  centerY :: real
  maxVerticalOffset :: real
  moveSpeed :: real
  rotationSpeed :: real
  hitboxOffsetX :: real
  hitboxOffsetY :: real
  hitboxWidth :: real
  hitboxHeight :: real

definition new_Submarine :: "real \<Rightarrow> real \<Rightarrow> real \<Rightarrow> real \<Rightarrow> world \<Rightarrow> Submarine \<times> world" where
  "new_Submarine x y w h wd =
     (let (base, wd') = new_GameObject x y w h ''submarine'' wd in
      (GameObject.extend base
         (Submarine.fields x y 0 0 y 80 0.18 1 (w * 0.225) (h * 0.275) (w * 0.55) (h * 0.45)),
       wd'))"

text \<open>\<^verbatim>\<open>Submarine.update(keys, deltaTime)\<close> returns the updated submarine together with
  \<^verbatim>\<open>worldOffsetY\<close>.  The three stages follow the source: horizontal keys, then the two
  independent vertical \<^verbatim>\<open>if\<close>s (first \<^verbatim>\<open>w\<close>, then \<^verbatim>\<open>s\<close>), then the rotation easing.\<close>

definition Submarine_update :: "Submarine \<Rightarrow> string set \<Rightarrow> real \<Rightarrow> Submarine \<times> real" where
  "Submarine_update this keys deltaTime =
     (let speed = moveSpeed this * deltaTime;
          worldOffsetY = 0;
          s1 = (if ''a'' \<in> keys then
                  this\<lparr>screenX := Math_max 0 (screenX this - speed),
                       targetRotation := Math_max (-15) (targetRotation this - 1)\<rparr>
                else if ''d'' \<in> keys then
                  this\<lparr>screenX := Math_min (800 - obj_width this) (screenX this + speed),
                       targetRotation := Math_min 15 (targetRotation this + 1)\<rparr>
                else this\<lparr>targetRotation := targetRotation this * 0.9\<rparr>);
          (s2, worldOffsetY) =
             (if ''w'' \<in> keys then
                (s1\<lparr>screenY := Math_max (centerY s1 - maxVerticalOffset s1)
                                        (screenY s1 - speed * 0.5)\<rparr>, speed)
              else (s1, worldOffsetY));
          (s3, worldOffsetY) =
             (if ''s'' \<in> keys then
                (s2\<lparr>screenY := Math_min (centerY s2 + maxVerticalOffset s2)
                                        (screenY s2 + speed * 0.5)\<rparr>, - speed)
              else (s2, worldOffsetY));
          s4 = s3\<lparr>rotation := rotation s3 + (targetRotation s3 - rotation s3) * 0.1\<rparr>
      in (s4, worldOffsetY))"

definition getScreenHitbox :: "Submarine \<Rightarrow> rect" where
  "getScreenHitbox this =
     \<lparr>rect_x = screenX this + hitboxOffsetX this, rect_y = screenY this + hitboxOffsetY this,
      rect_width = hitboxWidth this, rect_height = hitboxHeight this\<rparr>"

definition Submarine_reset :: "Submarine \<Rightarrow> Submarine" where
  "Submarine_reset this =
     this\<lparr>screenX := 350, screenY := centerY this, rotation := 0, targetRotation := 0\<rparr>"

subsection \<open>CollisionDetector.js\<close>

record CollisionDetector =
  collisionCooldown :: "nat \<rightharpoonup> int"
  cooldownDuration :: int

definition new_CollisionDetector :: CollisionDetector where
  "new_CollisionDetector = \<lparr>collisionCooldown = Map.empty, cooldownDuration = 100\<rparr>"

definition checkAABB :: "rect \<Rightarrow> rect \<Rightarrow> bool" where
  "checkAABB rect1 rect2 =
     (rect_x rect1 < rect_x rect2 + rect_width rect2 \<and>
      rect_x rect1 + rect_width rect1 > rect_x rect2 \<and>
      rect_y rect1 < rect_y rect2 + rect_height rect2 \<and>
      rect_y rect1 + rect_height rect1 > rect_y rect2)"

text \<open>\<^verbatim>\<open>isInCollisionCooldown\<close> reads the clock only when the id has an entry, and deletes
  an entry that has expired.\<close>

definition isInCollisionCooldown ::
  "CollisionDetector \<Rightarrow> 'a GameObject_scheme \<Rightarrow> world \<Rightarrow> bool \<times> CollisionDetector \<times> world" where
  "isInCollisionCooldown this obj wd =
     (case collisionCooldown this (obj_id obj) of
        None \<Rightarrow> (False, this, wd)
      | Some cooldownTime \<Rightarrow>
          (let (now, wd') = Date_now wd in
           if now - cooldownTime \<ge> cooldownDuration this
           then (False, this\<lparr>collisionCooldown := (collisionCooldown this)(obj_id obj := None)\<rparr>, wd')
           else (True, this, wd')))"

definition setCollisionCooldown ::
  "CollisionDetector \<Rightarrow> 'a GameObject_scheme \<Rightarrow> world \<Rightarrow> CollisionDetector \<times> world" where
  "setCollisionCooldown this obj wd =
     (let (now, wd') = Date_now wd in
      (this\<lparr>collisionCooldown := (collisionCooldown this)(obj_id obj \<mapsto> now)\<rparr>, wd'))"

definition clearCollisionCooldown :: "CollisionDetector \<Rightarrow> 'a GameObject_scheme \<Rightarrow> CollisionDetector" where
  "clearCollisionCooldown this obj =
     this\<lparr>collisionCooldown := (collisionCooldown this)(obj_id obj := None)\<rparr>"

definition calculateDepthOffset :: "real \<Rightarrow> real \<Rightarrow> real" where
  "calculateDepthOffset depth cameraOffset = - depth + 300 + cameraOffset"

definition getWorldObjectScreenHitbox :: "'a GameObject_scheme \<Rightarrow> real \<Rightarrow> rect" where
  "getWorldObjectScreenHitbox obj depthOffset =
     (let baseHitbox = getHitbox obj;
          screenY = rect_y baseHitbox + depthOffset
      in \<lparr>rect_x = rect_x baseHitbox, rect_y = screenY,
          rect_width = rect_width baseHitbox, rect_height = rect_height baseHitbox\<rparr>)"

text \<open>The body of the \<^verbatim>\<open>forEach\<close> of the monster and obstacle passes, for one element: the
  state of the loop is the \<^verbatim>\<open>collisions\<close> array, the detector and the world.\<close>

definition gatedCollisionStep ::
  "rect \<Rightarrow> real \<Rightarrow> GameObject \<Rightarrow> GameObject list \<times> CollisionDetector \<times> world
     \<Rightarrow> GameObject list \<times> CollisionDetector \<times> world" where
  "gatedCollisionStep subScreenHitbox depthOffset obj st =
     (let (collisions, this, wd) = st;
          (inCooldown, this1, wd1) = isInCollisionCooldown this obj wd
      in if \<not> inCooldown then
           (if checkAABB subScreenHitbox (getWorldObjectScreenHitbox obj depthOffset)
            then (let (this2, wd2) = setCollisionCooldown this1 obj wd1
                  in (collisions @ [obj], this2, wd2))
            else (collisions, this1, wd1))
         else (collisions, this1, wd1))"

fun forEach :: "('a \<Rightarrow> 's \<Rightarrow> 's) \<Rightarrow> 'a list \<Rightarrow> 's \<Rightarrow> 's" where
  "forEach f [] st = st"
| "forEach f (a # as) st = forEach f as (f a st)"

definition checkMonsterCollisions ::
  "CollisionDetector \<Rightarrow> Submarine \<Rightarrow> GameObject list \<Rightarrow> real \<Rightarrow> real \<Rightarrow> world
     \<Rightarrow> GameObject list \<times> CollisionDetector \<times> world" where
  "checkMonsterCollisions this submarine monsters depth cameraOffset wd =
     (let subScreenHitbox = getScreenHitbox submarine;
          depthOffset = calculateDepthOffset depth cameraOffset
      in forEach (gatedCollisionStep subScreenHitbox depthOffset) monsters ([], this, wd))"

definition checkObstacleCollisions ::
  "CollisionDetector \<Rightarrow> Submarine \<Rightarrow> GameObject list \<Rightarrow> real \<Rightarrow> real \<Rightarrow> world
     \<Rightarrow> GameObject list \<times> CollisionDetector \<times> world" where
  "checkObstacleCollisions this submarine obstacles depth cameraOffset wd =
     (let subScreenHitbox = getScreenHitbox submarine;
          depthOffset = calculateDepthOffset depth cameraOffset
      in forEach (gatedCollisionStep subScreenHitbox depthOffset) obstacles ([], this, wd))"

definition bubbleCollisionStep ::
  "rect \<Rightarrow> real \<Rightarrow> GameObject \<Rightarrow> GameObject list \<times> CollisionDetector \<times> world
     \<Rightarrow> GameObject list \<times> CollisionDetector \<times> world" where
  "bubbleCollisionStep subScreenHitbox depthOffset bubble st =
     (let (collisions, this, wd) = st
      in if checkAABB subScreenHitbox (getWorldObjectScreenHitbox bubble depthOffset)
         then (collisions @ [bubble], this, wd)
         else (collisions, this, wd))"

definition checkBubbleCollisions ::
  "CollisionDetector \<Rightarrow> Submarine \<Rightarrow> GameObject list \<Rightarrow> real \<Rightarrow> real \<Rightarrow> world
     \<Rightarrow> GameObject list \<times> CollisionDetector \<times> world" where
  "checkBubbleCollisions this submarine bubbles depth cameraOffset wd =
     (let subScreenHitbox = getScreenHitbox submarine;
          depthOffset = calculateDepthOffset depth cameraOffset
      in forEach (bubbleCollisionStep subScreenHitbox depthOffset) bubbles ([], this, wd))"

definition CollisionDetector_reset :: "CollisionDetector \<Rightarrow> CollisionDetector" where
  "CollisionDetector_reset this = this\<lparr>collisionCooldown := Map.empty\<rparr>"

subsection \<open>InputHandler.js\<close>

record InputHandler =
  keys :: "string set"
  cameraOffset :: real
  targetCameraOffset :: real

definition new_InputHandler :: InputHandler where
  "new_InputHandler = \<lparr>keys = {}, cameraOffset = 0, targetCameraOffset = 0\<rparr>"

definition handleKeyUp :: "InputHandler \<Rightarrow> string \<Rightarrow> InputHandler" where
  "handleKeyUp this key = this\<lparr>keys := keys this - {key}\<rparr>"

definition handleWheel :: "InputHandler \<Rightarrow> real \<Rightarrow> InputHandler" where
  "handleWheel this deltaY =
     (let delta = (if deltaY > 0 then 30 else -30)
      in this\<lparr>targetCameraOffset := Math_max (-100) (Math_min 100 (targetCameraOffset this + delta))\<rparr>)"

definition updateCameraOffset :: "InputHandler \<Rightarrow> InputHandler" where
  "updateCameraOffset this =
     this\<lparr>cameraOffset := cameraOffset this + (targetCameraOffset this - cameraOffset this) * 0.1\<rparr>"

definition InputHandler_reset :: "InputHandler \<Rightarrow> InputHandler" where
  "InputHandler_reset this = this\<lparr>keys := {}, cameraOffset := 0, targetCameraOffset := 0\<rparr>"

subsection \<open>Renderer.js\<close>

record Renderer =
  depthColor :: "real \<times> real \<times> real"   \<comment> \<open>the object \<^verbatim>\<open>{r, g, b}\<close>\<close>
  backgroundY :: real

definition new_Renderer :: Renderer where
  "new_Renderer = \<lparr>depthColor = (0, 100, 150), backgroundY = 0\<rparr>"

definition updateDepthColor :: "Renderer \<Rightarrow> real \<Rightarrow> Renderer" where
  "updateDepthColor this d =
     (if d < 1000 then this\<lparr>depthColor := (0, 100, 150)\<rparr>
      else if d < 3000 then this\<lparr>depthColor := (0, 60, 120)\<rparr>
      else if d < 6000 then this\<lparr>depthColor := (0, 30, 80)\<rparr>
      else if d < 9000 then this\<lparr>depthColor := (0, 15, 50)\<rparr>
      else this\<lparr>depthColor := (0, 5, 20)\<rparr>)"

definition Renderer_reset :: "Renderer \<Rightarrow> Renderer" where
  "Renderer_reset this = this\<lparr>backgroundY := 0, depthColor := (0, 100, 150)\<rparr>"

text \<open>The canvas operation \<^verbatim>\<open>ctx.translate(tx, ty)\<close>: a point drawn at \<open>(px, py)\<close> afterwards
  appears at \<open>(px + tx, py + ty)\<close>.\<close>

definition ctx_translate :: "real \<Rightarrow> real \<Rightarrow> real \<times> real \<Rightarrow> real \<times> real" where
  "ctx_translate tx ty p = (fst p + tx, snd p + ty)"

subsection \<open>Game.js: the state\<close>

record gameState =
  oxygen :: real
  energy :: real
  health :: real
  depth :: real
  score :: real
  sonarActive :: bool
  sonarCooldown :: real

text \<open>The local \<^verbatim>\<open>depthOffset\<close> of \<^verbatim>\<open>Renderer.render\<close> (Renderer.js, line 336), and where
  the camera transformation \<^verbatim>\<open>ctx.translate(0, depthOffset)\<close> of line 337 puts a world point.\<close>

definition render_depthOffset :: "gameState \<Rightarrow> real \<Rightarrow> real" where
  "render_depthOffset gs camOffset = - depth gs + 300 + camOffset"

definition render_worldToScreen :: "gameState \<Rightarrow> real \<Rightarrow> real \<times> real \<Rightarrow> real \<times> real" where
  "render_worldToScreen gs camOffset p = ctx_translate 0 (render_depthOffset gs camOffset) p"

record upgrades =
  oxygenTank :: bool
  advancedSonar :: bool
  reinforcedHull :: bool
  turboThrust :: bool

record particle =
  particle_x :: real
  particle_y :: real
  particle_size :: real
  particle_speed :: real

record reward =
  reward_depth :: real
  reward_oxygen :: real
  reward_points :: real
  reward_message :: string

record Game =
  renderer :: Renderer
  inputHandler :: InputHandler
  collisionDetector :: CollisionDetector
  submarine :: Submarine
  gameState :: gameState
  monsters :: "GameObject list"
  obstacles :: "GameObject list"
  bubbles :: "GameObject list"
  particles :: "particle list"
  upgrades :: upgrades
  nextMonsterId :: nat
  lastSpawnDepth :: real
  lastResourceUpdate :: int
  resourceUpdateInterval :: int
  gameOverTriggered :: bool
  gameOverReason :: string
  debugMode :: bool
  menuOpen :: "string option"     \<comment> \<open>\<^verbatim>\<open>null\<close> is \<open>None\<close>\<close>
  hint :: string
  claimedRewards :: "real set"
  lastFrameTime :: real

definition initialGameState :: gameState where
  "initialGameState = \<lparr>oxygen = 100, energy = 100, health = 100, depth = 0, score = 0,
     sonarActive = False, sonarCooldown = 0\<rparr>"

definition initialUpgrades :: upgrades where
  "initialUpgrades = \<lparr>oxygenTank = False, advancedSonar = False, reinforcedHull = False,
     turboThrust = False\<rparr>"

text \<open>\<^verbatim>\<open>initializeParticles\<close>: \<^verbatim>\<open>Array.from({ length: 50 }, ...)\<close>, four draws per particle.\<close>

fun makeParticles :: "nat \<Rightarrow> world \<Rightarrow> particle list \<times> world" where
  "makeParticles 0 wd = ([], wd)"
| "makeParticles (Suc n) wd =
     (let (r1, wd1) = Math_random wd;
          (r2, wd2) = Math_random wd1;
          (r3, wd3) = Math_random wd2;
          (r4, wd4) = Math_random wd3;
          p = \<lparr>particle_x = r1 * 800, particle_y = r2 * 600, particle_size = r3 * 3 + 1,
               particle_speed = r4 * 0.5 + 0.2\<rparr>;
          (ps, wd5) = makeParticles n wd4
      in (p # ps, wd5))"

definition initializeParticles :: "Game \<Rightarrow> world \<Rightarrow> Game \<times> world" where
  "initializeParticles this wd =
     (let (ps, wd') = makeParticles 50 wd in (this\<lparr>particles := ps\<rparr>, wd'))"

definition new_Game :: "world \<Rightarrow> Game \<times> world" where
  "new_Game wd =
     (let (sub, wd1) = new_Submarine 350 270 100 60 wd;
          (now, wd2) = Date_now wd1;
          this = \<lparr>renderer = new_Renderer, inputHandler = new_InputHandler,
                  collisionDetector = new_CollisionDetector, submarine = sub,
                  gameState = initialGameState, monsters = [], obstacles = [], bubbles = [],
                  particles = [], upgrades = initialUpgrades, nextMonsterId = 1,
                  lastSpawnDepth = 0, lastResourceUpdate = 0, resourceUpdateInterval = 50,
                  gameOverTriggered = False, gameOverReason = [], debugMode = False,
                  menuOpen = None, hint = [], claimedRewards = {},
                  lastFrameTime = of_int now\<rparr>
      in initializeParticles this wd2)"

text \<open>\<^verbatim>\<open>showHint\<close> stores the text; the timer that clears it three seconds later is the
  event \<open>HintTimeout\<close> below.\<close>

definition showHint :: "string \<Rightarrow> Game \<Rightarrow> Game" where
  "showHint text this = this\<lparr>hint := text\<rparr>"

definition activateSonar :: "Game \<Rightarrow> Game" where
  "activateSonar this =
     (let gs = gameState this in
      if energy gs \<ge> 20 \<and> sonarCooldown gs \<le> 0 \<and> \<not> sonarActive gs then
        showHint ''Sonar ativado!''
          (this\<lparr>gameState := gs\<lparr>energy := Math_max 0 (energy gs - (if advancedSonar (upgrades this) then 10 else 20)),
                                 sonarActive := True, sonarCooldown := 5\<rparr>\<rparr>)
      else if energy gs < 20 then showHint ''Energia insuficiente!'' this
      else if sonarCooldown gs > 0 then showHint ''Sonar em cooldown!'' this
      else this)"

definition openMenu :: "string \<Rightarrow> Game \<Rightarrow> Game" where
  "openMenu menuName this = this\<lparr>menuOpen := Some menuName\<rparr>"

definition closeMenu :: "Game \<Rightarrow> Game" where
  "closeMenu this = this\<lparr>menuOpen := None\<rparr>"

definition toggleMenu :: "string \<Rightarrow> Game \<Rightarrow> Game" where
  "toggleMenu menuName this =
     (if menuOpen this = Some menuName then closeMenu this else openMenu menuName this)"

definition toggleDebugMode :: "Game \<Rightarrow> Game" where
  "toggleDebugMode this =
     (let this1 = this\<lparr>debugMode := \<not> debugMode this\<rparr>
      in showHint (if debugMode this1 then ''Debug ON'' else ''Debug OFF'') this1)"

text \<open>\<^verbatim>\<open>InputHandler.handleKeyDown\<close>, on the key already in lower case; it calls back into the
  game, so it is a function of the game.\<close>

definition handleKeyDown :: "string \<Rightarrow> Game \<Rightarrow> Game" where
  "handleKeyDown key this =
     (let ih = inputHandler this;
          g0 = this\<lparr>inputHandler := ih\<lparr>keys := insert key (keys ih)\<rparr>\<rparr>;
          g1 = (if key = '' '' then activateSonar g0 else g0);
          g2 = (if key = ''arrowup'' then
                  g1\<lparr>inputHandler := (inputHandler g1)\<lparr>targetCameraOffset :=
                        Math_max (-100) (targetCameraOffset (inputHandler g1) - 30)\<rparr>\<rparr>
                else g1);
          g3 = (if key = ''arrowdown'' then
                  g2\<lparr>inputHandler := (inputHandler g2)\<lparr>targetCameraOffset :=
                        Math_min 100 (targetCameraOffset (inputHandler g2) + 30)\<rparr>\<rparr>
                else g2);
          g4 = (if key = ''m'' then toggleMenu ''missions'' g3 else g3);
          g5 = (if key = ''u'' then toggleMenu ''upgrades'' g4 else g4);
          g6 = (if key = ''escape'' then closeMenu g5 else g5);
          g7 = (if key = ''b'' then toggleDebugMode g6 else g6)
      in g7)"

subsection \<open>Game.js: one tick\<close>

text \<open>\<^verbatim>\<open>checkDepthRewards\<close>: the table of rewards, the body of its \<^verbatim>\<open>forEach\<close>, and the four
  upgrade unlocks.\<close>

definition rewards :: "reward list" where
  "rewards =
     [\<lparr>reward_depth = 2000, reward_oxygen = 20, reward_points = 500,
       reward_message = ''Zona Batial alcancada!''\<rparr>,
      \<lparr>reward_depth = 4000, reward_oxygen = 30, reward_points = 1000,
       reward_message = ''Zona Abissal alcancada!''\<rparr>,
      \<lparr>reward_depth = 6000, reward_oxygen = 40, reward_points = 2000,
       reward_message = ''Zona Hadal alcancada!''\<rparr>]"

definition claimReward :: "real \<Rightarrow> reward \<Rightarrow> Game \<Rightarrow> Game" where
  "claimReward d rw this =
     (if d \<ge> reward_depth rw \<and> reward_depth rw \<notin> claimedRewards this then
        (let g1 = this\<lparr>claimedRewards := insert (reward_depth rw) (claimedRewards this)\<rparr>;
             g2 = g1\<lparr>gameState := (gameState g1)\<lparr>oxygen :=
                        Math_min 100 (oxygen (gameState g1) + reward_oxygen rw)\<rparr>\<rparr>;
             g3 = g2\<lparr>gameState := (gameState g2)\<lparr>score :=
                        score (gameState g2) + reward_points rw\<rparr>\<rparr>
         in showHint (reward_message rw) g3)
      else this)"

definition unlockUpgrades :: "real \<Rightarrow> Game \<Rightarrow> Game" where
  "unlockUpgrades d this =
     (let g1 = (if d \<ge> 3000 \<and> \<not> oxygenTank (upgrades this) then
                  showHint ''Upgrade: Tanque de Oxigenio Expandido!''
                    (this\<lparr>upgrades := (upgrades this)\<lparr>oxygenTank := True\<rparr>\<rparr>)
                else this);
          g2 = (if d \<ge> 5000 \<and> \<not> advancedSonar (upgrades g1) then
                  showHint ''Upgrade: Sonar Avancado!''
                    (g1\<lparr>upgrades := (upgrades g1)\<lparr>advancedSonar := True\<rparr>\<rparr>)
                else g1);
          g3 = (if d \<ge> 7000 \<and> \<not> reinforcedHull (upgrades g2) then
                  showHint ''Upgrade: Casco Reforcado!''
                    (g2\<lparr>upgrades := (upgrades g2)\<lparr>reinforcedHull := True\<rparr>\<rparr>)
                else g2);
          g4 = (if d \<ge> 9000 \<and> \<not> turboThrust (upgrades g3) then
                  showHint ''Upgrade: Propulsor Turbo!''
                    (g3\<lparr>upgrades := (upgrades g3)\<lparr>turboThrust := True\<rparr>\<rparr>)
                else g3)
      in g4)"

definition checkDepthRewards :: "Game \<Rightarrow> Game" where
  "checkDepthRewards this =
     (let d = depth (gameState this)
      in unlockUpgrades d (forEach (claimReward d) rewards this))"

text \<open>The blocks of \<^verbatim>\<open>Game.update\<close>, in the order of the source; each is named after its
  comment there.\<close>

definition shiftY :: "real \<Rightarrow> GameObject \<Rightarrow> GameObject" where
  "shiftY worldOffsetY m = m\<lparr>obj_y := obj_y m + worldOffsetY\<rparr>"

definition moveWorldObjects :: "real \<Rightarrow> Game \<Rightarrow> Game" where
  "moveWorldObjects worldOffsetY this =
     (if worldOffsetY \<noteq> 0 then
        this\<lparr>monsters := map (shiftY worldOffsetY) (monsters this),
             obstacles := map (shiftY worldOffsetY) (obstacles this),
             bubbles := map (shiftY worldOffsetY) (bubbles this)\<rparr>
      else this)"

definition updateDepth :: "string set \<Rightarrow> Game \<Rightarrow> Game" where
  "updateDepth ks this =
     (if ''s'' \<in> ks then
        checkDepthRewards
          (this\<lparr>gameState := (gameState this)\<lparr>depth := Math_min 11000 (depth (gameState this) + 5)\<rparr>\<rparr>)
      else this)"

text \<open>The remainder operator \<^verbatim>\<open>%\<close> of JavaScript truncates the quotient towards zero.\<close>

definition js_rem :: "real \<Rightarrow> real \<Rightarrow> real" where
  "js_rem a b = a - b * of_int (if a / b \<ge> 0 then \<lfloor>a / b\<rfloor> else \<lceil>a / b\<rceil>)"

definition particleStep :: "particle \<Rightarrow> particle list \<times> world \<Rightarrow> particle list \<times> world" where
  "particleStep p st =
     (let (acc, wd) = st;
          newY = js_rem (particle_y p - particle_speed p + 600) 600;
          (now, wd') = Date_now wd;
          newX = particle_x p + sin (of_int now / 1000 + particle_y p) * 0.5
      in (acc @ [p\<lparr>particle_y := newY, particle_x := newX\<rparr>], wd'))"

definition updateParticles :: "Game \<Rightarrow> world \<Rightarrow> Game \<times> world" where
  "updateParticles this wd =
     (let (ps, wd') = forEach particleStep (particles this) ([], wd)
      in (this\<lparr>particles := ps\<rparr>, wd'))"

definition updateResources :: "Game \<Rightarrow> world \<Rightarrow> Game \<times> world" where
  "updateResources this wd =
     (let (now, wd') = Date_now wd in
      if now - lastResourceUpdate this \<ge> resourceUpdateInterval this then
        (let g1 = this\<lparr>lastResourceUpdate := now\<rparr>;
             gs = gameState g1;
             gs1 = gs\<lparr>oxygen := Math_max 0 (oxygen gs - 0.05)\<rparr>;
             gs2 = gs1\<lparr>energy := Math_min 100 (energy gs1 + 0.02)\<rparr>;
             gs3 = gs2\<lparr>sonarCooldown := Math_max 0 (sonarCooldown gs2 - 0.016)\<rparr>;
             g2 = g1\<lparr>gameState := gs3\<rparr>
         in (if oxygen (gameState g2) < 20 \<and> hint g2 = []
             then showHint ''Oxigenio baixo! Colete bolhas de ar!'' g2 else g2, wd'))
      else (this, wd'))"

definition monsterStep :: "bool \<Rightarrow> GameObject \<Rightarrow> GameObject list \<times> world \<Rightarrow> GameObject list \<times> world" where
  "monsterStep sonar m st =
     (let (acc, wd) = st;
          (now, wd') = Date_now wd;
          swimMotion = sin (of_int now / 500 + obj_x m) * 0.5;
          m1 = m\<lparr>obj_x := obj_x m + velocityX m\<rparr>;
          m2 = m1\<lparr>obj_y := obj_y m1 + (velocityY m1 + swimMotion)\<rparr>;
          m3 = (if obj_x m2 < -150 \<or> obj_x m2 > 950 then m2\<lparr>velocityX := - velocityX m2\<rparr> else m2);
          m4 = m3\<lparr>visible := sonar\<rparr>
      in (acc @ [m4], wd'))"

definition updateMonsters :: "Game \<Rightarrow> world \<Rightarrow> Game \<times> world" where
  "updateMonsters this wd =
     (let (ms, wd') = forEach (monsterStep (sonarActive (gameState this))) (monsters this) ([], wd)
      in (this\<lparr>monsters := ms\<rparr>, wd'))"

definition cullOffScreen :: "Game \<Rightarrow> Game" where
  "cullOffScreen this =
     (let g1 = this\<lparr>monsters := filter (\<lambda>m. \<not> isOffScreen m 800 600 (depth (gameState this))) (monsters this)\<rparr>;
          g2 = g1\<lparr>obstacles := filter (\<lambda>ob. \<not> isOffScreen ob 800 600 (depth (gameState g1))) (obstacles g1)\<rparr>;
          g3 = g2\<lparr>bubbles := filter (\<lambda>b. \<not> isOffScreen b 800 600 (depth (gameState g2))) (bubbles g2)\<rparr>
      in g3)"

definition monsterDamage :: "GameObject \<Rightarrow> Game \<Rightarrow> Game" where
  "monsterDamage monster this =
     (let damage = (if reinforcedHull (upgrades this) then 7 else 10);
          g1 = this\<lparr>gameState := (gameState this)\<lparr>health := Math_max 0 (health (gameState this) - damage)\<rparr>\<rparr>
      in showHint (if reinforcedHull (upgrades this) then ''-7 HP - Criatura marinha!''
                   else ''-10 HP - Criatura marinha!'') g1)"

definition obstacleDamage :: "GameObject \<Rightarrow> Game \<Rightarrow> Game" where
  "obstacleDamage obstacle this =
     (let damage = (if reinforcedHull (upgrades this) then 17 else 25);
          g1 = this\<lparr>gameState := (gameState this)\<lparr>health := Math_max 0 (health (gameState this) - damage)\<rparr>\<rparr>
      in showHint (if reinforcedHull (upgrades this) then ''-17 HP - Impacto com rocha!''
                   else ''-25 HP - Impacto com rocha!'') g1)"

definition monsterCollisionPhase :: "real \<Rightarrow> Game \<Rightarrow> world \<Rightarrow> Game \<times> world" where
  "monsterCollisionPhase camOffset this wd =
     (let (monsterCollisions, cd, wd') =
            checkMonsterCollisions (collisionDetector this) (submarine this) (monsters this)
              (depth (gameState this)) camOffset wd;
          g1 = forEach monsterDamage monsterCollisions (this\<lparr>collisionDetector := cd\<rparr>)
      in (g1\<lparr>monsters := filter (\<lambda>m. m \<notin> set monsterCollisions) (monsters g1)\<rparr>, wd'))"

definition obstacleCollisionPhase :: "real \<Rightarrow> Game \<Rightarrow> world \<Rightarrow> Game \<times> world" where
  "obstacleCollisionPhase camOffset this wd =
     (let (obstacleCollisions, cd, wd') =
            checkObstacleCollisions (collisionDetector this) (submarine this) (obstacles this)
              (depth (gameState this)) camOffset wd;
          g1 = forEach obstacleDamage obstacleCollisions (this\<lparr>collisionDetector := cd\<rparr>)
      in (g1\<lparr>obstacles := filter (\<lambda>ob. ob \<notin> set obstacleCollisions) (obstacles g1)\<rparr>, wd'))"

text \<open>The oxygen message shows \<^verbatim>\<open>15 * bubbleCollisions.length\<close> in decimal.\<close>

fun show_nat :: "nat \<Rightarrow> string" where
  "show_nat n =
     (if n < 10 then [''0123456789'' ! n]
      else show_nat (n div 10) @ [''0123456789'' ! (n mod 10)])"

declare show_nat.simps [simp del]

definition bubbleCollisionPhase :: "real \<Rightarrow> Game \<Rightarrow> world \<Rightarrow> Game \<times> world" where
  "bubbleCollisionPhase camOffset this wd =
     (let (bubbleCollisions, cd, wd') =
            checkBubbleCollisions (collisionDetector this) (submarine this) (bubbles this)
              (depth (gameState this)) camOffset wd;
          g0 = this\<lparr>collisionDetector := cd\<rparr>;
          g1 = (if length bubbleCollisions > 0 then
                  showHint (''+'' @ show_nat (15 * length bubbleCollisions) @ '' Oxigenio!'')
                    (g0\<lparr>gameState := (gameState g0)\<lparr>oxygen :=
                          Math_min 100 (oxygen (gameState g0) + 15 * real (length bubbleCollisions))\<rparr>\<rparr>)
                else g0)
      in (g1\<lparr>bubbles := filter (\<lambda>b. b \<notin> set bubbleCollisions) (bubbles g1)\<rparr>, wd'))"

text \<open>\<^verbatim>\<open>spawnMonsters\<close>: one iteration of the \<^verbatim>\<open>for\<close> loop, the loop, and the method.  The
  draws are taken in the order in which the source evaluates them.\<close>

definition monsterTypes :: "string list" where
  "monsterTypes = [''squid'', ''angler'', ''viper'', ''shark'']"

definition spawnOneMonster :: "real \<Rightarrow> Game \<times> world \<Rightarrow> Game \<times> world" where
  "spawnOneMonster currentDepth st =
     (let (this, wd) = st;
          (r1, wd1) = Math_random wd;
          ty = monsterTypes ! nat \<lfloor>r1 * real (length monsterTypes)\<rfloor>;
          depthMultiplier = 1 + currentDepth / 5000;
          (r2, wd2) = Math_random wd1;
          direction = (if r2 > 0.5 then 1 else -1);
          baseSpeed = (if ty = ''viper'' then 1.5 else if ty = ''shark'' then 1.2
                       else if ty = ''squid'' then 0.8 else 0.6);
          (r3, wd3) = Math_random wd2;
          (monster, wd4) =
             new_GameObject (if direction > 0 then -100 else 900)
               (currentDepth + 600 + r3 * 400)
               (if ty = ''shark'' then 150 else if ty = ''angler'' then 100
                else if ty = ''viper'' then 120 else 80)
               (if ty = ''shark'' then 100 else if ty = ''angler'' then 80
                else if ty = ''viper'' then 60 else 80)
               ty wd3;
          m1 = monster\<lparr>obj_id := nextMonsterId this\<rparr>;
          g1 = this\<lparr>nextMonsterId := Suc (nextMonsterId this)\<rparr>;
          m2 = m1\<lparr>velocityX := direction * baseSpeed * (1 + currentDepth / 10000)\<rparr>;
          (r4, wd5) = Math_random wd4;
          m3 = m2\<lparr>velocityY := (r4 - 0.5) * 0.3\<rparr>;
          m4 = m3\<lparr>obj_health := of_int \<lfloor>(if ty = ''shark'' then 200 else if ty = ''angler'' then 150
                                            else if ty = ''viper'' then 120 else 100) * depthMultiplier\<rfloor>\<rparr>;
          m5 = m4\<lparr>obj_speed := baseSpeed * (1 + currentDepth / 10000)\<rparr>;
          m6 = m5\<lparr>visible := False\<rparr>
      in (g1\<lparr>monsters := monsters g1 @ [m6]\<rparr>, wd5))"

fun spawnMonsterLoop :: "nat \<Rightarrow> real \<Rightarrow> Game \<times> world \<Rightarrow> Game \<times> world" where
  "spawnMonsterLoop 0 currentDepth st = st"
| "spawnMonsterLoop (Suc n) currentDepth st =
     spawnMonsterLoop n currentDepth (spawnOneMonster currentDepth st)"

definition spawnMonsters :: "Game \<Rightarrow> world \<Rightarrow> Game \<times> world" where
  "spawnMonsters this wd =
     (let currentDepth = depth (gameState this);
          (r0, wd1) = Math_random wd
      in if currentDepth - lastSpawnDepth this \<ge> 400 + r0 * 300 then
           (let g1 = this\<lparr>lastSpawnDepth := currentDepth\<rparr>;
                enemyCount = min (1 + \<lfloor>currentDepth / 2000\<rfloor>) 3
            in spawnMonsterLoop (nat enemyCount) currentDepth (g1, wd1))
         else (this, wd1))"

text \<open>\<^verbatim>\<open>spawnProceduralElements\<close>: \<^verbatim>\<open>&&\<close> draws a random number only when the list is short
  enough.\<close>

definition spawnObstacle :: "Game \<Rightarrow> world \<Rightarrow> Game \<times> world" where
  "spawnObstacle this wd =
     (let currentDepth = depth (gameState this) in
      if length (obstacles this) < 4 then
        (let (r0, wd0) = Math_random wd in
         if r0 < 0.02 then
           (let (r1, wd1) = Math_random wd0;
                (r2, wd2) = Math_random wd1;
                (r3, wd3) = Math_random wd2;
                (r4, wd4) = Math_random wd3;
                (obstacle, wd5) =
                   new_GameObject (r1 * 700 + 50) (currentDepth + 400 + r2 * 400)
                     (80 + r3 * 40) (80 + r4 * 40) ''rock'' wd4;
                ob1 = obstacle\<lparr>obj_id := nextMonsterId this\<rparr>;
                g1 = this\<lparr>nextMonsterId := Suc (nextMonsterId this)\<rparr>
            in (g1\<lparr>obstacles := obstacles g1 @ [ob1]\<rparr>, wd5))
         else (this, wd0))
      else (this, wd))"

definition spawnBubble :: "Game \<Rightarrow> world \<Rightarrow> Game \<times> world" where
  "spawnBubble this wd =
     (let currentDepth = depth (gameState this) in
      if length (bubbles this) < 5 then
        (let (r0, wd0) = Math_random wd in
         if r0 < 0.025 then
           (let (r1, wd1) = Math_random wd0;
                (r2, wd2) = Math_random wd1;
                (bubble, wd3) =
                   new_GameObject (r1 * 750 + 25) (currentDepth + 500 + r2 * 300) 40 40 ''bubble'' wd2;
                b1 = bubble\<lparr>obj_id := nextMonsterId this\<rparr>;
                g1 = this\<lparr>nextMonsterId := Suc (nextMonsterId this)\<rparr>
            in (g1\<lparr>bubbles := bubbles g1 @ [b1]\<rparr>, wd3))
         else (this, wd0))
      else (this, wd))"

definition spawnProceduralElements :: "Game \<Rightarrow> world \<Rightarrow> Game \<times> world" where
  "spawnProceduralElements this wd =
     (let (g1, wd1) = spawnObstacle this wd in spawnBubble g1 wd1)"

text \<open>\<^verbatim>\<open>endGame(reason, finalScore)\<close>: the final score only goes to the game-over screen.\<close>

definition endGame :: "string \<Rightarrow> real \<Rightarrow> Game \<Rightarrow> Game" where
  "endGame reason finalScore this = this\<lparr>gameOverTriggered := True, gameOverReason := reason\<rparr>"

definition checkGameOver :: "Game \<Rightarrow> Game" where
  "checkGameOver this =
     (if depth (gameState this) \<ge> 11000 then
        endGame ''Vitoria! Voce alcancou o fundo do abismo!'' (score (gameState this) + 10000) this
      else if oxygen (gameState this) \<le> 0 then
        endGame ''Oxigenio esgotado!'' (score (gameState this)) this
      else if health (gameState this) \<le> 0 then
        endGame ''Submarino destruido!'' (score (gameState this)) this
      else this)"

text \<open>Truthiness of \<^verbatim>\<open>this.menuOpen\<close>: \<^verbatim>\<open>null\<close> and the empty string are falsy.\<close>

definition menuIsOpen :: "Game \<Rightarrow> bool" where
  "menuIsOpen this = (case menuOpen this of None \<Rightarrow> False | Some name \<Rightarrow> name \<noteq> [])"

text \<open>\<^verbatim>\<open>Game.update\<close> after its guard, in two halves: everything up to and including the
  removal of off-screen objects, and everything from the collision checks on.\<close>

definition tickUpToCull :: "Game \<Rightarrow> real \<Rightarrow> world \<Rightarrow> Game \<times> world" where
  "tickUpToCull this deltaTime wd =
     (let g1 = this\<lparr>inputHandler := updateCameraOffset (inputHandler this)\<rparr>;
          ks = keys (inputHandler g1);
          (sub, worldOffsetY) = Submarine_update (submarine g1) ks deltaTime;
          g2 = g1\<lparr>submarine := sub\<rparr>;
          g3 = moveWorldObjects worldOffsetY g2;
          g4 = updateDepth ks g3;
          g5 = g4\<lparr>renderer := updateDepthColor (renderer g4) (depth (gameState g4))\<rparr>;
          (g6, wd1) = updateParticles g5 wd;
          (g7, wd2) = updateResources g6 wd1;
          (g8, wd3) = updateMonsters g7 wd2
      in (cullOffScreen g8, wd3))"

definition tickFromCollisions :: "Game \<Rightarrow> world \<Rightarrow> Game \<times> world" where
  "tickFromCollisions this wd =
     (let camOffset = cameraOffset (inputHandler this);
          (g1, wd1) = monsterCollisionPhase camOffset this wd;
          (g2, wd2) = obstacleCollisionPhase camOffset g1 wd1;
          (g3, wd3) = bubbleCollisionPhase camOffset g2 wd2;
          (g4, wd4) = spawnMonsters g3 wd3;
          (g5, wd5) = spawnProceduralElements g4 wd4
      in (checkGameOver g5, wd5))"

definition update :: "Game \<Rightarrow> real \<Rightarrow> world \<Rightarrow> Game \<times> world" where
  "update this deltaTime wd =
     (if gameOverTriggered this \<or> menuIsOpen this then (this, wd)
      else (let (g1, wd1) = tickUpToCull this deltaTime wd in tickFromCollisions g1 wd1))"

definition restart :: "Game \<Rightarrow> world \<Rightarrow> Game \<times> world" where
  "restart this wd =
     (let g1 = this\<lparr>gameState := initialGameState, monsters := [], obstacles := [], bubbles := []\<rparr>;
          (g2, wd1) = initializeParticles g1 wd;
          g3 = g2\<lparr>upgrades := initialUpgrades, nextMonsterId := 1, lastSpawnDepth := 0,
                  lastResourceUpdate := 0, gameOverTriggered := False, gameOverReason := [],
                  debugMode := False, menuOpen := None, hint := [], claimedRewards := {}\<rparr>;
          g4 = g3\<lparr>submarine := Submarine_reset (submarine g3),
                  inputHandler := InputHandler_reset (inputHandler g3),
                  collisionDetector := CollisionDetector_reset (collisionDetector g3),
                  renderer := Renderer_reset (renderer g3)\<rparr>
      in (g4, wd1))"

text \<open>The body of \<^verbatim>\<open>gameLoop\<close> in \<^verbatim>\<open>Game.start\<close>; of \<^verbatim>\<open>render\<close> only its one effect on the
  state, the call of \<^verbatim>\<open>updateDepthColor\<close>, is kept.\<close>

definition gameLoop :: "real \<Rightarrow> Game \<Rightarrow> world \<Rightarrow> Game \<times> world" where
  "gameLoop currentTime this wd =
     (let deltaTime = currentTime - lastFrameTime this;
          g1 = this\<lparr>lastFrameTime := currentTime\<rparr>;
          clampedDeltaTime = Math_min deltaTime 16;
          (g2, wd1) = update g1 clampedDeltaTime wd
      in (g2\<lparr>renderer := updateDepthColor (renderer g2) (depth (gameState g2))\<rparr>, wd1))"

subsection \<open>Events\<close>

text \<open>Everything that can happen to a running game: an animation frame, the keyboard and
  wheel listeners, the click listeners of the restart and close buttons, and the two timers
  (\<^verbatim>\<open>setTimeout\<close> in \<^verbatim>\<open>activateSonar\<close> and in \<^verbatim>\<open>showHint\<close>), which may fire at any time.\<close>

datatype event =
    Frame real
  | KeyDown string
  | KeyUp string
  | Wheel real
  | ClickRestart
  | ClickCloseMenu
  | SonarTimeout
  | HintTimeout

fun step :: "event \<Rightarrow> Game \<times> world \<Rightarrow> Game \<times> world" where
  "step (Frame currentTime) (this, wd) = gameLoop currentTime this wd"
| "step (KeyDown key) (this, wd) = (handleKeyDown key this, wd)"
| "step (KeyUp key) (this, wd) = (this\<lparr>inputHandler := handleKeyUp (inputHandler this) key\<rparr>, wd)"
| "step (Wheel deltaY) (this, wd) = (this\<lparr>inputHandler := handleWheel (inputHandler this) deltaY\<rparr>, wd)"
| "step ClickRestart (this, wd) = restart this wd"
| "step ClickCloseMenu (this, wd) = (closeMenu this, wd)"
| "step SonarTimeout (this, wd) = (this\<lparr>gameState := (gameState this)\<lparr>sonarActive := False\<rparr>\<rparr>, wd)"
| "step HintTimeout (this, wd) = (this\<lparr>hint := []\<rparr>, wd)"

text \<open>A run: the events after the construction of the game or after a restart.\<close>

fun run :: "event list \<Rightarrow> Game \<times> world \<Rightarrow> Game \<times> world" where
  "run [] st = st"
| "run (e # es) st = run es (step e st)"

text \<open>How often the events of a run end the game: the number of events across which
  \<^verbatim>\<open>gameOverTriggered\<close> goes from \<^verbatim>\<open>false\<close> to \<^verbatim>\<open>true\<close>, which is what a call of
  \<^verbatim>\<open>endGame\<close> from \<^verbatim>\<open>update\<close> does.\<close>

fun gameOverTriggers :: "event list \<Rightarrow> Game \<times> world \<Rightarrow> nat" where
  "gameOverTriggers [] st = 0"
| "gameOverTriggers (e # es) st =
     (if \<not> gameOverTriggered (fst st) \<and> gameOverTriggered (fst (step e st)) then 1 else 0)
       + gameOverTriggers es (step e st)"

inductive reachable :: "Game \<times> world \<Rightarrow> bool" where
  reach_new: "reachable (new_Game wd)"
| reach_step: "reachable st \<Longrightarrow> reachable (step e st)"

subsection \<open>Sequences of detection calls\<close>

text \<open>A call of one of the three passes of the collision detector with its arguments, the
  effect of a sequence of such calls on the detector and the world, and the objects that
  the monster and obstacle passes of the sequence report.\<close>

datatype detection =
    MonsterPass Submarine "GameObject list" real real
  | ObstaclePass Submarine "GameObject list" real real
  | BubblePass Submarine "GameObject list" real real

fun detect :: "detection \<Rightarrow> CollisionDetector \<times> world \<Rightarrow> GameObject list \<times> CollisionDetector \<times> world" where
  "detect (MonsterPass sub objs d c) (cd, wd) = checkMonsterCollisions cd sub objs d c wd"
| "detect (ObstaclePass sub objs d c) (cd, wd) = checkObstacleCollisions cd sub objs d c wd"
| "detect (BubblePass sub objs d c) (cd, wd) = checkBubbleCollisions cd sub objs d c wd"

fun passObjects :: "detection \<Rightarrow> GameObject list" where
  "passObjects (MonsterPass sub objs d c) = objs"
| "passObjects (ObstaclePass sub objs d c) = objs"
| "passObjects (BubblePass sub objs d c) = objs"

fun cooldownGated :: "detection \<Rightarrow> bool" where
  "cooldownGated (BubblePass sub objs d c) = False"
| "cooldownGated p = True"

fun afterDetections :: "detection list \<Rightarrow> CollisionDetector \<times> world \<Rightarrow> CollisionDetector \<times> world" where
  "afterDetections [] st = st"
| "afterDetections (p # ps) st = afterDetections ps (snd (detect p st))"

fun gatedReports :: "detection list \<Rightarrow> CollisionDetector \<times> world \<Rightarrow> GameObject list" where
  "gatedReports [] st = []"
| "gatedReports (p # ps) st =
     (if cooldownGated p then fst (detect p st) else []) @ gatedReports ps (snd (detect p st))"

subsection \<open>Predicates of the properties\<close>

definition resourcesInRange :: "gameState \<Rightarrow> bool" where
  "resourcesInRange gs =
     (0 \<le> health gs \<and> health gs \<le> 100 \<and> 0 \<le> energy gs \<and> energy gs \<le> 100 \<and>
      0 \<le> oxygen gs \<and> oxygen gs \<le> 100 \<and> 0 \<le> depth gs \<and> depth gs \<le> 11000)"

definition verticalInRange :: "Submarine \<Rightarrow> bool" where
  "verticalInRange sub =
     (centerY sub - maxVerticalOffset sub \<le> screenY sub \<and>
      screenY sub \<le> centerY sub + maxVerticalOffset sub)"

definition liveObjects :: "Game \<Rightarrow> GameObject list" where
  "liveObjects this = monsters this @ obstacles this @ bubbles this"

definition liveIds :: "Game \<Rightarrow> nat set" where
  "liveIds this = obj_id ` set (liveObjects this)"

definition idsValid :: "Game \<Rightarrow> bool" where
  "idsValid this =
     (distinct (map obj_id (liveObjects this)) \<and> (\<forall>i \<in> liveIds this. i < nextMonsterId this))"

text \<open>An id that has been handed out and whose object is gone.\<close>

definition retiredId :: "nat \<Rightarrow> Game \<Rightarrow> bool" where
  "retiredId i this = (i < nextMonsterId this \<and> i \<notin> liveIds this)"

definition allOnScreen :: "Game \<Rightarrow> bool" where
  "allOnScreen this =
     (\<forall>ob \<in> set (liveObjects this). \<not> isOffScreen ob 800 600 (depth (gameState this)))"

definition spawnedAt :: "real \<Rightarrow> nat \<Rightarrow> GameObject \<Rightarrow> bool" where
  "spawnedAt d i ob = (obj_id ob = i \<and> - 100 \<le> obj_x ob \<and> obj_x ob \<le> 900 \<and>
                       d + 400 \<le> obj_y ob \<and> obj_y ob < d + 1000)"

text \<open>The rewards that a call of \<^verbatim>\<open>checkDepthRewards\<close> claims, and the state of the
  rewards in which every threshold reached so far has paid its points once.\<close>

definition newlyClaimed :: "Game \<Rightarrow> reward list" where
  "newlyClaimed this =
     filter (\<lambda>rw. depth (gameState this) \<ge> reward_depth rw \<and> reward_depth rw \<notin> claimedRewards this)
       rewards"

definition rewardsPaidOnce :: "Game \<Rightarrow> bool" where
  "rewardsPaidOnce this =
     (claimedRewards this = {t \<in> reward_depth ` set rewards. t \<le> depth (gameState this)} \<and>
      score (gameState this) =
        sum_list (map reward_points (filter (\<lambda>rw. reward_depth rw \<le> depth (gameState this)) rewards)))"

text \<open>The off-screen predicate in the words of the specification, for the 800 pixel wide
  viewport of the game.\<close>

definition offScreenRule :: "GameObject \<Rightarrow> real \<Rightarrow> bool" where
  "offScreenRule ob d = (obj_x ob < -200 \<or> obj_x ob > 800 + 200 \<or> \<bar>obj_y ob - d\<bar> > 1200)"

subsection \<open>Concrete inputs\<close>

definition exampleWorld :: world where
  "exampleWorld = \<lparr>clock = (\<lambda>n. 1000 + int n), clockReads = 0, random = (\<lambda>n. 1 / 2), randomDraws = 0\<rparr>"

definition exampleSubmarine :: Submarine where
  "exampleSubmarine = fst (new_Submarine 350 270 100 60 exampleWorld)"

text \<open>The game as its constructor leaves it in \<open>exampleWorld\<close>, without the decorative
  particles.\<close>

definition exampleGame :: Game where
  "exampleGame =
     \<lparr>renderer = new_Renderer, inputHandler = new_InputHandler,
      collisionDetector = new_CollisionDetector, submarine = exampleSubmarine,
      gameState = initialGameState, monsters = [], obstacles = [], bubbles = [],
      particles = [], upgrades = initialUpgrades, nextMonsterId = 1,
      lastSpawnDepth = 0, lastResourceUpdate = 0, resourceUpdateInterval = 50,
      gameOverTriggered = False, gameOverReason = [], debugMode = False,
      menuOpen = None, hint = [], claimedRewards = {}, lastFrameTime = 1001\<rparr>"

definition exampleObject :: "string \<Rightarrow> nat \<Rightarrow> GameObject" where
  "exampleObject ty i =
     \<lparr>obj_x = 400, obj_y = 0, obj_width = 100, obj_height = 50, obj_type = ty,
      velocityX = 0, velocityY = 0, obj_health = 0, obj_speed = 0, obj_id = i,
      visible = False, createdAt = 0\<rparr>"

text \<open>Variations of \<open>exampleGame\<close>: a weakened submarine touching a rock (id 2) and a
  bubble (id 1); the submarine 5 m above the bottom with the descend key held, all rewards
  claimed, and no oxygen or health left; no oxygen and no health at the surface; no health
  only; the submarine at the third threshold with the descend key held and no reward
  claimed so far; a game that is over; a rock beyond the right margin (id 1) and a distant
  bubble (id 2).\<close>

definition brittleGame :: Game where
  "brittleGame = exampleGame
     \<lparr>gameState := initialGameState\<lparr>oxygen := 95, health := 5\<rparr>,
      bubbles := [exampleObject ''bubble'' 1], obstacles := [exampleObject ''rock'' 2],
      nextMonsterId := 3\<rparr>"

definition bottomGame :: Game where
  "bottomGame = exampleGame
     \<lparr>gameState := initialGameState\<lparr>depth := 10995, oxygen := 0, health := 0, score := 3500\<rparr>,
      inputHandler := new_InputHandler\<lparr>keys := {''s''}\<rparr>,
      claimedRewards := {2000, 4000, 6000}, lastSpawnDepth := 10800\<rparr>"

definition airlessGame :: Game where
  "airlessGame = exampleGame\<lparr>gameState := initialGameState\<lparr>oxygen := 0, health := 0\<rparr>\<rparr>"

definition wreckedGame :: Game where
  "wreckedGame = exampleGame\<lparr>gameState := initialGameState\<lparr>health := 0\<rparr>\<rparr>"

definition plungingGame :: Game where
  "plungingGame = exampleGame
     \<lparr>gameState := initialGameState\<lparr>depth := 6000, oxygen := 50\<rparr>,
      inputHandler := new_InputHandler\<lparr>keys := {''s''}\<rparr>, lastSpawnDepth := 5800\<rparr>"

definition finishedGame :: Game where
  "finishedGame = exampleGame\<lparr>gameOverTriggered := True, gameOverReason := ''Oxigenio esgotado!''\<rparr>"

definition strayRock :: GameObject where
  "strayRock = (exampleObject ''rock'' 1)\<lparr>obj_x := 1500\<rparr>"

definition farBubble :: GameObject where
  "farBubble = (exampleObject ''bubble'' 2)\<lparr>obj_y := 700\<rparr>"

definition clutteredGame :: Game where
  "clutteredGame = exampleGame\<lparr>obstacles := [strayRock], bubbles := [farBubble], nextMonsterId := 3\<rparr>"

definition lateWorld :: world where
  "lateWorld = exampleWorld\<lparr>clockReads := 100\<rparr>"

definition exampleDetector :: CollisionDetector where
  "exampleDetector = new_CollisionDetector\<lparr>collisionCooldown := [7 \<mapsto> 1000]\<rparr>"

section \<open>Geometry: hitboxes and the coordinate transform\<close>

lemma exampleObject_simps:
  "obj_x (exampleObject ty i) = 400" "obj_y (exampleObject ty i) = 0"
  "obj_width (exampleObject ty i) = 100" "obj_height (exampleObject ty i) = 50"
  "obj_type (exampleObject ty i) = ty" "obj_id (exampleObject ty i) = i"
  by (simp_all add: exampleObject_def)


lemma exampleSubmarine_simps:
  "screenX exampleSubmarine = 350" "screenY exampleSubmarine = 270" "centerY exampleSubmarine = 270"
  "maxVerticalOffset exampleSubmarine = 80" "moveSpeed exampleSubmarine = 0.18"
  "rotation exampleSubmarine = 0" "targetRotation exampleSubmarine = 0"
  "obj_width exampleSubmarine = 100" "obj_height exampleSubmarine = 60"
  "obj_x exampleSubmarine = 350" "obj_y exampleSubmarine = 270"
  "obj_type exampleSubmarine = ''submarine''"
  "hitboxOffsetX exampleSubmarine = 22.5" "hitboxOffsetY exampleSubmarine = 16.5"
  "hitboxWidth exampleSubmarine = 55" "hitboxHeight exampleSubmarine = 27"
  by (simp_all add: exampleSubmarine_def new_Submarine_def new_GameObject_def Date_now_def
      exampleWorld_def GameObject.extend_def Submarine.fields_def)

lemma Submarine_update_delta:
  "snd (Submarine_update s ks dt) =
     (if ''s'' \<in> ks then - (moveSpeed s * dt) else if ''w'' \<in> ks then moveSpeed s * dt else 0)"
  by (simp add: Submarine_update_def Let_def)

lemma Submarine_update_screenY:
  "screenY (fst (Submarine_update s ks dt)) =
     (let y1 = (if ''w'' \<in> ks then Math_max (centerY s - maxVerticalOffset s) (screenY s - moveSpeed s * dt * 0.5)
                else screenY s)
      in if ''s'' \<in> ks then Math_min (centerY s + maxVerticalOffset s) (y1 + moveSpeed s * dt * 0.5) else y1)"
  "centerY (fst (Submarine_update s ks dt)) = centerY s"
  "maxVerticalOffset (fst (Submarine_update s ks dt)) = maxVerticalOffset s"
  by (simp_all add: Submarine_update_def Let_def)


text \<open>
  \<^bold>\<open>C8\<close> (unknown-kind degradation).  For an object whose type is none of the six known
  kinds, \<^verbatim>\<open>getHitbox\<close> returns the full rectangle \<open>{x, y, width, height}\<close>; for each known
  kind it returns the rectangle shrunk and offset by that kind's fractions; and the result
  depends on nothing but the type and \<open>x, y, width, height\<close>.  The function is total on
  every object, also on a \<^verbatim>\<open>Submarine\<close>.
\<close>

theorem getHitbox_by_kind:
  "(obj_type ob \<notin> {''shark'', ''squid'', ''angler'', ''viper'', ''rock'', ''bubble''} \<longrightarrow>
      getHitbox ob = \<lparr>rect_x = obj_x ob, rect_y = obj_y ob, rect_width = obj_width ob,
                      rect_height = obj_height ob\<rparr>) \<and>
   (obj_type ob = ''shark'' \<longrightarrow>
      getHitbox ob = \<lparr>rect_x = obj_x ob + obj_width ob * 0.1, rect_y = obj_y ob + obj_height ob * 0.2,
                      rect_width = obj_width ob * 0.8, rect_height = obj_height ob * 0.6\<rparr>) \<and>
   (obj_type ob = ''squid'' \<longrightarrow>
      getHitbox ob = \<lparr>rect_x = obj_x ob + obj_width ob * 0.2, rect_y = obj_y ob + obj_height ob * 0.1,
                      rect_width = obj_width ob * 0.6, rect_height = obj_height ob * 0.8\<rparr>) \<and>
   (obj_type ob = ''angler'' \<longrightarrow>
      getHitbox ob = \<lparr>rect_x = obj_x ob + obj_width ob * 0.15, rect_y = obj_y ob + obj_height ob * 0.2,
                      rect_width = obj_width ob * 0.7, rect_height = obj_height ob * 0.6\<rparr>) \<and>
   (obj_type ob = ''viper'' \<longrightarrow>
      getHitbox ob = \<lparr>rect_x = obj_x ob + obj_width ob * 0.05, rect_y = obj_y ob + obj_height ob * 0.1,
                      rect_width = obj_width ob * 0.9, rect_height = obj_height ob * 0.8\<rparr>) \<and>
   (obj_type ob = ''rock'' \<longrightarrow>
      getHitbox ob = \<lparr>rect_x = obj_x ob + obj_width ob * 0.1, rect_y = obj_y ob + obj_height ob * 0.1,
                      rect_width = obj_width ob * 0.8, rect_height = obj_height ob * 0.8\<rparr>) \<and>
   (obj_type ob = ''bubble'' \<longrightarrow>
      getHitbox ob = \<lparr>rect_x = obj_x ob + obj_width ob * 0.15, rect_y = obj_y ob + obj_height ob * 0.15,
                      rect_width = obj_width ob * 0.7, rect_height = obj_height ob * 0.7\<rparr>) \<and>
   (obj_type ob = obj_type ob' \<and> obj_x ob = obj_x ob' \<and> obj_y ob = obj_y ob' \<and>
    obj_width ob = obj_width ob' \<and> obj_height ob = obj_height ob' \<longrightarrow> getHitbox ob = getHitbox ob')"
  by (simp add: getHitbox_def Let_def)

theorem getHitbox_by_kind_witness:
  "getHitbox exampleSubmarine = \<lparr>rect_x = 350, rect_y = 270, rect_width = 100, rect_height = 60\<rparr> \<and>
   getHitbox (exampleObject ''kraken'' 1) = \<lparr>rect_x = 400, rect_y = 0, rect_width = 100, rect_height = 50\<rparr> \<and>
   getHitbox (exampleObject ''shark'' 1) = \<lparr>rect_x = 410, rect_y = 10, rect_width = 80, rect_height = 30\<rparr> \<and>
   getHitbox (exampleObject ''squid'' 1) = \<lparr>rect_x = 420, rect_y = 5, rect_width = 60, rect_height = 40\<rparr> \<and>
   getHitbox (exampleObject ''angler'' 1) = \<lparr>rect_x = 415, rect_y = 10, rect_width = 70, rect_height = 30\<rparr> \<and>
   getHitbox (exampleObject ''viper'' 1) = \<lparr>rect_x = 405, rect_y = 5, rect_width = 90, rect_height = 40\<rparr> \<and>
   getHitbox (exampleObject ''rock'' 1) = \<lparr>rect_x = 410, rect_y = 5, rect_width = 80, rect_height = 40\<rparr> \<and>
   getHitbox (exampleObject ''bubble'' 1) = \<lparr>rect_x = 415, rect_y = 7.5, rect_width = 70, rect_height = 35\<rparr> \<and>
   getHitbox (exampleObject ''rock'' 1) = getHitbox (exampleObject ''rock'' 2)"
  using getHitbox_by_kind [of exampleSubmarine exampleSubmarine]
    getHitbox_by_kind [of "exampleObject ''kraken'' 1" "exampleObject ''kraken'' 1"]
    getHitbox_by_kind [of "exampleObject ''shark'' 1" "exampleObject ''shark'' 1"]
    getHitbox_by_kind [of "exampleObject ''squid'' 1" "exampleObject ''squid'' 1"]
    getHitbox_by_kind [of "exampleObject ''angler'' 1" "exampleObject ''angler'' 1"]
    getHitbox_by_kind [of "exampleObject ''viper'' 1" "exampleObject ''viper'' 1"]
    getHitbox_by_kind [of "exampleObject ''rock'' 1" "exampleObject ''rock'' 2"]
    getHitbox_by_kind [of "exampleObject ''bubble'' 1" "exampleObject ''bubble'' 1"]
  by (auto simp: exampleSubmarine_simps exampleObject_simps)

text \<open>
  \<^bold>\<open>C10\<close> (hitbox containment).  For an object of non-negative width and height, whatever
  its type, the rectangle returned by \<^verbatim>\<open>getHitbox\<close> lies inside the full bounding box:
  its left and top edges are not before \<open>x\<close> and \<open>y\<close>, its right and bottom edges not after
  \<open>x + width\<close> and \<open>y + height\<close>.
\<close>

theorem getHitbox_contained:
  "0 \<le> obj_width ob \<Longrightarrow> 0 \<le> obj_height ob \<Longrightarrow>
   rect_x (getHitbox ob) \<ge> obj_x ob \<and> rect_y (getHitbox ob) \<ge> obj_y ob \<and>
   rect_x (getHitbox ob) + rect_width (getHitbox ob) \<le> obj_x ob + obj_width ob \<and>
   rect_y (getHitbox ob) + rect_height (getHitbox ob) \<le> obj_y ob + obj_height ob"
  by (simp add: getHitbox_def Let_def)

theorem getHitbox_contained_witness:
  "(0::real) \<le> 100 \<and> (0::real) \<le> 50 \<and>
   rect_x (getHitbox (exampleObject ''shark'' 1)) \<ge> 400 \<and>
   rect_y (getHitbox (exampleObject ''shark'' 1)) \<ge> 0 \<and>
   rect_x (getHitbox (exampleObject ''shark'' 1)) + rect_width (getHitbox (exampleObject ''shark'' 1)) \<le> 400 + 100 \<and>
   rect_y (getHitbox (exampleObject ''shark'' 1)) + rect_height (getHitbox (exampleObject ''shark'' 1)) \<le> 0 + 50"
  using getHitbox_contained [of "exampleObject ''shark'' 1"]
  by (simp add: exampleObject_simps)

section \<open>The player craft\<close>

text \<open>
  What \<^verbatim>\<open>Submarine.update\<close> guarantees for every key set and every \<open>deltaTime\<close>.  With
  \<open>speed = moveSpeed * deltaTime\<close>: only \<^verbatim>\<open>w\<close> held returns \<open>+speed\<close>, only \<^verbatim>\<open>s\<close> held returns
  \<open>-speed\<close>, neither returns \<open>0\<close>, both held returns \<open>-speed\<close> (the later \<^verbatim>\<open>if\<close> overwrites the
  earlier one).
\<close>

lemma Submarine_update_deltas:
  "(''w'' \<in> ks \<and> ''s'' \<notin> ks \<longrightarrow> snd (Submarine_update s ks dt) = moveSpeed s * dt) \<and>
   (''s'' \<in> ks \<and> ''w'' \<notin> ks \<longrightarrow> snd (Submarine_update s ks dt) = - (moveSpeed s * dt)) \<and>
   (''w'' \<notin> ks \<and> ''s'' \<notin> ks \<longrightarrow> snd (Submarine_update s ks dt) = 0) \<and>
   (''w'' \<in> ks \<and> ''s'' \<in> ks \<longrightarrow> snd (Submarine_update s ks dt) = - (moveSpeed s * dt))"
  by (auto simp: Submarine_update_delta)

lemma Submarine_update_deltas_example:
  "snd (Submarine_update exampleSubmarine {''w''} 16) = 2.88 \<and>
   snd (Submarine_update exampleSubmarine {''s''} 16) = - 2.88 \<and>
   snd (Submarine_update exampleSubmarine {} 16) = 0 \<and>
   snd (Submarine_update exampleSubmarine {''w'', ''s''} 16) = - 2.88"
  using Submarine_update_deltas [of "{''w''}" exampleSubmarine 16]
    Submarine_update_deltas [of "{''s''}" exampleSubmarine 16]
    Submarine_update_deltas [of "{}" exampleSubmarine 16]
    Submarine_update_deltas [of "{''w'', ''s''}" exampleSubmarine 16]
  by (simp add: exampleSubmarine_simps)

text \<open>
  The \<^verbatim>\<open>w\<close> branch clamps \<open>screenY\<close> from below only (\<^verbatim>\<open>Math.max\<close>) and the \<^verbatim>\<open>s\<close> branch from
  above only (\<^verbatim>\<open>Math.min\<close>).  So an update keeps \<open>screenY\<close> within
  \<open>[centerY - maxVerticalOffset, centerY + maxVerticalOffset]\<close> when \<open>speed\<close> is not negative, and
  also, whatever \<open>speed\<close> is, when both of \<^verbatim>\<open>w\<close> and \<^verbatim>\<open>s\<close> are held or none of them is.
\<close>

lemma Submarine_update_bound:
  "(0 \<le> moveSpeed s * dt \<or> (''w'' \<in> ks \<longleftrightarrow> ''s'' \<in> ks)) \<Longrightarrow> verticalInRange s \<Longrightarrow>
   verticalInRange (fst (Submarine_update s ks dt))"
  by (auto simp: verticalInRange_def Submarine_update_screenY Math_max_def Math_min_def Let_def)

lemma Submarine_update_bound_example:
  "verticalInRange exampleSubmarine \<and>
   verticalInRange (fst (Submarine_update exampleSubmarine {''w''} 16)) \<and>
   verticalInRange (fst (Submarine_update exampleSubmarine {''w'', ''s''} (- 1000))) \<and>
   verticalInRange (fst (Submarine_update exampleSubmarine {} (- 1000)))"
  using Submarine_update_bound [of exampleSubmarine 16 "{''w''}"]
    Submarine_update_bound [of exampleSubmarine "- 1000" "{''w'', ''s''}"]
    Submarine_update_bound [of exampleSubmarine "- 1000" "{}"]
  by (simp add: exampleSubmarine_simps verticalInRange_def)

section \<open>The collision detector\<close>


lemma screenHitbox_eq:
  "getWorldObjectScreenHitbox ob off = (getHitbox ob)\<lparr>rect_y := rect_y (getHitbox ob) + off\<rparr>"
  by (cases "getHitbox ob") (simp add: getWorldObjectScreenHitbox_def Let_def)

lemma gatedCollisionStep_cases:
  "gatedCollisionStep sh off m (acc, cd, wd) =
     (case collisionCooldown cd (obj_id m) of
        None \<Rightarrow>
          if checkAABB sh (getWorldObjectScreenHitbox m off)
          then (acc @ [m],
                cd\<lparr>collisionCooldown := (collisionCooldown cd)(obj_id m \<mapsto> clock wd (clockReads wd))\<rparr>,
                wd\<lparr>clockReads := Suc (clockReads wd)\<rparr>)
          else (acc, cd, wd)
      | Some t \<Rightarrow>
          if clock wd (clockReads wd) - t \<ge> cooldownDuration cd
          then (if checkAABB sh (getWorldObjectScreenHitbox m off)
                then (acc @ [m],
                      cd\<lparr>collisionCooldown := (collisionCooldown cd)(obj_id m \<mapsto> clock wd (Suc (clockReads wd)))\<rparr>,
                      wd\<lparr>clockReads := Suc (Suc (clockReads wd))\<rparr>)
                else (acc, cd\<lparr>collisionCooldown := (collisionCooldown cd)(obj_id m := None)\<rparr>,
                      wd\<lparr>clockReads := Suc (clockReads wd)\<rparr>))
          else (acc, cd, wd\<lparr>clockReads := Suc (clockReads wd)\<rparr>))"
  by (simp add: gatedCollisionStep_def isInCollisionCooldown_def setCollisionCooldown_def
      Date_now_def split: option.split)

text \<open>What every step of a gated pass preserves.\<close>

lemma gatedCollisionStep_frame:
  assumes "gatedCollisionStep sh off m (acc, cd, wd) = (acc', cd', wd')"
  shows "cooldownDuration cd' = cooldownDuration cd \<and> clock wd' = clock wd \<and>
         clockReads wd \<le> clockReads wd' \<and> random wd' = random wd \<and> randomDraws wd' = randomDraws wd"
  using assms by (auto simp: gatedCollisionStep_cases split: option.splits if_splits)

lemma forEach_gated_frame:
  assumes "forEach (gatedCollisionStep sh off) ms (acc, cd, wd) = (acc', cd', wd')"
  shows "cooldownDuration cd' = cooldownDuration cd \<and> clock wd' = clock wd \<and>
         clockReads wd \<le> clockReads wd' \<and> random wd' = random wd \<and> randomDraws wd' = randomDraws wd"
  using assms
proof (induction ms arbitrary: acc cd wd)
  case Nil
  then show ?case by simp
next
  case (Cons m ms)
  obtain a1 c1 w1 where s: "gatedCollisionStep sh off m (acc, cd, wd) = (a1, c1, w1)"
    by (cases "gatedCollisionStep sh off m (acc, cd, wd)") auto
  from Cons.prems s have "forEach (gatedCollisionStep sh off) ms (a1, c1, w1) = (acc', cd', wd')"
    by simp
  from Cons.IH [OF this] gatedCollisionStep_frame [OF s] show ?case by simp
qed

lemma gatedCollisionStep_suppressed:
  assumes "collisionCooldown cd i = Some t0"
    and "gatedCollisionStep sh off m (acc, cd, wd) = (acc', cd', wd')"
    and "\<forall>n. clockReads wd \<le> n \<and> n < clockReads wd' \<longrightarrow> clock wd n - t0 < cooldownDuration cd"
  shows "collisionCooldown cd' i = Some t0 \<and> (obj_id m = i \<longrightarrow> acc' = acc) \<and>
         (obj_id m \<noteq> i \<longrightarrow> set acc' \<subseteq> insert m (set acc))"
proof (cases "obj_id m = i")
  case True
  with assms(1) have c: "collisionCooldown cd (obj_id m) = Some t0" by simp
  have "clock wd (clockReads wd) - t0 < cooldownDuration cd"
  proof (rule ccontr)
    assume n: "\<not> clock wd (clockReads wd) - t0 < cooldownDuration cd"
    with assms(2) c have "clockReads wd < clockReads wd'"
      by (auto simp: gatedCollisionStep_cases split: if_splits)
    with assms(3) n show False by auto
  qed
  with assms(2) c True show ?thesis
    by (auto simp: gatedCollisionStep_cases)
next
  case False
  with assms(1,2) show ?thesis
    by (auto simp: gatedCollisionStep_cases split: option.splits if_splits)
qed

lemma forEach_gated_suppressed:
  assumes "collisionCooldown cd i = Some t0"
    and "forEach (gatedCollisionStep sh off) ms (acc, cd, wd) = (acc', cd', wd')"
    and "\<forall>n. clockReads wd \<le> n \<and> n < clockReads wd' \<longrightarrow> clock wd n - t0 < cooldownDuration cd"
    and "\<forall>a \<in> set acc. obj_id a \<noteq> i"
  shows "collisionCooldown cd' i = Some t0 \<and> (\<forall>a \<in> set acc'. obj_id a \<noteq> i)"
  using assms
proof (induction ms arbitrary: acc cd wd)
  case Nil
  then show ?case by simp
next
  case (Cons m ms)
  obtain a1 c1 w1 where s: "gatedCollisionStep sh off m (acc, cd, wd) = (a1, c1, w1)"
    by (cases "gatedCollisionStep sh off m (acc, cd, wd)") auto
  from Cons.prems(2) s have r: "forEach (gatedCollisionStep sh off) ms (a1, c1, w1) = (acc', cd', wd')"
    by simp
  note f1 = gatedCollisionStep_frame [OF s] and f2 = forEach_gated_frame [OF r]
  have w1: "\<forall>n. clockReads wd \<le> n \<and> n < clockReads w1 \<longrightarrow> clock wd n - t0 < cooldownDuration cd"
    using Cons.prems(3) f2 by auto
  from gatedCollisionStep_suppressed [OF Cons.prems(1) s w1]
  have k: "collisionCooldown c1 i = Some t0" and a: "\<forall>a \<in> set a1. obj_id a \<noteq> i"
    using Cons.prems(4) by (cases "obj_id m = i"; auto)+
  have w2: "\<forall>n. clockReads w1 \<le> n \<and> n < clockReads wd' \<longrightarrow> clock w1 n - t0 < cooldownDuration c1"
    using Cons.prems(3) f1 by auto
  from Cons.IH [OF k r w2 a] show ?case .
qed


lemma forEach_bubble:
  "forEach (bubbleCollisionStep sh off) bs (acc, cd, wd) =
     (acc @ filter (\<lambda>b. checkAABB sh (getWorldObjectScreenHitbox b off)) bs, cd, wd)"
  by (induction bs arbitrary: acc) (simp_all add: bubbleCollisionStep_def)

lemma checkBubbleCollisions_eq:
  "checkBubbleCollisions cd sub bs d c wd =
     (filter (\<lambda>b. checkAABB (getScreenHitbox sub) (getWorldObjectScreenHitbox b (calculateDepthOffset d c))) bs, cd, wd)"
  by (simp add: checkBubbleCollisions_def forEach_bubble)

lemma detect_frame:
  assumes "detect p (cd, wd) = (res, cd', wd')"
  shows "cooldownDuration cd' = cooldownDuration cd \<and> clock wd' = clock wd \<and>
         clockReads wd \<le> clockReads wd'"
proof (cases p)
  case (MonsterPass sub objs d c)
  with assms have "forEach (gatedCollisionStep (getScreenHitbox sub) (calculateDepthOffset d c)) objs ([], cd, wd) = (res, cd', wd')"
    by (simp add: checkMonsterCollisions_def)
  from forEach_gated_frame [OF this] show ?thesis by simp
next
  case (ObstaclePass sub objs d c)
  with assms have "forEach (gatedCollisionStep (getScreenHitbox sub) (calculateDepthOffset d c)) objs ([], cd, wd) = (res, cd', wd')"
    by (simp add: checkObstacleCollisions_def)
  from forEach_gated_frame [OF this] show ?thesis by simp
next
  case (BubblePass sub objs d c)
  with assms show ?thesis by (simp add: checkBubbleCollisions_eq)
qed

lemma detect_suppressed:
  assumes "collisionCooldown cd i = Some t0"
    and "detect p (cd, wd) = (res, cd', wd')"
    and "\<forall>n. clockReads wd \<le> n \<and> n < clockReads wd' \<longrightarrow> clock wd n - t0 < cooldownDuration cd"
  shows "collisionCooldown cd' i = Some t0 \<and> (cooldownGated p \<longrightarrow> (\<forall>a \<in> set res. obj_id a \<noteq> i))"
proof (cases p)
  case (MonsterPass sub objs d c)
  with assms(2) have "forEach (gatedCollisionStep (getScreenHitbox sub) (calculateDepthOffset d c)) objs ([], cd, wd) = (res, cd', wd')"
    by (simp add: checkMonsterCollisions_def)
  from forEach_gated_suppressed [OF assms(1) this assms(3)] MonsterPass show ?thesis by simp
next
  case (ObstaclePass sub objs d c)
  with assms(2) have "forEach (gatedCollisionStep (getScreenHitbox sub) (calculateDepthOffset d c)) objs ([], cd, wd) = (res, cd', wd')"
    by (simp add: checkObstacleCollisions_def)
  from forEach_gated_suppressed [OF assms(1) this assms(3)] ObstaclePass show ?thesis by simp
next
  case (BubblePass sub objs d c)
  with assms show ?thesis by (auto simp: checkBubbleCollisions_eq)
qed

lemma afterDetections_frame:
  assumes "afterDetections ps (cd, wd) = (cd', wd')"
  shows "cooldownDuration cd' = cooldownDuration cd \<and> clock wd' = clock wd \<and>
         clockReads wd \<le> clockReads wd'"
  using assms
proof (induction ps arbitrary: cd wd)
  case Nil
  then show ?case by simp
next
  case (Cons p ps)
  obtain res c1 w1 where d: "detect p (cd, wd) = (res, c1, w1)"
    by (cases "detect p (cd, wd)") auto
  with Cons.prems have "afterDetections ps (c1, w1) = (cd', wd')" by simp
  from Cons.IH [OF this] detect_frame [OF d] show ?case by simp
qed

lemma detections_suppressed:
  assumes "collisionCooldown cd i = Some t0"
    and "afterDetections ps (cd, wd) = (cd', wd')"
    and "\<forall>n. clockReads wd \<le> n \<and> n < clockReads wd' \<longrightarrow> clock wd n - t0 < cooldownDuration cd"
  shows "collisionCooldown cd' i = Some t0 \<and> (\<forall>a \<in> set (gatedReports ps (cd, wd)). obj_id a \<noteq> i)"
  using assms
proof (induction ps arbitrary: cd wd)
  case Nil
  then show ?case by simp
next
  case (Cons p ps)
  obtain res c1 w1 where d: "detect p (cd, wd) = (res, c1, w1)"
    by (cases "detect p (cd, wd)") auto
  with Cons.prems(2) have r: "afterDetections ps (c1, w1) = (cd', wd')" by simp
  note f1 = detect_frame [OF d] and f2 = afterDetections_frame [OF r]
  have w1: "\<forall>n. clockReads wd \<le> n \<and> n < clockReads w1 \<longrightarrow> clock wd n - t0 < cooldownDuration cd"
    using Cons.prems(3) f2 by auto
  from detect_suppressed [OF Cons.prems(1) d w1]
  have k: "collisionCooldown c1 i = Some t0"
    and a: "cooldownGated p \<longrightarrow> (\<forall>a \<in> set res. obj_id a \<noteq> i)" by simp_all
  have w2: "\<forall>n. clockReads w1 \<le> n \<and> n < clockReads wd' \<longrightarrow> clock w1 n - t0 < cooldownDuration c1"
    using Cons.prems(3) f1 by auto
  from Cons.IH [OF k r w2] a d show ?case by auto
qed

text \<open>With distinct ids, every object a gated pass reports is stamped with a clock reading
  of that pass.\<close>

lemma forEach_gated_stamped:
  assumes "forEach (gatedCollisionStep sh off) ms (acc, cd, wd) = (acc', cd', wd')"
    and "distinct (map obj_id ms)"
    and "\<forall>a \<in> set acc. obj_id a \<notin> obj_id ` set ms"
    and "\<forall>a \<in> set acc. \<exists>n. N \<le> n \<and> n < clockReads wd \<and> collisionCooldown cd (obj_id a) = Some (clock wd n)"
    and "N \<le> clockReads wd"
  shows "\<forall>a \<in> set acc'. \<exists>n. N \<le> n \<and> n < clockReads wd' \<and> collisionCooldown cd' (obj_id a) = Some (clock wd n)"
  using assms
proof (induction ms arbitrary: acc cd wd)
  case Nil
  then show ?case by simp
next
  case (Cons m ms)
  obtain a1 c1 w1 where s: "gatedCollisionStep sh off m (acc, cd, wd) = (a1, c1, w1)"
    by (cases "gatedCollisionStep sh off m (acc, cd, wd)") auto
  from Cons.prems(1) s have r: "forEach (gatedCollisionStep sh off) ms (a1, c1, w1) = (acc', cd', wd')"
    by simp
  note f1 = gatedCollisionStep_frame [OF s]
  have notm: "\<forall>a \<in> set acc. obj_id a \<noteq> obj_id m" using Cons.prems(3) by auto
  have sub: "set a1 \<subseteq> insert m (set acc)"
    using s by (auto simp: gatedCollisionStep_cases split: option.splits if_splits)
  have d: "distinct (map obj_id ms)" using Cons.prems(2) by simp
  have fresh: "\<forall>a \<in> set a1. obj_id a \<notin> obj_id ` set ms"
    using sub Cons.prems(2,3) by auto
  have old: "\<forall>a \<in> set acc. \<exists>n. N \<le> n \<and> n < clockReads w1 \<and> collisionCooldown c1 (obj_id a) = Some (clock w1 n)"
  proof
    fix a assume a: "a \<in> set acc"
    with Cons.prems(4) obtain n where n: "N \<le> n" "n < clockReads wd"
      "collisionCooldown cd (obj_id a) = Some (clock wd n)" by blast
    from a notm have ne: "obj_id a \<noteq> obj_id m" by simp
    have "collisionCooldown c1 (obj_id a) = collisionCooldown cd (obj_id a)"
      using s ne by (auto simp: gatedCollisionStep_cases split: option.splits if_splits)
    with n f1 show "\<exists>n. N \<le> n \<and> n < clockReads w1 \<and> collisionCooldown c1 (obj_id a) = Some (clock w1 n)"
      by (intro exI [of _ n]) auto
  qed
  have new: "m \<in> set a1 \<and> m \<notin> set acc \<longrightarrow>
     (\<exists>n. N \<le> n \<and> n < clockReads w1 \<and> collisionCooldown c1 (obj_id m) = Some (clock w1 n))"
  proof (cases "collisionCooldown cd (obj_id m)")
    case None
    with s Cons.prems(5) show ?thesis
      by (auto simp: gatedCollisionStep_cases split: if_splits intro!: exI [of _ "clockReads wd"])
  next
    case (Some t)
    with s Cons.prems(5) show ?thesis
      by (auto simp: gatedCollisionStep_cases split: if_splits intro!: exI [of _ "Suc (clockReads wd)"])
  qed
  have all: "\<forall>a \<in> set a1. \<exists>n. N \<le> n \<and> n < clockReads w1 \<and> collisionCooldown c1 (obj_id a) = Some (clock w1 n)"
    using old new sub by blast
  have "N \<le> clockReads w1" using Cons.prems(5) f1 by simp
  from Cons.IH [OF r d fresh all this] f1 show ?case by simp
qed

lemma rearm:
  assumes "collisionCooldown cd (obj_id m) = Some t0"
    and "clock wd (clockReads wd) - t0 \<ge> cooldownDuration cd"
  shows "isInCollisionCooldown cd m wd =
           (False, cd\<lparr>collisionCooldown := (collisionCooldown cd)(obj_id m := None)\<rparr>,
            wd\<lparr>clockReads := Suc (clockReads wd)\<rparr>)"
    and "fst (forEach (gatedCollisionStep sh off) [m] ([], cd, wd)) =
           (if checkAABB sh (getWorldObjectScreenHitbox m off) then [m] else [])"
  using assms by (simp_all add: isInCollisionCooldown_def Date_now_def gatedCollisionStep_cases)


lemma gated_single:
  "fst (forEach (gatedCollisionStep sh off) [m] ([], cd, wd)) =
     (case collisionCooldown cd (obj_id m) of
        None \<Rightarrow> if checkAABB sh (getWorldObjectScreenHitbox m off) then [m] else []
      | Some t \<Rightarrow> if clock wd (clockReads wd) - t \<ge> cooldownDuration cd \<and>
                     checkAABB sh (getWorldObjectScreenHitbox m off) then [m] else [])"
  by (simp add: gatedCollisionStep_cases split: option.split)

lemma exampleDetector_simps:
  "cooldownDuration exampleDetector = 100"
  "collisionCooldown exampleDetector 7 = Some 1000"
  "collisionCooldown exampleDetector 8 = None"
  by (simp_all add: exampleDetector_def new_CollisionDetector_def)

lemma exampleWorld_simps:
  "clock exampleWorld n = 1000 + int n" "clockReads exampleWorld = 0"
  "clock lateWorld n = 1000 + int n" "clockReads lateWorld = 100"
  by (simp_all add: exampleWorld_def lateWorld_def)

lemma example_overlap:
  "checkAABB (getScreenHitbox exampleSubmarine)
     (getWorldObjectScreenHitbox (exampleObject ''shark'' i) (calculateDepthOffset 0 0))"
  "checkAABB (getScreenHitbox exampleSubmarine)
     (getWorldObjectScreenHitbox (exampleObject ''bubble'' i) (calculateDepthOffset 0 0))"
  by (simp_all add: checkAABB_def getScreenHitbox_def exampleSubmarine_simps screenHitbox_eq
      getHitbox_def exampleObject_simps calculateDepthOffset_def)

lemma detect_stamped:
  assumes "cooldownGated p" and "distinct (map obj_id (passObjects p))"
    and "detect p (cd, wd) = (res, cd', wd')" and "a \<in> set res"
  shows "\<exists>n. clockReads wd \<le> n \<and> n < clockReads wd' \<and>
             collisionCooldown cd' (obj_id a) = Some (clock wd n)"
proof -
  obtain sub objs d c where p: "p = MonsterPass sub objs d c \<or> p = ObstaclePass sub objs d c"
    using assms(1) by (cases p) auto
  with assms(3) have
    "forEach (gatedCollisionStep (getScreenHitbox sub) (calculateDepthOffset d c)) objs ([], cd, wd) = (res, cd', wd')"
    by (auto simp: checkMonsterCollisions_def checkObstacleCollisions_def)
  moreover have "distinct (map obj_id objs)" using assms(2) p by auto
  ultimately have "\<forall>a \<in> set res. \<exists>n. clockReads wd \<le> n \<and> n < clockReads wd' \<and>
      collisionCooldown cd' (obj_id a) = Some (clock wd n)"
    by (rule forEach_gated_stamped) simp_all
  with assms(4) show ?thesis by blast
qed

lemma example_pass:
  "checkMonsterCollisions exampleDetector exampleSubmarine
      [exampleObject ''shark'' 7, exampleObject ''shark'' 8] 0 0 exampleWorld =
     ([exampleObject ''shark'' 8],
      exampleDetector\<lparr>collisionCooldown := (collisionCooldown exampleDetector)(8 \<mapsto> 1001)\<rparr>,
      exampleWorld\<lparr>clockReads := 2\<rparr>)"
  by (simp add: checkMonsterCollisions_def gatedCollisionStep_cases exampleDetector_simps
      exampleObject_simps exampleWorld_simps example_overlap numeral_2_eq_2)

text \<open>
  \<^bold>\<open>C1\<close> (coordinate consistency).  The depth offset of the collision path
  (\<^verbatim>\<open>calculateDepthOffset\<close>) and the one of the rendering path (the local \<^verbatim>\<open>depthOffset\<close>
  of \<^verbatim>\<open>Renderer.render\<close>) are the same function of depth and camera offset, namely
  \<open>- depth + 300 + cameraOffset\<close>.  The screen-frame hitbox of an object is its world-frame
  hitbox with that offset added to \<open>y\<close> and \<open>x\<close>, width and height unchanged; its corner is
  where the camera transformation of the renderer puts the corner of the world-frame
  hitbox; and it is this rectangle that the three passes test against the hitbox of the
  submarine.
\<close>

theorem coordinate_consistency:
  "calculateDepthOffset (depth gs) c = render_depthOffset gs c \<and>
   calculateDepthOffset d c = - d + 300 + c \<and>
   getWorldObjectScreenHitbox ob (calculateDepthOffset d c) =
     (getHitbox ob)\<lparr>rect_y := rect_y (getHitbox ob) + (- d + 300 + c)\<rparr> \<and>
   (rect_x (getWorldObjectScreenHitbox ob (calculateDepthOffset (depth gs) c)),
    rect_y (getWorldObjectScreenHitbox ob (calculateDepthOffset (depth gs) c))) =
     render_worldToScreen gs c (rect_x (getHitbox ob), rect_y (getHitbox ob)) \<and>
   fst (checkBubbleCollisions cd sub bs d c wd) =
     filter (\<lambda>b. checkAABB (getScreenHitbox sub)
                   ((getHitbox b)\<lparr>rect_y := rect_y (getHitbox b) + (- d + 300 + c)\<rparr>)) bs \<and>
   fst (checkMonsterCollisions new_CollisionDetector sub [m] d c wd) =
     (if checkAABB (getScreenHitbox sub)
           ((getHitbox m)\<lparr>rect_y := rect_y (getHitbox m) + (- d + 300 + c)\<rparr>) then [m] else []) \<and>
   fst (checkObstacleCollisions new_CollisionDetector sub [m] d c wd) =
     (if checkAABB (getScreenHitbox sub)
           ((getHitbox m)\<lparr>rect_y := rect_y (getHitbox m) + (- d + 300 + c)\<rparr>) then [m] else [])"
proof -
  have off: "calculateDepthOffset d' c = - d' + 300 + c" for d'
    by (simp add: calculateDepthOffset_def)
  have fresh: "collisionCooldown new_CollisionDetector (obj_id m) = None"
    by (simp add: new_CollisionDetector_def)
  have a: "calculateDepthOffset (depth gs) c = render_depthOffset gs c"
    by (simp add: calculateDepthOffset_def render_depthOffset_def)
  have b: "(rect_x (getWorldObjectScreenHitbox ob (calculateDepthOffset (depth gs) c)),
    rect_y (getWorldObjectScreenHitbox ob (calculateDepthOffset (depth gs) c))) =
     render_worldToScreen gs c (rect_x (getHitbox ob), rect_y (getHitbox ob))"
    by (simp add: screenHitbox_eq a render_worldToScreen_def ctx_translate_def)
  have c: "fst (checkBubbleCollisions cd sub bs d c wd) =
     filter (\<lambda>b. checkAABB (getScreenHitbox sub)
                   ((getHitbox b)\<lparr>rect_y := rect_y (getHitbox b) + (- d + 300 + c)\<rparr>)) bs"
    by (simp add: checkBubbleCollisions_eq screenHitbox_eq off)
  have d: "fst (checkMonsterCollisions new_CollisionDetector sub [m] d c wd) =
     (if checkAABB (getScreenHitbox sub)
           ((getHitbox m)\<lparr>rect_y := rect_y (getHitbox m) + (- d + 300 + c)\<rparr>) then [m] else [])"
    unfolding checkMonsterCollisions_def Let_def gated_single
    by (simp add: fresh screenHitbox_eq off)
  have e: "fst (checkObstacleCollisions new_CollisionDetector sub [m] d c wd) =
     (if checkAABB (getScreenHitbox sub)
           ((getHitbox m)\<lparr>rect_y := rect_y (getHitbox m) + (- d + 300 + c)\<rparr>) then [m] else [])"
    unfolding checkObstacleCollisions_def Let_def gated_single
    by (simp add: fresh screenHitbox_eq off)
  show ?thesis using a off [of d] b c d e by (simp add: screenHitbox_eq)
qed

text \<open>
  \<^bold>\<open>C7\<close> (bubbles are not cooldown-gated).  The bubble pass reports exactly the bubbles
  whose screen-frame hitbox overlaps the hitbox of the submarine, whatever the cooldown
  table holds, and returns the table and the clock as it found them.  The monster and
  obstacle passes skip an object that is in cooldown, where the bubble pass on the same
  object reports it when it overlaps.
\<close>

theorem bubbles_not_gated:
  "checkBubbleCollisions cd sub bs d c wd =
     (filter (\<lambda>b. checkAABB (getScreenHitbox sub)
                    (getWorldObjectScreenHitbox b (calculateDepthOffset d c))) bs, cd, wd) \<and>
   (collisionCooldown cd (obj_id m) = Some t0 \<and> clock wd (clockReads wd) - t0 < cooldownDuration cd \<longrightarrow>
      fst (checkMonsterCollisions cd sub [m] d c wd) = [] \<and>
      fst (checkObstacleCollisions cd sub [m] d c wd) = [] \<and>
      fst (checkBubbleCollisions cd sub [m] d c wd) =
        (if checkAABB (getScreenHitbox sub) (getWorldObjectScreenHitbox m (calculateDepthOffset d c))
         then [m] else []))"
  unfolding checkMonsterCollisions_def checkObstacleCollisions_def Let_def gated_single
  by (simp add: checkBubbleCollisions_eq)

theorem bubbles_not_gated_witness:
  "collisionCooldown exampleDetector (obj_id (exampleObject ''bubble'' 7)) = Some 1000 \<and>
   clock exampleWorld (clockReads exampleWorld) - 1000 < cooldownDuration exampleDetector \<and>
   fst (checkMonsterCollisions exampleDetector exampleSubmarine [exampleObject ''bubble'' 7] 0 0 exampleWorld) = [] \<and>
   fst (checkObstacleCollisions exampleDetector exampleSubmarine [exampleObject ''bubble'' 7] 0 0 exampleWorld) = [] \<and>
   checkBubbleCollisions exampleDetector exampleSubmarine [exampleObject ''bubble'' 7] 0 0 exampleWorld =
     ([exampleObject ''bubble'' 7], exampleDetector, exampleWorld)"
  using bubbles_not_gated [of exampleDetector exampleSubmarine "[exampleObject ''bubble'' 7]" 0 0
      exampleWorld "exampleObject ''bubble'' 7" 1000]
  by (simp add: exampleDetector_simps exampleWorld_simps exampleObject_simps example_overlap)


text \<open>
  \<^bold>\<open>C3\<close> (cooldown suppression), for a detector whose \<^verbatim>\<open>cooldownDuration\<close> is the 100 ms
  of the constructor.
  \<^item> An object reported by a monster or obstacle pass over objects of distinct ids is
    stamped in the cooldown table with a reading of the clock taken during that pass.
  \<^item> Once an id is stamped with \<open>t0\<close>, no monster or obstacle pass of any sequence of
    detection calls reports an object of that id, as long as every clock reading taken
    during the sequence is less than 100 ms after \<open>t0\<close>, whatever overlaps; the stamp stays.
  \<^item> At a lookup 100 ms or more after \<open>t0\<close> the entry is deleted and the lookup answers
    \<open>false\<close>, so that a pass over the object reports it again when it overlaps.
\<close>

theorem cooldown_suppression:
  assumes "cooldownDuration cd = 100"
  shows
   "(cooldownGated p \<and> distinct (map obj_id (passObjects p)) \<and> a \<in> set (fst (detect p (cd, wd))) \<longrightarrow>
       (\<exists>n. clockReads wd \<le> n \<and> n < clockReads (snd (snd (detect p (cd, wd)))) \<and>
            collisionCooldown (fst (snd (detect p (cd, wd)))) (obj_id a) = Some (clock wd n))) \<and>
    (collisionCooldown cd i = Some t0 \<and>
     (\<forall>n. clockReads wd \<le> n \<and> n < clockReads (snd (afterDetections ps (cd, wd))) \<longrightarrow>
          clock wd n - t0 < 100) \<longrightarrow>
       (\<forall>b \<in> set (gatedReports ps (cd, wd)). obj_id b \<noteq> i) \<and>
       collisionCooldown (fst (afterDetections ps (cd, wd))) i = Some t0) \<and>
    (collisionCooldown cd (obj_id m) = Some t0 \<and> clock wd (clockReads wd) - t0 \<ge> 100 \<longrightarrow>
       isInCollisionCooldown cd m wd =
         (False, cd\<lparr>collisionCooldown := (collisionCooldown cd)(obj_id m := None)\<rparr>,
          wd\<lparr>clockReads := Suc (clockReads wd)\<rparr>) \<and>
       fst (checkMonsterCollisions cd sub [m] d c wd) =
         (if checkAABB (getScreenHitbox sub) (getWorldObjectScreenHitbox m (calculateDepthOffset d c))
          then [m] else []) \<and>
       fst (checkObstacleCollisions cd sub [m] d c wd) =
         (if checkAABB (getScreenHitbox sub) (getWorldObjectScreenHitbox m (calculateDepthOffset d c))
          then [m] else []))"
proof (intro conjI impI)
  assume h: "cooldownGated p \<and> distinct (map obj_id (passObjects p)) \<and> a \<in> set (fst (detect p (cd, wd)))"
  obtain res cd' wd' where d: "detect p (cd, wd) = (res, cd', wd')"
    by (cases "detect p (cd, wd)") auto
  from h d detect_stamped [OF _ _ d, of a]
  show "\<exists>n. clockReads wd \<le> n \<and> n < clockReads (snd (snd (detect p (cd, wd)))) \<and>
            collisionCooldown (fst (snd (detect p (cd, wd)))) (obj_id a) = Some (clock wd n)"
    by simp
next
  assume h: "collisionCooldown cd i = Some t0 \<and>
     (\<forall>n. clockReads wd \<le> n \<and> n < clockReads (snd (afterDetections ps (cd, wd))) \<longrightarrow>
          clock wd n - t0 < 100)"
  obtain cd' wd' where r: "afterDetections ps (cd, wd) = (cd', wd')"
    by (cases "afterDetections ps (cd, wd)") auto
  from h r assms have w: "\<forall>n. clockReads wd \<le> n \<and> n < clockReads wd' \<longrightarrow>
      clock wd n - t0 < cooldownDuration cd" by simp
  from h have k: "collisionCooldown cd i = Some t0" by simp
  from detections_suppressed [OF k r w] r
  show "\<forall>b \<in> set (gatedReports ps (cd, wd)). obj_id b \<noteq> i"
    and "collisionCooldown (fst (afterDetections ps (cd, wd))) i = Some t0" by simp_all
next
  assume h: "collisionCooldown cd (obj_id m) = Some t0 \<and> clock wd (clockReads wd) - t0 \<ge> 100"
  with assms have k: "collisionCooldown cd (obj_id m) = Some t0"
    and l: "clock wd (clockReads wd) - t0 \<ge> cooldownDuration cd" by simp_all
  from rearm(1) [OF k l]
  show "isInCollisionCooldown cd m wd =
         (False, cd\<lparr>collisionCooldown := (collisionCooldown cd)(obj_id m := None)\<rparr>,
          wd\<lparr>clockReads := Suc (clockReads wd)\<rparr>)" .
  from rearm(2) [OF k l]
  show "fst (checkMonsterCollisions cd sub [m] d c wd) =
         (if checkAABB (getScreenHitbox sub) (getWorldObjectScreenHitbox m (calculateDepthOffset d c))
          then [m] else [])"
    and "fst (checkObstacleCollisions cd sub [m] d c wd) =
         (if checkAABB (getScreenHitbox sub) (getWorldObjectScreenHitbox m (calculateDepthOffset d c))
          then [m] else [])"
    by (simp_all add: checkMonsterCollisions_def checkObstacleCollisions_def)
qed

theorem cooldown_suppression_witness:
  "cooldownDuration exampleDetector = 100 \<and>
   collisionCooldown exampleDetector 7 = Some 1000 \<and>
   exampleObject ''shark'' 8 \<in> set (fst (detect (MonsterPass exampleSubmarine
       [exampleObject ''shark'' 7, exampleObject ''shark'' 8] 0 0) (exampleDetector, exampleWorld))) \<and>
   clockReads (snd (afterDetections [MonsterPass exampleSubmarine
       [exampleObject ''shark'' 7, exampleObject ''shark'' 8] 0 0] (exampleDetector, exampleWorld))) = 2 \<and>
   7 \<notin> obj_id ` set (gatedReports [MonsterPass exampleSubmarine
       [exampleObject ''shark'' 7, exampleObject ''shark'' 8] 0 0] (exampleDetector, exampleWorld)) \<and>
   collisionCooldown (fst (afterDetections [MonsterPass exampleSubmarine
       [exampleObject ''shark'' 7, exampleObject ''shark'' 8] 0 0] (exampleDetector, exampleWorld))) 7 = Some 1000 \<and>
   clock lateWorld (clockReads lateWorld) - 1000 \<ge> 100 \<and>
   fst (checkMonsterCollisions exampleDetector exampleSubmarine [exampleObject ''shark'' 7] 0 0 lateWorld) =
     [exampleObject ''shark'' 7]"
proof -
  let ?p = "MonsterPass exampleSubmarine [exampleObject ''shark'' 7, exampleObject ''shark'' 8] 0 0"
  have dur: "cooldownDuration exampleDetector = 100" by (simp add: exampleDetector_simps)
  have reads: "clockReads (snd (afterDetections [?p] (exampleDetector, exampleWorld))) = 2"
    by (simp add: example_pass)
  have window: "\<forall>n. clockReads exampleWorld \<le> n \<and>
      n < clockReads (snd (afterDetections [?p] (exampleDetector, exampleWorld))) \<longrightarrow>
      clock exampleWorld n - 1000 < 100"
    unfolding reads by (simp add: exampleWorld_simps)
  have rep: "exampleObject ''shark'' 8 \<in> set (fst (detect ?p (exampleDetector, exampleWorld)))"
    by (simp add: example_pass)
  have late: "clock lateWorld (clockReads lateWorld) - 1000 \<ge> 100"
    by (simp add: exampleWorld_simps)
  note inst1 = cooldown_suppression [OF dur, of ?p "exampleObject ''shark'' 8" exampleWorld 7 1000 "[?p]"
      "exampleObject ''shark'' 7" exampleSubmarine 0 0]
  from inst1 window have "\<forall>b \<in> set (gatedReports [?p] (exampleDetector, exampleWorld)). obj_id b \<noteq> 7"
    by (simp add: exampleDetector_simps)
  then have a: "7 \<notin> obj_id ` set (gatedReports [?p] (exampleDetector, exampleWorld))"
    by (auto simp del: gatedReports.simps)
  from inst1 window have b: "collisionCooldown (fst (afterDetections [?p] (exampleDetector, exampleWorld))) 7 = Some 1000"
    by (simp add: exampleDetector_simps)
  note inst2 = cooldown_suppression [OF dur, of ?p "exampleObject ''shark'' 8" lateWorld 7 1000 "[?p]"
      "exampleObject ''shark'' 7" exampleSubmarine 0 0]
  from inst2 late have c: "fst (checkMonsterCollisions exampleDetector exampleSubmarine [exampleObject ''shark'' 7] 0 0 lateWorld) =
     [exampleObject ''shark'' 7]"
    by (simp add: exampleDetector_simps exampleObject_simps example_overlap)
  from dur reads rep a b late c show ?thesis by (simp add: exampleDetector_simps)
qed


section \<open>The blocks of a tick\<close>


named_theorems frame \<open>what a block of the tick leaves unchanged\<close>

lemma showHint_frame [frame]:
  "gameState (showHint t g) = gameState g" "gameOverTriggered (showHint t g) = gameOverTriggered g"
  "gameOverReason (showHint t g) = gameOverReason g" "claimedRewards (showHint t g) = claimedRewards g"
  "monsters (showHint t g) = monsters g" "obstacles (showHint t g) = obstacles g"
  "bubbles (showHint t g) = bubbles g" "nextMonsterId (showHint t g) = nextMonsterId g"
  "upgrades (showHint t g) = upgrades g" "menuOpen (showHint t g) = menuOpen g"
  "collisionDetector (showHint t g) = collisionDetector g" "submarine (showHint t g) = submarine g"
  "inputHandler (showHint t g) = inputHandler g"
  by (simp_all add: showHint_def)

lemma claimReward_frame [frame]:
  "gameOverTriggered (claimReward d r g) = gameOverTriggered g"
  "gameOverReason (claimReward d r g) = gameOverReason g"
  "monsters (claimReward d r g) = monsters g" "obstacles (claimReward d r g) = obstacles g"
  "bubbles (claimReward d r g) = bubbles g" "nextMonsterId (claimReward d r g) = nextMonsterId g"
  "upgrades (claimReward d r g) = upgrades g" "menuOpen (claimReward d r g) = menuOpen g"
  "depth (gameState (claimReward d r g)) = depth (gameState g)"
  "health (gameState (claimReward d r g)) = health (gameState g)"
  "energy (gameState (claimReward d r g)) = energy (gameState g)"
  by (simp_all add: claimReward_def Let_def frame)

lemma claimReward_oxygen:
  "0 \<le> oxygen (gameState g) \<Longrightarrow> oxygen (gameState g) \<le> 100 \<Longrightarrow> 0 \<le> reward_oxygen r \<Longrightarrow>
   0 \<le> oxygen (gameState (claimReward d r g)) \<and> oxygen (gameState (claimReward d r g)) \<le> 100"
  by (simp add: claimReward_def Let_def frame Math_min_def)

lemma unlockUpgrades_frame [frame]:
  "gameState (unlockUpgrades d g) = gameState g"
  "gameOverTriggered (unlockUpgrades d g) = gameOverTriggered g"
  "gameOverReason (unlockUpgrades d g) = gameOverReason g"
  "claimedRewards (unlockUpgrades d g) = claimedRewards g"
  "monsters (unlockUpgrades d g) = monsters g" "obstacles (unlockUpgrades d g) = obstacles g"
  "bubbles (unlockUpgrades d g) = bubbles g" "nextMonsterId (unlockUpgrades d g) = nextMonsterId g"
  "menuOpen (unlockUpgrades d g) = menuOpen g"
  by (simp_all add: unlockUpgrades_def Let_def frame)

lemma forEach_rewards:
  "forEach f rewards g =
     f \<lparr>reward_depth = 6000, reward_oxygen = 40, reward_points = 2000,
        reward_message = ''Zona Hadal alcancada!''\<rparr>
      (f \<lparr>reward_depth = 4000, reward_oxygen = 30, reward_points = 1000,
          reward_message = ''Zona Abissal alcancada!''\<rparr>
        (f \<lparr>reward_depth = 2000, reward_oxygen = 20, reward_points = 500,
            reward_message = ''Zona Batial alcancada!''\<rparr> g))"
  by (simp add: rewards_def)

lemma checkDepthRewards_frame [frame]:
  "gameOverTriggered (checkDepthRewards g) = gameOverTriggered g"
  "gameOverReason (checkDepthRewards g) = gameOverReason g"
  "monsters (checkDepthRewards g) = monsters g" "obstacles (checkDepthRewards g) = obstacles g"
  "bubbles (checkDepthRewards g) = bubbles g" "nextMonsterId (checkDepthRewards g) = nextMonsterId g"
  "menuOpen (checkDepthRewards g) = menuOpen g"
  "depth (gameState (checkDepthRewards g)) = depth (gameState g)"
  "health (gameState (checkDepthRewards g)) = health (gameState g)"
  "energy (gameState (checkDepthRewards g)) = energy (gameState g)"
  by (simp_all add: checkDepthRewards_def Let_def forEach_rewards frame)

lemma checkDepthRewards_oxygen:
  assumes "0 \<le> oxygen (gameState g)" "oxygen (gameState g) \<le> 100"
  shows "0 \<le> oxygen (gameState (checkDepthRewards g)) \<and> oxygen (gameState (checkDepthRewards g)) \<le> 100"
proof -
  note a = claimReward_oxygen [OF assms, where r = "\<lparr>reward_depth = 2000, reward_oxygen = 20,
      reward_points = 500, reward_message = ''Zona Batial alcancada!''\<rparr>" and d = "depth (gameState g)"]
  have b: "0 \<le> oxygen (gameState (claimReward d r2 (claimReward d r1 g))) \<and>
           oxygen (gameState (claimReward d r2 (claimReward d r1 g))) \<le> 100"
    if "0 \<le> reward_oxygen r1" "0 \<le> reward_oxygen r2" for d r1 r2
    using claimReward_oxygen [OF _ _ that(2), of "claimReward d r1 g" d]
      claimReward_oxygen [OF assms that(1), of d] by simp
  have c: "0 \<le> oxygen (gameState (claimReward d r3 (claimReward d r2 (claimReward d r1 g)))) \<and>
           oxygen (gameState (claimReward d r3 (claimReward d r2 (claimReward d r1 g)))) \<le> 100"
    if "0 \<le> reward_oxygen r1" "0 \<le> reward_oxygen r2" "0 \<le> reward_oxygen r3" for d r1 r2 r3
    using claimReward_oxygen [OF _ _ that(3), of "claimReward d r2 (claimReward d r1 g)" d]
      b [OF that(1,2), of d] by simp
  show ?thesis
    unfolding checkDepthRewards_def Let_def forEach_rewards unlockUpgrades_frame
    by (rule c) simp_all
qed

lemma checkDepthRewards_range:
  "resourcesInRange (gameState g) \<Longrightarrow> resourcesInRange (gameState (checkDepthRewards g))"
  using checkDepthRewards_oxygen [of g] by (simp add: resourcesInRange_def frame)

lemma updateDepth_frame [frame]:
  "gameOverTriggered (updateDepth ks g) = gameOverTriggered g"
  "gameOverReason (updateDepth ks g) = gameOverReason g"
  "monsters (updateDepth ks g) = monsters g" "obstacles (updateDepth ks g) = obstacles g"
  "bubbles (updateDepth ks g) = bubbles g" "nextMonsterId (updateDepth ks g) = nextMonsterId g"
  "menuOpen (updateDepth ks g) = menuOpen g"
  by (simp_all add: updateDepth_def frame)

lemma updateDepth_range:
  assumes "resourcesInRange (gameState g)"
  shows "resourcesInRange (gameState (updateDepth ks g))"
proof (cases "''s'' \<in> ks")
  case True
  have "resourcesInRange (gameState (g\<lparr>gameState := (gameState g)\<lparr>depth := Math_min 11000 (depth (gameState g) + 5)\<rparr>\<rparr>))"
    using assms by (simp add: resourcesInRange_def Math_min_def)
  from checkDepthRewards_range [OF this] True show ?thesis by (simp add: updateDepth_def)
next
  case False
  with assms show ?thesis by (simp add: updateDepth_def)
qed


lemma moveWorldObjects_frame [frame]:
  "gameState (moveWorldObjects off g) = gameState g"
  "gameOverTriggered (moveWorldObjects off g) = gameOverTriggered g"
  "gameOverReason (moveWorldObjects off g) = gameOverReason g"
  "claimedRewards (moveWorldObjects off g) = claimedRewards g"
  "nextMonsterId (moveWorldObjects off g) = nextMonsterId g"
  "menuOpen (moveWorldObjects off g) = menuOpen g"
  "map obj_id (monsters (moveWorldObjects off g)) = map obj_id (monsters g)"
  "map obj_id (obstacles (moveWorldObjects off g)) = map obj_id (obstacles g)"
  "map obj_id (bubbles (moveWorldObjects off g)) = map obj_id (bubbles g)"
  by (simp_all add: moveWorldObjects_def shiftY_def comp_def)

lemma updateParticles_frame [frame]:
  "gameState (fst (updateParticles g wd)) = gameState g"
  "gameOverTriggered (fst (updateParticles g wd)) = gameOverTriggered g"
  "gameOverReason (fst (updateParticles g wd)) = gameOverReason g"
  "claimedRewards (fst (updateParticles g wd)) = claimedRewards g"
  "nextMonsterId (fst (updateParticles g wd)) = nextMonsterId g"
  "menuOpen (fst (updateParticles g wd)) = menuOpen g"
  "monsters (fst (updateParticles g wd)) = monsters g"
  "obstacles (fst (updateParticles g wd)) = obstacles g"
  "bubbles (fst (updateParticles g wd)) = bubbles g"
  by (simp_all add: updateParticles_def split_beta)

lemma updateResources_frame [frame]:
  "gameOverTriggered (fst (updateResources g wd)) = gameOverTriggered g"
  "gameOverReason (fst (updateResources g wd)) = gameOverReason g"
  "claimedRewards (fst (updateResources g wd)) = claimedRewards g"
  "nextMonsterId (fst (updateResources g wd)) = nextMonsterId g"
  "menuOpen (fst (updateResources g wd)) = menuOpen g"
  "monsters (fst (updateResources g wd)) = monsters g"
  "obstacles (fst (updateResources g wd)) = obstacles g"
  "bubbles (fst (updateResources g wd)) = bubbles g"
  "depth (gameState (fst (updateResources g wd))) = depth (gameState g)"
  "score (gameState (fst (updateResources g wd))) = score (gameState g)"
  by (simp_all add: updateResources_def split_beta Let_def showHint_def)

lemma updateResources_range:
  "resourcesInRange (gameState g) \<Longrightarrow> resourcesInRange (gameState (fst (updateResources g wd)))"
  by (simp add: updateResources_def split_beta Let_def showHint_def resourcesInRange_def
      Math_max_def Math_min_def)

lemma forEach_monsterStep:
  "\<exists>ms'. fst (forEach (monsterStep sonar) ms (acc, wd)) = acc @ ms' \<and>
         map obj_id ms' = map obj_id ms"
proof (induction ms arbitrary: acc wd)
  case Nil
  then show ?case by simp
next
  case (Cons m ms)
  obtain m' wd' where s: "monsterStep sonar m (acc, wd) = (acc @ [m'], wd')" "obj_id m' = obj_id m"
    by (simp add: monsterStep_def split_beta Let_def)
  from Cons.IH [of "acc @ [m']" wd'] obtain ms' where
    "fst (forEach (monsterStep sonar) ms (acc @ [m'], wd')) = (acc @ [m']) @ ms'"
    "map obj_id ms' = map obj_id ms" by blast
  with s show ?case by (intro exI [of _ "m' # ms'"]) simp
qed

lemma updateMonsters_frame [frame]:
  "gameState (fst (updateMonsters g wd)) = gameState g"
  "gameOverTriggered (fst (updateMonsters g wd)) = gameOverTriggered g"
  "gameOverReason (fst (updateMonsters g wd)) = gameOverReason g"
  "claimedRewards (fst (updateMonsters g wd)) = claimedRewards g"
  "nextMonsterId (fst (updateMonsters g wd)) = nextMonsterId g"
  "menuOpen (fst (updateMonsters g wd)) = menuOpen g"
  "obstacles (fst (updateMonsters g wd)) = obstacles g"
  "bubbles (fst (updateMonsters g wd)) = bubbles g"
  by (simp_all add: updateMonsters_def split_beta)

lemma updateMonsters_ids [frame]:
  "map obj_id (monsters (fst (updateMonsters g wd))) = map obj_id (monsters g)"
  using forEach_monsterStep [of "sonarActive (gameState g)" "monsters g" "[]" wd]
  by (auto simp: updateMonsters_def split_beta)

lemma cullOffScreen_frame [frame]:
  "gameState (cullOffScreen g) = gameState g"
  "gameOverTriggered (cullOffScreen g) = gameOverTriggered g"
  "gameOverReason (cullOffScreen g) = gameOverReason g"
  "claimedRewards (cullOffScreen g) = claimedRewards g"
  "nextMonsterId (cullOffScreen g) = nextMonsterId g"
  "menuOpen (cullOffScreen g) = menuOpen g"
  "monsters (cullOffScreen g) = filter (\<lambda>m. \<not> isOffScreen m 800 600 (depth (gameState g))) (monsters g)"
  "obstacles (cullOffScreen g) = filter (\<lambda>m. \<not> isOffScreen m 800 600 (depth (gameState g))) (obstacles g)"
  "bubbles (cullOffScreen g) = filter (\<lambda>m. \<not> isOffScreen m 800 600 (depth (gameState g))) (bubbles g)"
  by (simp_all add: cullOffScreen_def Let_def)

text \<open>The damage loops.\<close>

lemma monsterDamage_frame [frame]:
  "gameOverTriggered (monsterDamage m g) = gameOverTriggered g"
  "gameOverReason (monsterDamage m g) = gameOverReason g"
  "claimedRewards (monsterDamage m g) = claimedRewards g"
  "nextMonsterId (monsterDamage m g) = nextMonsterId g"
  "menuOpen (monsterDamage m g) = menuOpen g"
  "monsters (monsterDamage m g) = monsters g"
  "obstacles (monsterDamage m g) = obstacles g"
  "bubbles (monsterDamage m g) = bubbles g"
  "depth (gameState (monsterDamage m g)) = depth (gameState g)"
  "score (gameState (monsterDamage m g)) = score (gameState g)"
  "resourcesInRange (gameState g) \<Longrightarrow> resourcesInRange (gameState (monsterDamage m g))"
  by (simp_all add: monsterDamage_def Let_def showHint_def resourcesInRange_def Math_max_def)

lemma obstacleDamage_frame [frame]:
  "gameOverTriggered (obstacleDamage m g) = gameOverTriggered g"
  "gameOverReason (obstacleDamage m g) = gameOverReason g"
  "claimedRewards (obstacleDamage m g) = claimedRewards g"
  "nextMonsterId (obstacleDamage m g) = nextMonsterId g"
  "menuOpen (obstacleDamage m g) = menuOpen g"
  "monsters (obstacleDamage m g) = monsters g"
  "obstacles (obstacleDamage m g) = obstacles g"
  "bubbles (obstacleDamage m g) = bubbles g"
  "depth (gameState (obstacleDamage m g)) = depth (gameState g)"
  "score (gameState (obstacleDamage m g)) = score (gameState g)"
  "resourcesInRange (gameState g) \<Longrightarrow> resourcesInRange (gameState (obstacleDamage m g))"
  by (simp_all add: obstacleDamage_def Let_def showHint_def resourcesInRange_def Math_max_def)

lemma forEach_invariant:
  assumes "\<And>a s. P s \<Longrightarrow> P (f a s)" and "P s"
  shows "P (forEach f as s)"
  using assms(2) by (induction as arbitrary: s) (simp_all add: assms(1))

lemma forEach_monsterDamage_frame [frame]:
  "gameOverTriggered (forEach monsterDamage cs g) = gameOverTriggered g"
  "gameOverReason (forEach monsterDamage cs g) = gameOverReason g"
  "claimedRewards (forEach monsterDamage cs g) = claimedRewards g"
  "nextMonsterId (forEach monsterDamage cs g) = nextMonsterId g"
  "menuOpen (forEach monsterDamage cs g) = menuOpen g"
  "monsters (forEach monsterDamage cs g) = monsters g"
  "obstacles (forEach monsterDamage cs g) = obstacles g"
  "bubbles (forEach monsterDamage cs g) = bubbles g"
  "depth (gameState (forEach monsterDamage cs g)) = depth (gameState g)"
  "score (gameState (forEach monsterDamage cs g)) = score (gameState g)"
  "resourcesInRange (gameState g) \<Longrightarrow> resourcesInRange (gameState (forEach monsterDamage cs g))"
  by (induction cs arbitrary: g; simp add: frame)+

lemma forEach_obstacleDamage_frame [frame]:
  "gameOverTriggered (forEach obstacleDamage cs g) = gameOverTriggered g"
  "gameOverReason (forEach obstacleDamage cs g) = gameOverReason g"
  "claimedRewards (forEach obstacleDamage cs g) = claimedRewards g"
  "nextMonsterId (forEach obstacleDamage cs g) = nextMonsterId g"
  "menuOpen (forEach obstacleDamage cs g) = menuOpen g"
  "monsters (forEach obstacleDamage cs g) = monsters g"
  "obstacles (forEach obstacleDamage cs g) = obstacles g"
  "bubbles (forEach obstacleDamage cs g) = bubbles g"
  "depth (gameState (forEach obstacleDamage cs g)) = depth (gameState g)"
  "score (gameState (forEach obstacleDamage cs g)) = score (gameState g)"
  "resourcesInRange (gameState g) \<Longrightarrow> resourcesInRange (gameState (forEach obstacleDamage cs g))"
  by (induction cs arbitrary: g; simp add: frame)+

lemma monsterCollisionPhase_frame [frame]:
  "gameOverTriggered (fst (monsterCollisionPhase c g wd)) = gameOverTriggered g"
  "gameOverReason (fst (monsterCollisionPhase c g wd)) = gameOverReason g"
  "claimedRewards (fst (monsterCollisionPhase c g wd)) = claimedRewards g"
  "nextMonsterId (fst (monsterCollisionPhase c g wd)) = nextMonsterId g"
  "menuOpen (fst (monsterCollisionPhase c g wd)) = menuOpen g"
  "obstacles (fst (monsterCollisionPhase c g wd)) = obstacles g"
  "bubbles (fst (monsterCollisionPhase c g wd)) = bubbles g"
  "depth (gameState (fst (monsterCollisionPhase c g wd))) = depth (gameState g)"
  "score (gameState (fst (monsterCollisionPhase c g wd))) = score (gameState g)"
  "resourcesInRange (gameState g) \<Longrightarrow> resourcesInRange (gameState (fst (monsterCollisionPhase c g wd)))"
  "monsters (fst (monsterCollisionPhase c g wd)) =
     filter (\<lambda>m. m \<notin> set (fst (checkMonsterCollisions (collisionDetector g) (submarine g)
                                   (monsters g) (depth (gameState g)) c wd))) (monsters g)"
  by (simp_all add: monsterCollisionPhase_def split_beta Let_def frame)

lemma obstacleCollisionPhase_frame [frame]:
  "gameOverTriggered (fst (obstacleCollisionPhase c g wd)) = gameOverTriggered g"
  "gameOverReason (fst (obstacleCollisionPhase c g wd)) = gameOverReason g"
  "claimedRewards (fst (obstacleCollisionPhase c g wd)) = claimedRewards g"
  "nextMonsterId (fst (obstacleCollisionPhase c g wd)) = nextMonsterId g"
  "menuOpen (fst (obstacleCollisionPhase c g wd)) = menuOpen g"
  "monsters (fst (obstacleCollisionPhase c g wd)) = monsters g"
  "bubbles (fst (obstacleCollisionPhase c g wd)) = bubbles g"
  "depth (gameState (fst (obstacleCollisionPhase c g wd))) = depth (gameState g)"
  "score (gameState (fst (obstacleCollisionPhase c g wd))) = score (gameState g)"
  "resourcesInRange (gameState g) \<Longrightarrow> resourcesInRange (gameState (fst (obstacleCollisionPhase c g wd)))"
  "obstacles (fst (obstacleCollisionPhase c g wd)) =
     filter (\<lambda>m. m \<notin> set (fst (checkObstacleCollisions (collisionDetector g) (submarine g)
                                   (obstacles g) (depth (gameState g)) c wd))) (obstacles g)"
  by (simp_all add: obstacleCollisionPhase_def split_beta Let_def frame)

lemma bubbleCollisionPhase_frame [frame]:
  "gameOverTriggered (fst (bubbleCollisionPhase c g wd)) = gameOverTriggered g"
  "gameOverReason (fst (bubbleCollisionPhase c g wd)) = gameOverReason g"
  "claimedRewards (fst (bubbleCollisionPhase c g wd)) = claimedRewards g"
  "nextMonsterId (fst (bubbleCollisionPhase c g wd)) = nextMonsterId g"
  "menuOpen (fst (bubbleCollisionPhase c g wd)) = menuOpen g"
  "monsters (fst (bubbleCollisionPhase c g wd)) = monsters g"
  "obstacles (fst (bubbleCollisionPhase c g wd)) = obstacles g"
  "depth (gameState (fst (bubbleCollisionPhase c g wd))) = depth (gameState g)"
  "score (gameState (fst (bubbleCollisionPhase c g wd))) = score (gameState g)"
  "resourcesInRange (gameState g) \<Longrightarrow> resourcesInRange (gameState (fst (bubbleCollisionPhase c g wd)))"
  "bubbles (fst (bubbleCollisionPhase c g wd)) =
     filter (\<lambda>m. m \<notin> set (fst (checkBubbleCollisions (collisionDetector g) (submarine g)
                                   (bubbles g) (depth (gameState g)) c wd))) (bubbles g)"
  by (simp_all add: bubbleCollisionPhase_def split_beta Let_def showHint_def resourcesInRange_def Math_min_def)

lemma checkGameOver_frame [frame]:
  "gameState (checkGameOver g) = gameState g"
  "claimedRewards (checkGameOver g) = claimedRewards g"
  "nextMonsterId (checkGameOver g) = nextMonsterId g"
  "menuOpen (checkGameOver g) = menuOpen g"
  "monsters (checkGameOver g) = monsters g"
  "obstacles (checkGameOver g) = obstacles g"
  "bubbles (checkGameOver g) = bubbles g"
  by (simp_all add: checkGameOver_def endGame_def)


text \<open>Spawning: the new objects take the next ids and are placed on screen.\<close>

lemma Math_random_range:
  "0 \<le> fst (Math_random wd)" "fst (Math_random wd) < 1"
  by (simp_all add: Math_random_def frac_lt_1)

lemma spawnOneMonster_frame [frame]:
  "gameState (fst (spawnOneMonster d (g, wd))) = gameState g"
  "gameOverTriggered (fst (spawnOneMonster d (g, wd))) = gameOverTriggered g"
  "gameOverReason (fst (spawnOneMonster d (g, wd))) = gameOverReason g"
  "claimedRewards (fst (spawnOneMonster d (g, wd))) = claimedRewards g"
  "menuOpen (fst (spawnOneMonster d (g, wd))) = menuOpen g"
  "obstacles (fst (spawnOneMonster d (g, wd))) = obstacles g"
  "bubbles (fst (spawnOneMonster d (g, wd))) = bubbles g"
  "nextMonsterId (fst (spawnOneMonster d (g, wd))) = Suc (nextMonsterId g)"
  by (simp_all add: spawnOneMonster_def split_beta Let_def)

lemma spawnOneMonster_monsters:
  "\<exists>m. monsters (fst (spawnOneMonster d (g, wd))) = monsters g @ [m] \<and>
        spawnedAt d (nextMonsterId g) m"
  by (simp add: spawnOneMonster_def split_beta Let_def new_GameObject_def Date_now_def
      spawnedAt_def Math_random_def frac_lt_1)


lemma spawnOneMonster_frame' [frame]:
  "gameState (fst (spawnOneMonster d st)) = gameState (fst st)"
  "gameOverTriggered (fst (spawnOneMonster d st)) = gameOverTriggered (fst st)"
  "gameOverReason (fst (spawnOneMonster d st)) = gameOverReason (fst st)"
  "claimedRewards (fst (spawnOneMonster d st)) = claimedRewards (fst st)"
  "menuOpen (fst (spawnOneMonster d st)) = menuOpen (fst st)"
  "obstacles (fst (spawnOneMonster d st)) = obstacles (fst st)"
  "bubbles (fst (spawnOneMonster d st)) = bubbles (fst st)"
  "nextMonsterId (fst (spawnOneMonster d st)) = Suc (nextMonsterId (fst st))"
  by (cases st; simp add: frame)+

lemma spawnMonsterLoop_frame [frame]:
  "gameState (fst (spawnMonsterLoop k d st)) = gameState (fst st)"
  "gameOverTriggered (fst (spawnMonsterLoop k d st)) = gameOverTriggered (fst st)"
  "gameOverReason (fst (spawnMonsterLoop k d st)) = gameOverReason (fst st)"
  "claimedRewards (fst (spawnMonsterLoop k d st)) = claimedRewards (fst st)"
  "menuOpen (fst (spawnMonsterLoop k d st)) = menuOpen (fst st)"
  "obstacles (fst (spawnMonsterLoop k d st)) = obstacles (fst st)"
  "bubbles (fst (spawnMonsterLoop k d st)) = bubbles (fst st)"
  "nextMonsterId (fst (spawnMonsterLoop k d st)) = nextMonsterId (fst st) + k"
  by (induction k arbitrary: st; simp add: frame)+

lemma spawnMonsterLoop_monsters:
  "\<exists>ms. monsters (fst (spawnMonsterLoop k d st)) = monsters (fst st) @ ms \<and>
         map obj_id ms = [nextMonsterId (fst st) ..< nextMonsterId (fst st) + k] \<and>
         (\<forall>m \<in> set ms. \<exists>i. spawnedAt d i m)"
proof (induction k arbitrary: st)
  case 0
  then show ?case by simp
next
  case (Suc k)
  obtain m where m: "monsters (fst (spawnOneMonster d st)) = monsters (fst st) @ [m]"
    "spawnedAt d (nextMonsterId (fst st)) m"
    using spawnOneMonster_monsters [of d "fst st" "snd st"] by auto
  from Suc.IH [of "spawnOneMonster d st"] obtain ms where ms:
    "monsters (fst (spawnMonsterLoop k d (spawnOneMonster d st))) = monsters (fst (spawnOneMonster d st)) @ ms"
    "map obj_id ms = [Suc (nextMonsterId (fst st)) ..< Suc (nextMonsterId (fst st)) + k]"
    "\<forall>m \<in> set ms. \<exists>i. spawnedAt d i m"
    by (auto simp: frame)
  have "obj_id m = nextMonsterId (fst st)" using m(2) by (simp add: spawnedAt_def)
  then have "map obj_id (m # ms) = [nextMonsterId (fst st) ..< nextMonsterId (fst st) + Suc k]"
    using ms(2) by (simp add: upt_conv_Cons)
  with m ms show ?case
    by (intro exI [of _ "m # ms"]) auto
qed

lemma spawnMonsters_frame [frame]:
  "gameState (fst (spawnMonsters g wd)) = gameState g"
  "gameOverTriggered (fst (spawnMonsters g wd)) = gameOverTriggered g"
  "gameOverReason (fst (spawnMonsters g wd)) = gameOverReason g"
  "claimedRewards (fst (spawnMonsters g wd)) = claimedRewards g"
  "menuOpen (fst (spawnMonsters g wd)) = menuOpen g"
  "obstacles (fst (spawnMonsters g wd)) = obstacles g"
  "bubbles (fst (spawnMonsters g wd)) = bubbles g"
  by (simp_all add: spawnMonsters_def split_beta Let_def frame)

lemma spawnMonsters_monsters:
  "\<exists>ms k. monsters (fst (spawnMonsters g wd)) = monsters g @ ms \<and>
           nextMonsterId (fst (spawnMonsters g wd)) = nextMonsterId g + k \<and>
           map obj_id ms = [nextMonsterId g ..< nextMonsterId g + k] \<and>
           (\<forall>m \<in> set ms. \<exists>i. spawnedAt (depth (gameState g)) i m)"
proof (cases "depth (gameState g) - lastSpawnDepth g \<ge> 400 + fst (Math_random wd) * 300")
  case True
  define k where "k = nat (min (1 + \<lfloor>depth (gameState g) / 2000\<rfloor>) 3)"
  define st where "st = (g\<lparr>lastSpawnDepth := depth (gameState g)\<rparr>, snd (Math_random wd))"
  have e: "spawnMonsters g wd = spawnMonsterLoop k (depth (gameState g)) st"
    using True by (simp add: spawnMonsters_def split_beta Let_def k_def st_def)
  from spawnMonsterLoop_monsters [of k "depth (gameState g)" st] obtain ms where
    "monsters (fst (spawnMonsterLoop k (depth (gameState g)) st)) = monsters (fst st) @ ms"
    "map obj_id ms = [nextMonsterId (fst st) ..< nextMonsterId (fst st) + k]"
    "\<forall>m \<in> set ms. \<exists>i. spawnedAt (depth (gameState g)) i m" by blast
  then show ?thesis
    unfolding e by (intro exI [of _ ms] exI [of _ k]) (simp add: frame st_def)
next
  case False
  then show ?thesis
    by (intro exI [of _ "[]"] exI [of _ 0]) (simp add: spawnMonsters_def split_beta Let_def)
qed

lemma spawnObstacle_frame [frame]:
  "gameState (fst (spawnObstacle g wd)) = gameState g"
  "gameOverTriggered (fst (spawnObstacle g wd)) = gameOverTriggered g"
  "gameOverReason (fst (spawnObstacle g wd)) = gameOverReason g"
  "claimedRewards (fst (spawnObstacle g wd)) = claimedRewards g"
  "menuOpen (fst (spawnObstacle g wd)) = menuOpen g"
  "monsters (fst (spawnObstacle g wd)) = monsters g"
  "bubbles (fst (spawnObstacle g wd)) = bubbles g"
  by (simp_all add: spawnObstacle_def split_beta Let_def)

lemma spawnObstacle_obstacles:
  "\<exists>os k. obstacles (fst (spawnObstacle g wd)) = obstacles g @ os \<and>
           nextMonsterId (fst (spawnObstacle g wd)) = nextMonsterId g + k \<and>
           map obj_id os = [nextMonsterId g ..< nextMonsterId g + k] \<and>
           (\<forall>m \<in> set os. \<exists>i. spawnedAt (depth (gameState g)) i m)"
proof (cases "length (obstacles g) < 4 \<and> fst (Math_random wd) < 0.02")
  case True
  have r: "0 \<le> fst (Math_random w)" "fst (Math_random w) < 1" for w
    by (rule Math_random_range)+
  define r1 where "r1 = fst (Math_random (snd (Math_random wd)))"
  define r2 where "r2 = fst (Math_random (snd (Math_random (snd (Math_random wd)))))"
  have b: "0 \<le> r1" "r1 < 1" "0 \<le> r2" "r2 < 1" unfolding r1_def r2_def by (rule r)+
  have x: "- 100 \<le> r1 * 700 + 50" "r1 * 700 + 50 \<le> 900" using b by simp_all
  have y: "400 + r2 * 400 < 1000" "0 \<le> r2 * 400" using b by simp_all
  from True show ?thesis
    apply (intro exI [of _ "[last (obstacles (fst (spawnObstacle g wd)))]"] exI [of _ 1])
    apply (simp add: spawnObstacle_def split_beta Let_def new_GameObject_def Date_now_def spawnedAt_def)
    using x y unfolding r1_def r2_def by simp
next
  case False
  then show ?thesis
    by (intro exI [of _ "[]"] exI [of _ 0]) (auto simp: spawnObstacle_def split_beta Let_def)
qed

lemma spawnBubble_frame [frame]:
  "gameState (fst (spawnBubble g wd)) = gameState g"
  "gameOverTriggered (fst (spawnBubble g wd)) = gameOverTriggered g"
  "gameOverReason (fst (spawnBubble g wd)) = gameOverReason g"
  "claimedRewards (fst (spawnBubble g wd)) = claimedRewards g"
  "menuOpen (fst (spawnBubble g wd)) = menuOpen g"
  "monsters (fst (spawnBubble g wd)) = monsters g"
  "obstacles (fst (spawnBubble g wd)) = obstacles g"
  by (simp_all add: spawnBubble_def split_beta Let_def)

lemma spawnBubble_bubbles:
  "\<exists>bs k. bubbles (fst (spawnBubble g wd)) = bubbles g @ bs \<and>
           nextMonsterId (fst (spawnBubble g wd)) = nextMonsterId g + k \<and>
           map obj_id bs = [nextMonsterId g ..< nextMonsterId g + k] \<and>
           (\<forall>m \<in> set bs. \<exists>i. spawnedAt (depth (gameState g)) i m)"
proof (cases "length (bubbles g) < 5 \<and> fst (Math_random wd) < 0.025")
  case True
  have r: "0 \<le> fst (Math_random w)" "fst (Math_random w) < 1" for w
    by (rule Math_random_range)+
  define r1 where "r1 = fst (Math_random (snd (Math_random wd)))"
  define r2 where "r2 = fst (Math_random (snd (Math_random (snd (Math_random wd)))))"
  have b: "0 \<le> r1" "r1 < 1" "0 \<le> r2" "r2 < 1" unfolding r1_def r2_def by (rule r)+
  have x: "- 100 \<le> r1 * 750 + 25" "r1 * 750 + 25 \<le> 900" using b by simp_all
  have y: "500 + r2 * 300 < 1000" "0 \<le> r2 * 300" using b by simp_all
  from True show ?thesis
    apply (intro exI [of _ "[last (bubbles (fst (spawnBubble g wd)))]"] exI [of _ 1])
    apply (simp add: spawnBubble_def split_beta Let_def new_GameObject_def Date_now_def spawnedAt_def)
    using x y unfolding r1_def r2_def by simp
next
  case False
  then show ?thesis
    by (intro exI [of _ "[]"] exI [of _ 0]) (auto simp: spawnBubble_def split_beta Let_def)
qed


lemma spawnProceduralElements_frame [frame]:
  "gameState (fst (spawnProceduralElements g wd)) = gameState g"
  "gameOverTriggered (fst (spawnProceduralElements g wd)) = gameOverTriggered g"
  "gameOverReason (fst (spawnProceduralElements g wd)) = gameOverReason g"
  "claimedRewards (fst (spawnProceduralElements g wd)) = claimedRewards g"
  "menuOpen (fst (spawnProceduralElements g wd)) = menuOpen g"
  "monsters (fst (spawnProceduralElements g wd)) = monsters g"
  by (simp_all add: spawnProceduralElements_def split_beta frame)

text \<open>Three ways in which a block changes the lists of live objects.\<close>

lemma liveIds_eq:
  "liveIds g = set (map obj_id (monsters g)) \<union> set (map obj_id (obstacles g)) \<union>
               set (map obj_id (bubbles g))"
  by (auto simp: liveIds_def liveObjects_def)

lemma idsValid_eq:
  "idsValid g =
     (distinct (map obj_id (monsters g) @ map obj_id (obstacles g) @ map obj_id (bubbles g)) \<and>
      (\<forall>i \<in> liveIds g. i < nextMonsterId g))"
  by (simp add: idsValid_def liveObjects_def)

lemma same_ids:
  assumes "map obj_id (monsters g') = map obj_id (monsters g)"
    and "map obj_id (obstacles g') = map obj_id (obstacles g)"
    and "map obj_id (bubbles g') = map obj_id (bubbles g)"
    and "nextMonsterId g' = nextMonsterId g"
  shows "idsValid g' = idsValid g" and "retiredId i g' = retiredId i g" and "liveIds g' = liveIds g"
  using assms by (simp_all add: idsValid_eq retiredId_def liveIds_eq)

lemma filtered_lists:
  assumes "monsters g' = filter P (monsters g)"
    and "obstacles g' = filter Q (obstacles g)"
    and "bubbles g' = filter R (bubbles g)"
    and "nextMonsterId g' = nextMonsterId g"
  shows "idsValid g \<Longrightarrow> idsValid g'" and "retiredId i g \<Longrightarrow> retiredId i g'"
    and "liveIds g' \<subseteq> liveIds g"
    and "depth (gameState g') = depth (gameState g) \<Longrightarrow> allOnScreen g \<Longrightarrow> allOnScreen g'"
proof -
  show l: "liveIds g' \<subseteq> liveIds g" using assms by (auto simp: liveIds_eq)
  show "retiredId i g \<Longrightarrow> retiredId i g'" using l assms(4) by (auto simp: retiredId_def)
  show "depth (gameState g') = depth (gameState g) \<Longrightarrow> allOnScreen g \<Longrightarrow> allOnScreen g'"
    using assms by (auto simp: allOnScreen_def liveObjects_def)
  assume v: "idsValid g"
  have "distinct (map obj_id (filter P (monsters g)) @ map obj_id (filter Q (obstacles g)) @
                  map obj_id (filter R (bubbles g)))"
    using v unfolding idsValid_eq by (auto simp: distinct_map_filter)
  with v l assms show "idsValid g'" unfolding idsValid_eq by auto
qed

lemma appended_lists:
  assumes "monsters g' = monsters g @ ms" and "obstacles g' = obstacles g @ os"
    and "bubbles g' = bubbles g @ bs"
    and "nextMonsterId g' = nextMonsterId g + k"
    and "map obj_id (ms @ os @ bs) = [nextMonsterId g ..< nextMonsterId g + k]"
  shows "idsValid g \<Longrightarrow> idsValid g'" and "retiredId i g \<Longrightarrow> retiredId i g'"
    and "depth (gameState g') = depth (gameState g) \<Longrightarrow>
         \<forall>m \<in> set (ms @ os @ bs). \<exists>j. spawnedAt (depth (gameState g)) j m \<Longrightarrow>
         allOnScreen g \<Longrightarrow> allOnScreen g'"
proof -
  let ?n = "nextMonsterId g"
  have new: "set (map obj_id ms) \<union> set (map obj_id os) \<union> set (map obj_id bs) = {?n ..< ?n + k}"
    using arg_cong [OF assms(5), of set] by (simp add: Un_assoc)
  have dn: "distinct (map obj_id ms @ map obj_id os @ map obj_id bs)"
    using arg_cong [OF assms(5), of distinct] by simp
  have l: "liveIds g' = liveIds g \<union> {?n ..< ?n + k}"
    using new assms(1-3) by (auto simp: liveIds_eq)
  show "retiredId i g \<Longrightarrow> retiredId i g'" using l assms(4) by (auto simp: retiredId_def)
  show "depth (gameState g') = depth (gameState g) \<Longrightarrow>
         \<forall>m \<in> set (ms @ os @ bs). \<exists>j. spawnedAt (depth (gameState g)) j m \<Longrightarrow>
         allOnScreen g \<Longrightarrow> allOnScreen g'"
  proof -
    assume d: "depth (gameState g') = depth (gameState g)"
      and sp: "\<forall>m \<in> set (ms @ os @ bs). \<exists>j. spawnedAt (depth (gameState g)) j m"
      and on: "allOnScreen g"
    have "\<not> isOffScreen m 800 600 (depth (gameState g))" if "m \<in> set (ms @ os @ bs)" for m
    proof -
      from sp that obtain j where "spawnedAt (depth (gameState g)) j m" by blast
      then show ?thesis by (simp add: spawnedAt_def isOffScreen_def)
    qed
    with on d assms(1-3) show "allOnScreen g'"
      by (auto simp: allOnScreen_def liveObjects_def)
  qed
  assume v: "idsValid g"
  then have old: "\<forall>i \<in> liveIds g. i < ?n" and dold: "distinct (map obj_id (monsters g) @ map obj_id (obstacles g) @ map obj_id (bubbles g))"
    unfolding idsValid_eq by simp_all
  have fresh: "\<forall>i \<in> set (map obj_id ms) \<union> set (map obj_id os) \<union> set (map obj_id bs). i \<notin> liveIds g"
    using new old by auto
  have "distinct (map obj_id (monsters g @ ms) @ map obj_id (obstacles g @ os) @ map obj_id (bubbles g @ bs))"
    using dold dn fresh unfolding liveIds_eq by auto
  moreover have "\<forall>i \<in> liveIds g'. i < nextMonsterId g'" using l old assms(4) by auto
  ultimately show "idsValid g'" unfolding idsValid_eq using assms(1-3) by simp
qed


text \<open>Depth rewards.\<close>

lemma claimReward_fields:
  "claimedRewards (claimReward d r g) =
     (if d \<ge> reward_depth r \<and> reward_depth r \<notin> claimedRewards g
      then insert (reward_depth r) (claimedRewards g) else claimedRewards g)"
  "score (gameState (claimReward d r g)) =
     (if d \<ge> reward_depth r \<and> reward_depth r \<notin> claimedRewards g
      then score (gameState g) + reward_points r else score (gameState g))"
  "oxygen (gameState (claimReward d r g)) =
     (if d \<ge> reward_depth r \<and> reward_depth r \<notin> claimedRewards g
      then Math_min 100 (oxygen (gameState g) + reward_oxygen r) else oxygen (gameState g))"
  "depth (gameState (claimReward d r g)) = depth (gameState g)"
  by (simp_all add: claimReward_def Let_def showHint_def)

lemma forEach_claimReward:
  assumes "distinct (map reward_depth rs)"
  shows "claimedRewards (forEach (claimReward d) rs g) =
           claimedRewards g \<union> reward_depth ` set (filter (\<lambda>rw. d \<ge> reward_depth rw \<and> reward_depth rw \<notin> claimedRewards g) rs) \<and>
         score (gameState (forEach (claimReward d) rs g)) =
           score (gameState g) + sum_list (map reward_points (filter (\<lambda>rw. d \<ge> reward_depth rw \<and> reward_depth rw \<notin> claimedRewards g) rs)) \<and>
         oxygen (gameState (forEach (claimReward d) rs g)) =
           foldl (\<lambda>ox rw. Math_min 100 (ox + reward_oxygen rw)) (oxygen (gameState g))
             (filter (\<lambda>rw. d \<ge> reward_depth rw \<and> reward_depth rw \<notin> claimedRewards g) rs)"
  using assms
proof (induction rs arbitrary: g)
  case Nil
  then show ?case by simp
next
  case (Cons r rs)
  let ?g = "claimReward d r g"
  have same: "filter (\<lambda>rw. d \<ge> reward_depth rw \<and> reward_depth rw \<notin> claimedRewards ?g) rs =
              filter (\<lambda>rw. d \<ge> reward_depth rw \<and> reward_depth rw \<notin> claimedRewards g) rs"
  proof (intro filter_cong refl)
    fix rw assume "rw \<in> set rs"
    with Cons.prems have "reward_depth rw \<noteq> reward_depth r" by (auto simp: image_iff)
    then show "(d \<ge> reward_depth rw \<and> reward_depth rw \<notin> claimedRewards ?g) =
               (d \<ge> reward_depth rw \<and> reward_depth rw \<notin> claimedRewards g)"
      by (simp add: claimReward_fields)
  qed
  from Cons.prems have "distinct (map reward_depth rs)" by simp
  note ih = Cons.IH [OF this, of ?g, unfolded same]
  show ?case
    by (simp add: ih claimReward_fields)
qed

lemma checkDepthRewards_claims:
  "claimedRewards (checkDepthRewards g) = claimedRewards g \<union> reward_depth ` set (newlyClaimed g)"
  "score (gameState (checkDepthRewards g)) =
     score (gameState g) + sum_list (map reward_points (newlyClaimed g))"
  "oxygen (gameState (checkDepthRewards g)) =
     foldl (\<lambda>ox rw. Math_min 100 (ox + reward_oxygen rw)) (oxygen (gameState g)) (newlyClaimed g)"
proof -
  have "distinct (map reward_depth rewards)" by (simp add: rewards_def)
  from forEach_claimReward [OF this, of "depth (gameState g)" g]
  show "claimedRewards (checkDepthRewards g) = claimedRewards g \<union> reward_depth ` set (newlyClaimed g)"
    and "score (gameState (checkDepthRewards g)) =
     score (gameState g) + sum_list (map reward_points (newlyClaimed g))"
    and "oxygen (gameState (checkDepthRewards g)) =
     foldl (\<lambda>ox rw. Math_min 100 (ox + reward_oxygen rw)) (oxygen (gameState g)) (newlyClaimed g)"
    by (simp_all add: checkDepthRewards_def Let_def unlockUpgrades_frame newlyClaimed_def)
qed

lemma newlyClaimed_paid:
  assumes "rewardsPaidOnce g" and "depth (gameState g) \<le> d"
  shows "newlyClaimed (g\<lparr>gameState := (gameState g)\<lparr>depth := d\<rparr>\<rparr>) =
           filter (\<lambda>rw. depth (gameState g) < reward_depth rw \<and> reward_depth rw \<le> d) rewards"
  unfolding newlyClaimed_def using assms
  by (intro filter_cong) (auto simp: rewardsPaidOnce_def)

lemma sum_list_filter_split:
  fixes f :: "'a \<Rightarrow> real"
  assumes "\<And>x. x \<in> set xs \<Longrightarrow> R x = (P x \<or> Q x)" "\<And>x. x \<in> set xs \<Longrightarrow> \<not> (P x \<and> Q x)"
  shows "sum_list (map f (filter R xs)) = sum_list (map f (filter P xs)) + sum_list (map f (filter Q xs))"
  using assms by (induction xs) auto

lemma rewardsPaidOnce_checkDepthRewards:
  assumes "rewardsPaidOnce g" and "depth (gameState g) \<le> d"
  shows "rewardsPaidOnce (checkDepthRewards (g\<lparr>gameState := (gameState g)\<lparr>depth := d\<rparr>\<rparr>))"
proof -
  let ?g = "g\<lparr>gameState := (gameState g)\<lparr>depth := d\<rparr>\<rparr>"
  note n = newlyClaimed_paid [OF assms]
  have d: "depth (gameState (checkDepthRewards ?g)) = d"
    by (simp add: checkDepthRewards_def Let_def unlockUpgrades_frame forEach_rewards claimReward_fields)
  have c: "claimedRewards (checkDepthRewards ?g) = {t \<in> reward_depth ` set rewards. t \<le> d}"
    unfolding checkDepthRewards_claims n using assms by (auto simp: rewardsPaidOnce_def)
  have s: "score (gameState (checkDepthRewards ?g)) =
      sum_list (map reward_points (filter (\<lambda>rw. reward_depth rw \<le> d) rewards))"
    unfolding checkDepthRewards_claims n using assms
    by (simp add: rewardsPaidOnce_def)
       (rule sum_list_filter_split [symmetric], auto)
  show ?thesis unfolding rewardsPaidOnce_def d using c s by simp
qed




text \<open>The first half of a tick.\<close>

lemma tickUpToCull_frame [frame]:
  "gameOverTriggered (fst (tickUpToCull g dt wd)) = gameOverTriggered g"
  "gameOverReason (fst (tickUpToCull g dt wd)) = gameOverReason g"
  "menuOpen (fst (tickUpToCull g dt wd)) = menuOpen g"
  "nextMonsterId (fst (tickUpToCull g dt wd)) = nextMonsterId g"
  by (simp_all add: tickUpToCull_def split_beta Let_def frame)

lemma tickUpToCull_range:
  "resourcesInRange (gameState g) \<Longrightarrow> resourcesInRange (gameState (fst (tickUpToCull g dt wd)))"
  by (simp add: tickUpToCull_def split_beta Let_def frame updateDepth_range updateResources_range)

lemma tickUpToCull_cull:
  "\<exists>g8. fst (tickUpToCull g dt wd) = cullOffScreen g8 \<and>
         map obj_id (monsters g8) = map obj_id (monsters g) \<and>
         map obj_id (obstacles g8) = map obj_id (obstacles g) \<and>
         map obj_id (bubbles g8) = map obj_id (bubbles g) \<and>
         nextMonsterId g8 = nextMonsterId g"
  unfolding tickUpToCull_def split_beta Let_def fst_conv
  by (rule exI, rule conjI, rule refl) (simp add: frame)

lemma cullOffScreen_allOnScreen: "allOnScreen (cullOffScreen g)"
  by (auto simp: allOnScreen_def liveObjects_def frame)

lemma tickUpToCull_lists:
  "idsValid g \<Longrightarrow> idsValid (fst (tickUpToCull g dt wd))"
  "retiredId i g \<Longrightarrow> retiredId i (fst (tickUpToCull g dt wd))"
  "allOnScreen (fst (tickUpToCull g dt wd))"
proof -
  obtain g8 where e: "fst (tickUpToCull g dt wd) = cullOffScreen g8"
    and m: "map obj_id (monsters g8) = map obj_id (monsters g)"
    and ob: "map obj_id (obstacles g8) = map obj_id (obstacles g)"
    and b: "map obj_id (bubbles g8) = map obj_id (bubbles g)"
    and n: "nextMonsterId g8 = nextMonsterId g"
    using tickUpToCull_cull by blast
  note s = same_ids [OF m ob b n]
  note f = filtered_lists [OF cullOffScreen_frame(7) [of g8] cullOffScreen_frame(8)
      cullOffScreen_frame(9) cullOffScreen_frame(5)]
  show "idsValid g \<Longrightarrow> idsValid (fst (tickUpToCull g dt wd))" unfolding e using s(1) f(1) by simp
  show "retiredId i g \<Longrightarrow> retiredId i (fst (tickUpToCull g dt wd))" unfolding e using s(2) f(2) by simp
  show "allOnScreen (fst (tickUpToCull g dt wd))" unfolding e by (rule cullOffScreen_allOnScreen)
qed

lemma updateDepth_rewards:
  assumes "rewardsPaidOnce g" and "depth (gameState g) \<le> 11000"
  shows "rewardsPaidOnce (updateDepth ks g)"
proof (cases "''s'' \<in> ks")
  case True
  have "depth (gameState g) \<le> Math_min 11000 (depth (gameState g) + 5)"
    using assms(2) by (simp add: Math_min_def)
  from rewardsPaidOnce_checkDepthRewards [OF assms(1) this] True show ?thesis
    by (simp add: updateDepth_def)
next
  case False
  with assms show ?thesis by (simp add: updateDepth_def)
qed

lemma rewardsPaidOnce_cong:
  "claimedRewards g' = claimedRewards g \<Longrightarrow> depth (gameState g') = depth (gameState g) \<Longrightarrow>
   score (gameState g') = score (gameState g) \<Longrightarrow> rewardsPaidOnce g' = rewardsPaidOnce g"
  by (simp add: rewardsPaidOnce_def)

lemma tickUpToCull_rewards_fields:
  "claimedRewards (fst (tickUpToCull g dt wd)) = claimedRewards (updateDepth (keys (inputHandler g)) g)"
  "depth (gameState (fst (tickUpToCull g dt wd))) = depth (gameState (updateDepth (keys (inputHandler g)) g))"
  "score (gameState (fst (tickUpToCull g dt wd))) = score (gameState (updateDepth (keys (inputHandler g)) g))"
  by (simp_all add: tickUpToCull_def split_beta Let_def frame updateDepth_def updateCameraOffset_def
      checkDepthRewards_claims newlyClaimed_def)


text \<open>The second half of a tick.\<close>

lemma tickFromCollisions_frame [frame]:
  "claimedRewards (fst (tickFromCollisions g wd)) = claimedRewards g"
  "depth (gameState (fst (tickFromCollisions g wd))) = depth (gameState g)"
  "score (gameState (fst (tickFromCollisions g wd))) = score (gameState g)"
  "menuOpen (fst (tickFromCollisions g wd)) = menuOpen g"
  by (simp_all add: tickFromCollisions_def split_beta Let_def frame)

lemma tickFromCollisions_range:
  "resourcesInRange (gameState g) \<Longrightarrow> resourcesInRange (gameState (fst (tickFromCollisions g wd)))"
  by (simp add: tickFromCollisions_def split_beta Let_def frame)

lemma tickFromCollisions_checkGameOver:
  "\<exists>g5. fst (tickFromCollisions g wd) = checkGameOver g5 \<and>
         gameOverTriggered g5 = gameOverTriggered g \<and> gameOverReason g5 = gameOverReason g"
  unfolding tickFromCollisions_def split_beta Let_def fst_conv
  by (rule exI, rule conjI, rule refl) (simp add: frame)

lemma monsterCollisionPhase_lists:
  "idsValid g \<Longrightarrow> idsValid (fst (monsterCollisionPhase c g wd))"
  "retiredId i g \<Longrightarrow> retiredId i (fst (monsterCollisionPhase c g wd))"
  "allOnScreen g \<Longrightarrow> allOnScreen (fst (monsterCollisionPhase c g wd))"
proof -
  have o: "obstacles (fst (monsterCollisionPhase c g wd)) = filter (\<lambda>_. True) (obstacles g)"
    and b: "bubbles (fst (monsterCollisionPhase c g wd)) = filter (\<lambda>_. True) (bubbles g)"
    by (simp_all add: frame)
  note f = filtered_lists [OF monsterCollisionPhase_frame(11) o b monsterCollisionPhase_frame(4)]
  show "idsValid g \<Longrightarrow> idsValid (fst (monsterCollisionPhase c g wd))" by (rule f(1))
  show "retiredId i g \<Longrightarrow> retiredId i (fst (monsterCollisionPhase c g wd))" by (rule f(2))
  show "allOnScreen g \<Longrightarrow> allOnScreen (fst (monsterCollisionPhase c g wd))"
    by (rule f(4)) (simp_all add: frame)
qed

lemma obstacleCollisionPhase_lists:
  "idsValid g \<Longrightarrow> idsValid (fst (obstacleCollisionPhase c g wd))"
  "retiredId i g \<Longrightarrow> retiredId i (fst (obstacleCollisionPhase c g wd))"
  "allOnScreen g \<Longrightarrow> allOnScreen (fst (obstacleCollisionPhase c g wd))"
proof -
  have m: "monsters (fst (obstacleCollisionPhase c g wd)) = filter (\<lambda>_. True) (monsters g)"
    and b: "bubbles (fst (obstacleCollisionPhase c g wd)) = filter (\<lambda>_. True) (bubbles g)"
    by (simp_all add: frame)
  note f = filtered_lists [OF m obstacleCollisionPhase_frame(11) b obstacleCollisionPhase_frame(4)]
  show "idsValid g \<Longrightarrow> idsValid (fst (obstacleCollisionPhase c g wd))" by (rule f(1))
  show "retiredId i g \<Longrightarrow> retiredId i (fst (obstacleCollisionPhase c g wd))" by (rule f(2))
  show "allOnScreen g \<Longrightarrow> allOnScreen (fst (obstacleCollisionPhase c g wd))"
    by (rule f(4)) (simp_all add: frame)
qed

lemma bubbleCollisionPhase_lists:
  "idsValid g \<Longrightarrow> idsValid (fst (bubbleCollisionPhase c g wd))"
  "retiredId i g \<Longrightarrow> retiredId i (fst (bubbleCollisionPhase c g wd))"
  "allOnScreen g \<Longrightarrow> allOnScreen (fst (bubbleCollisionPhase c g wd))"
proof -
  have m: "monsters (fst (bubbleCollisionPhase c g wd)) = filter (\<lambda>_. True) (monsters g)"
    and o: "obstacles (fst (bubbleCollisionPhase c g wd)) = filter (\<lambda>_. True) (obstacles g)"
    by (simp_all add: frame)
  note f = filtered_lists [OF m o bubbleCollisionPhase_frame(11) bubbleCollisionPhase_frame(4)]
  show "idsValid g \<Longrightarrow> idsValid (fst (bubbleCollisionPhase c g wd))" by (rule f(1))
  show "retiredId i g \<Longrightarrow> retiredId i (fst (bubbleCollisionPhase c g wd))" by (rule f(2))
  show "allOnScreen g \<Longrightarrow> allOnScreen (fst (bubbleCollisionPhase c g wd))"
    by (rule f(4)) (simp_all add: frame)
qed

lemma spawnMonsters_lists:
  "idsValid g \<Longrightarrow> idsValid (fst (spawnMonsters g wd))"
  "retiredId i g \<Longrightarrow> retiredId i (fst (spawnMonsters g wd))"
  "allOnScreen g \<Longrightarrow> allOnScreen (fst (spawnMonsters g wd))"
proof -
  obtain ms k where m: "monsters (fst (spawnMonsters g wd)) = monsters g @ ms"
    and n: "nextMonsterId (fst (spawnMonsters g wd)) = nextMonsterId g + k"
    and i: "map obj_id ms = [nextMonsterId g ..< nextMonsterId g + k]"
    and s: "\<forall>m \<in> set ms. \<exists>i. spawnedAt (depth (gameState g)) i m"
    using spawnMonsters_monsters by blast
  have o: "obstacles (fst (spawnMonsters g wd)) = obstacles g @ []"
    and b: "bubbles (fst (spawnMonsters g wd)) = bubbles g @ []"
    by (simp_all add: frame)
  have i': "map obj_id (ms @ [] @ []) = [nextMonsterId g ..< nextMonsterId g + k]" using i by simp
  note a = appended_lists [OF m o b n i']
  show "idsValid g \<Longrightarrow> idsValid (fst (spawnMonsters g wd))" by (rule a(1))
  show "retiredId i g \<Longrightarrow> retiredId i (fst (spawnMonsters g wd))" by (rule a(2))
  show "allOnScreen g \<Longrightarrow> allOnScreen (fst (spawnMonsters g wd))"
    using s by (intro a(3)) (simp_all add: frame)
qed

lemma spawnObstacle_lists:
  "idsValid g \<Longrightarrow> idsValid (fst (spawnObstacle g wd))"
  "retiredId i g \<Longrightarrow> retiredId i (fst (spawnObstacle g wd))"
  "allOnScreen g \<Longrightarrow> allOnScreen (fst (spawnObstacle g wd))"
proof -
  obtain os k where o: "obstacles (fst (spawnObstacle g wd)) = obstacles g @ os"
    and n: "nextMonsterId (fst (spawnObstacle g wd)) = nextMonsterId g + k"
    and i: "map obj_id os = [nextMonsterId g ..< nextMonsterId g + k]"
    and s: "\<forall>m \<in> set os. \<exists>i. spawnedAt (depth (gameState g)) i m"
    using spawnObstacle_obstacles by blast
  have m: "monsters (fst (spawnObstacle g wd)) = monsters g @ []"
    and b: "bubbles (fst (spawnObstacle g wd)) = bubbles g @ []"
    by (simp_all add: frame)
  have i': "map obj_id ([] @ os @ []) = [nextMonsterId g ..< nextMonsterId g + k]" using i by simp
  note a = appended_lists [OF m o b n i']
  show "idsValid g \<Longrightarrow> idsValid (fst (spawnObstacle g wd))" by (rule a(1))
  show "retiredId i g \<Longrightarrow> retiredId i (fst (spawnObstacle g wd))" by (rule a(2))
  show "allOnScreen g \<Longrightarrow> allOnScreen (fst (spawnObstacle g wd))"
    using s by (intro a(3)) (simp_all add: frame)
qed

lemma spawnBubble_lists:
  "idsValid g \<Longrightarrow> idsValid (fst (spawnBubble g wd))"
  "retiredId i g \<Longrightarrow> retiredId i (fst (spawnBubble g wd))"
  "allOnScreen g \<Longrightarrow> allOnScreen (fst (spawnBubble g wd))"
proof -
  obtain bs k where b: "bubbles (fst (spawnBubble g wd)) = bubbles g @ bs"
    and n: "nextMonsterId (fst (spawnBubble g wd)) = nextMonsterId g + k"
    and i: "map obj_id bs = [nextMonsterId g ..< nextMonsterId g + k]"
    and s: "\<forall>m \<in> set bs. \<exists>i. spawnedAt (depth (gameState g)) i m"
    using spawnBubble_bubbles by blast
  have m: "monsters (fst (spawnBubble g wd)) = monsters g @ []"
    and o: "obstacles (fst (spawnBubble g wd)) = obstacles g @ []"
    by (simp_all add: frame)
  have i': "map obj_id ([] @ [] @ bs) = [nextMonsterId g ..< nextMonsterId g + k]" using i by simp
  note a = appended_lists [OF m o b n i']
  show "idsValid g \<Longrightarrow> idsValid (fst (spawnBubble g wd))" by (rule a(1))
  show "retiredId i g \<Longrightarrow> retiredId i (fst (spawnBubble g wd))" by (rule a(2))
  show "allOnScreen g \<Longrightarrow> allOnScreen (fst (spawnBubble g wd))"
    using s by (intro a(3)) (simp_all add: frame)
qed

lemma checkGameOver_lists:
  "idsValid (checkGameOver g) = idsValid g"
  "retiredId i (checkGameOver g) = retiredId i g"
  "allOnScreen (checkGameOver g) = allOnScreen g"
  by (simp_all add: idsValid_def retiredId_def allOnScreen_def liveIds_def liveObjects_def frame)

lemma tickFromCollisions_lists:
  "idsValid g \<Longrightarrow> idsValid (fst (tickFromCollisions g wd))"
  "retiredId i g \<Longrightarrow> retiredId i (fst (tickFromCollisions g wd))"
  "allOnScreen g \<Longrightarrow> allOnScreen (fst (tickFromCollisions g wd))"
  unfolding tickFromCollisions_def spawnProceduralElements_def split_beta Let_def fst_conv
    checkGameOver_lists
  by (intro spawnBubble_lists spawnObstacle_lists spawnMonsters_lists bubbleCollisionPhase_lists
      obstacleCollisionPhase_lists monsterCollisionPhase_lists; assumption)+




text \<open>The whole tick.\<close>

lemma update_halted:
  "gameOverTriggered g \<or> menuIsOpen g \<Longrightarrow> update g dt wd = (g, wd)"
  by (simp add: update_def)

lemma update_running:
  "\<not> gameOverTriggered g \<Longrightarrow> \<not> menuIsOpen g \<Longrightarrow>
   update g dt wd = tickFromCollisions (fst (tickUpToCull g dt wd)) (snd (tickUpToCull g dt wd))"
  by (simp add: update_def split_beta)

lemma update_range:
  "resourcesInRange (gameState g) \<Longrightarrow> resourcesInRange (gameState (fst (update g dt wd)))"
  by (cases "gameOverTriggered g \<or> menuIsOpen g")
     (auto simp: update_halted update_running intro!: tickFromCollisions_range tickUpToCull_range)

lemma update_lists:
  "idsValid g \<Longrightarrow> idsValid (fst (update g dt wd))"
  "retiredId i g \<Longrightarrow> retiredId i (fst (update g dt wd))"
  "allOnScreen g \<Longrightarrow> allOnScreen (fst (update g dt wd))"
  "\<not> gameOverTriggered g \<Longrightarrow> \<not> menuIsOpen g \<Longrightarrow> allOnScreen (fst (update g dt wd))"
  by (cases "gameOverTriggered g \<or> menuIsOpen g";
      auto simp: update_halted update_running intro!: tickFromCollisions_lists tickUpToCull_lists)+

lemma update_rewards_fields:
  assumes "\<not> gameOverTriggered g" "\<not> menuIsOpen g"
  shows "claimedRewards (fst (update g dt wd)) = claimedRewards (updateDepth (keys (inputHandler g)) g)"
    and "depth (gameState (fst (update g dt wd))) = depth (gameState (updateDepth (keys (inputHandler g)) g))"
    and "score (gameState (fst (update g dt wd))) = score (gameState (updateDepth (keys (inputHandler g)) g))"
  by (simp_all add: update_running [OF assms] frame tickUpToCull_rewards_fields)

lemma update_rewards:
  assumes "rewardsPaidOnce g" and "depth (gameState g) \<le> 11000"
  shows "rewardsPaidOnce (fst (update g dt wd))"
proof (cases "gameOverTriggered g \<or> menuIsOpen g")
  case True
  with assms show ?thesis by (simp add: update_halted)
next
  case False
  then have r: "\<not> gameOverTriggered g" "\<not> menuIsOpen g" by simp_all
  have "rewardsPaidOnce (fst (update g dt wd)) = rewardsPaidOnce (updateDepth (keys (inputHandler g)) g)"
    by (rule rewardsPaidOnce_cong) (rule update_rewards_fields [OF r])+
  with updateDepth_rewards [OF assms] show ?thesis by simp
qed

lemma checkGameOver_result:
  assumes "\<not> gameOverTriggered g"
  shows "gameOverTriggered (checkGameOver g) =
           (depth (gameState g) \<ge> 11000 \<or> oxygen (gameState g) \<le> 0 \<or> health (gameState g) \<le> 0)"
    and "gameOverReason (checkGameOver g) =
           (if depth (gameState g) \<ge> 11000 then ''Vitoria! Voce alcancou o fundo do abismo!''
            else if oxygen (gameState g) \<le> 0 then ''Oxigenio esgotado!''
            else if health (gameState g) \<le> 0 then ''Submarino destruido!''
            else gameOverReason g)"
  using assms by (simp_all add: checkGameOver_def endGame_def)

lemma update_gameOver:
  assumes "\<not> gameOverTriggered g" "\<not> menuIsOpen g"
  shows "gameOverTriggered (fst (update g dt wd)) =
           (depth (gameState (fst (update g dt wd))) \<ge> 11000 \<or>
            oxygen (gameState (fst (update g dt wd))) \<le> 0 \<or>
            health (gameState (fst (update g dt wd))) \<le> 0)"
    and "gameOverReason (fst (update g dt wd)) =
           (if depth (gameState (fst (update g dt wd))) \<ge> 11000
              then ''Vitoria! Voce alcancou o fundo do abismo!''
            else if oxygen (gameState (fst (update g dt wd))) \<le> 0 then ''Oxigenio esgotado!''
            else if health (gameState (fst (update g dt wd))) \<le> 0 then ''Submarino destruido!''
            else gameOverReason g)"
proof -
  obtain g5 where e: "fst (update g dt wd) = checkGameOver g5"
    and t: "gameOverTriggered g5 = gameOverTriggered (fst (tickUpToCull g dt wd))"
    and r: "gameOverReason g5 = gameOverReason (fst (tickUpToCull g dt wd))"
    unfolding update_running [OF assms] using tickFromCollisions_checkGameOver by blast
  from t r assms have t': "\<not> gameOverTriggered g5" and r': "gameOverReason g5 = gameOverReason g"
    by (simp_all add: frame)
  show "gameOverTriggered (fst (update g dt wd)) =
           (depth (gameState (fst (update g dt wd))) \<ge> 11000 \<or>
            oxygen (gameState (fst (update g dt wd))) \<le> 0 \<or>
            health (gameState (fst (update g dt wd))) \<le> 0)"
    unfolding e checkGameOver_frame by (rule checkGameOver_result(1) [OF t'])
  show "gameOverReason (fst (update g dt wd)) =
           (if depth (gameState (fst (update g dt wd))) \<ge> 11000
              then ''Vitoria! Voce alcancou o fundo do abismo!''
            else if oxygen (gameState (fst (update g dt wd))) \<le> 0 then ''Oxigenio esgotado!''
            else if health (gameState (fst (update g dt wd))) \<le> 0 then ''Submarino destruido!''
            else gameOverReason g)"
    unfolding e checkGameOver_frame checkGameOver_result(2) [OF t'] r' ..
qed

lemma update_gameOver_kept:
  "gameOverTriggered g \<Longrightarrow> gameOverTriggered (fst (update g dt wd))"
  by (simp add: update_halted)

text \<open>The events.\<close>

lemma gameLoop_fields:
  "gameState (fst (gameLoop t g wd)) = gameState (fst (update (g\<lparr>lastFrameTime := t\<rparr>) (Math_min (t - lastFrameTime g) 16) wd))"
  "gameOverTriggered (fst (gameLoop t g wd)) = gameOverTriggered (fst (update (g\<lparr>lastFrameTime := t\<rparr>) (Math_min (t - lastFrameTime g) 16) wd))"
  "gameOverReason (fst (gameLoop t g wd)) = gameOverReason (fst (update (g\<lparr>lastFrameTime := t\<rparr>) (Math_min (t - lastFrameTime g) 16) wd))"
  "claimedRewards (fst (gameLoop t g wd)) = claimedRewards (fst (update (g\<lparr>lastFrameTime := t\<rparr>) (Math_min (t - lastFrameTime g) 16) wd))"
  "monsters (fst (gameLoop t g wd)) = monsters (fst (update (g\<lparr>lastFrameTime := t\<rparr>) (Math_min (t - lastFrameTime g) 16) wd))"
  "obstacles (fst (gameLoop t g wd)) = obstacles (fst (update (g\<lparr>lastFrameTime := t\<rparr>) (Math_min (t - lastFrameTime g) 16) wd))"
  "bubbles (fst (gameLoop t g wd)) = bubbles (fst (update (g\<lparr>lastFrameTime := t\<rparr>) (Math_min (t - lastFrameTime g) 16) wd))"
  "nextMonsterId (fst (gameLoop t g wd)) = nextMonsterId (fst (update (g\<lparr>lastFrameTime := t\<rparr>) (Math_min (t - lastFrameTime g) 16) wd))"
  by (simp_all add: gameLoop_def split_beta Let_def)

lemma view_cong:
  assumes "monsters g' = monsters g" "obstacles g' = obstacles g" "bubbles g' = bubbles g"
    "nextMonsterId g' = nextMonsterId g"
  shows "idsValid g' = idsValid g" "retiredId i g' = retiredId i g"
    "depth (gameState g') = depth (gameState g) \<Longrightarrow> allOnScreen g' = allOnScreen g"
  using assms by (simp_all add: idsValid_def retiredId_def allOnScreen_def liveIds_def liveObjects_def)

lemma gameLoop_inv:
  "resourcesInRange (gameState g) \<Longrightarrow> resourcesInRange (gameState (fst (gameLoop t g wd)))"
  "idsValid g \<Longrightarrow> idsValid (fst (gameLoop t g wd))"
  "retiredId i g \<Longrightarrow> retiredId i (fst (gameLoop t g wd))"
  "allOnScreen g \<Longrightarrow> allOnScreen (fst (gameLoop t g wd))"
  "rewardsPaidOnce g \<Longrightarrow> depth (gameState g) \<le> 11000 \<Longrightarrow> rewardsPaidOnce (fst (gameLoop t g wd))"
  "gameOverTriggered g \<Longrightarrow>
     gameOverTriggered (fst (gameLoop t g wd)) \<and> gameOverReason (fst (gameLoop t g wd)) = gameOverReason g"
proof -
  let ?g = "g\<lparr>lastFrameTime := t\<rparr>"
  let ?u = "fst (update ?g (Math_min (t - lastFrameTime g) 16) wd)"
  note v = view_cong [of "fst (gameLoop t g wd)" ?u, OF gameLoop_fields(5-8)]
  note v0 = view_cong [of ?g g]
  show "resourcesInRange (gameState g) \<Longrightarrow> resourcesInRange (gameState (fst (gameLoop t g wd)))"
    unfolding gameLoop_fields using update_range [of ?g] by simp
  show "idsValid g \<Longrightarrow> idsValid (fst (gameLoop t g wd))"
    unfolding v using update_lists(1) [of ?g] v0(1) by simp
  show "retiredId i g \<Longrightarrow> retiredId i (fst (gameLoop t g wd))"
    unfolding v using update_lists(2) [of i ?g] v0(2) by simp
  show "allOnScreen g \<Longrightarrow> allOnScreen (fst (gameLoop t g wd))"
    using update_lists(3) [of ?g] v0(3) v(3) by (simp add: gameLoop_fields)
  show "rewardsPaidOnce g \<Longrightarrow> depth (gameState g) \<le> 11000 \<Longrightarrow> rewardsPaidOnce (fst (gameLoop t g wd))"
    using update_rewards [of ?g] rewardsPaidOnce_cong [of "fst (gameLoop t g wd)" ?u]
      rewardsPaidOnce_cong [of ?g g]
    by (simp add: gameLoop_fields)
  show "gameOverTriggered g \<Longrightarrow>
     gameOverTriggered (fst (gameLoop t g wd)) \<and> gameOverReason (fst (gameLoop t g wd)) = gameOverReason g"
    by (simp add: gameLoop_fields update_halted)
qed


lemma activateSonar_frame [frame]:
  "gameOverTriggered (activateSonar g) = gameOverTriggered g"
  "gameOverReason (activateSonar g) = gameOverReason g"
  "claimedRewards (activateSonar g) = claimedRewards g"
  "monsters (activateSonar g) = monsters g" "obstacles (activateSonar g) = obstacles g"
  "bubbles (activateSonar g) = bubbles g" "nextMonsterId (activateSonar g) = nextMonsterId g"
  "depth (gameState (activateSonar g)) = depth (gameState g)"
  "score (gameState (activateSonar g)) = score (gameState g)"
  "inputHandler (activateSonar g) = inputHandler g"
  by (simp_all add: activateSonar_def Let_def showHint_def)

lemma activateSonar_range:
  "resourcesInRange (gameState g) \<Longrightarrow> resourcesInRange (gameState (activateSonar g))"
  by (simp add: activateSonar_def Let_def showHint_def resourcesInRange_def Math_max_def)

lemma toggleMenu_frame [frame]:
  "gameState (toggleMenu n g) = gameState g"
  "gameOverTriggered (toggleMenu n g) = gameOverTriggered g"
  "gameOverReason (toggleMenu n g) = gameOverReason g"
  "claimedRewards (toggleMenu n g) = claimedRewards g"
  "monsters (toggleMenu n g) = monsters g" "obstacles (toggleMenu n g) = obstacles g"
  "bubbles (toggleMenu n g) = bubbles g" "nextMonsterId (toggleMenu n g) = nextMonsterId g"
  "inputHandler (toggleMenu n g) = inputHandler g"
  by (simp_all add: toggleMenu_def openMenu_def closeMenu_def)

lemma closeMenu_frame [frame]:
  "gameState (closeMenu g) = gameState g"
  "gameOverTriggered (closeMenu g) = gameOverTriggered g"
  "gameOverReason (closeMenu g) = gameOverReason g"
  "claimedRewards (closeMenu g) = claimedRewards g"
  "monsters (closeMenu g) = monsters g" "obstacles (closeMenu g) = obstacles g"
  "bubbles (closeMenu g) = bubbles g" "nextMonsterId (closeMenu g) = nextMonsterId g"
  "inputHandler (closeMenu g) = inputHandler g"
  by (simp_all add: closeMenu_def)

lemma toggleDebugMode_frame [frame]:
  "gameState (toggleDebugMode g) = gameState g"
  "gameOverTriggered (toggleDebugMode g) = gameOverTriggered g"
  "gameOverReason (toggleDebugMode g) = gameOverReason g"
  "claimedRewards (toggleDebugMode g) = claimedRewards g"
  "monsters (toggleDebugMode g) = monsters g" "obstacles (toggleDebugMode g) = obstacles g"
  "bubbles (toggleDebugMode g) = bubbles g" "nextMonsterId (toggleDebugMode g) = nextMonsterId g"
  "inputHandler (toggleDebugMode g) = inputHandler g"
  by (simp_all add: toggleDebugMode_def Let_def showHint_def)

lemma handleKeyDown_frame [frame]:
  "gameOverTriggered (handleKeyDown k g) = gameOverTriggered g"
  "gameOverReason (handleKeyDown k g) = gameOverReason g"
  "claimedRewards (handleKeyDown k g) = claimedRewards g"
  "monsters (handleKeyDown k g) = monsters g" "obstacles (handleKeyDown k g) = obstacles g"
  "bubbles (handleKeyDown k g) = bubbles g" "nextMonsterId (handleKeyDown k g) = nextMonsterId g"
  "depth (gameState (handleKeyDown k g)) = depth (gameState g)"
  "score (gameState (handleKeyDown k g)) = score (gameState g)"
  by (simp_all add: handleKeyDown_def Let_def frame)

lemma handleKeyDown_range:
  "resourcesInRange (gameState g) \<Longrightarrow> resourcesInRange (gameState (handleKeyDown k g))"
  by (simp add: handleKeyDown_def Let_def frame activateSonar_range)

lemma restart_fields:
  "gameState (fst (restart g wd)) = initialGameState"
  "monsters (fst (restart g wd)) = []" "obstacles (fst (restart g wd)) = []"
  "bubbles (fst (restart g wd)) = []" "nextMonsterId (fst (restart g wd)) = 1"
  "claimedRewards (fst (restart g wd)) = {}" "gameOverTriggered (fst (restart g wd)) = False"
  "menuOpen (fst (restart g wd)) = None"
  by (simp_all add: restart_def initializeParticles_def split_beta Let_def)

lemma new_Game_fields:
  "gameState (fst (new_Game wd)) = initialGameState"
  "monsters (fst (new_Game wd)) = []" "obstacles (fst (new_Game wd)) = []"
  "bubbles (fst (new_Game wd)) = []" "nextMonsterId (fst (new_Game wd)) = 1"
  "claimedRewards (fst (new_Game wd)) = {}" "gameOverTriggered (fst (new_Game wd)) = False"
  "menuOpen (fst (new_Game wd)) = None"
  by (simp_all add: new_Game_def initializeParticles_def split_beta Let_def)

lemma fresh_game:
  assumes "gameState g = initialGameState" "monsters g = []" "obstacles g = []" "bubbles g = []"
    "claimedRewards g = {}"
  shows "resourcesInRange (gameState g)" "idsValid g" "allOnScreen g" "rewardsPaidOnce g"
  using assms
  by (auto simp: resourcesInRange_def initialGameState_def idsValid_def allOnScreen_def
      liveIds_def liveObjects_def rewardsPaidOnce_def rewards_def)

lemma resourcesInRange_sonar:
  "resourcesInRange (gs\<lparr>sonarActive := b\<rparr>) = resourcesInRange gs"
  by (simp add: resourcesInRange_def)

lemma step_other_fields:
  assumes "e \<noteq> ClickRestart" "\<forall>t. e \<noteq> Frame t"
  shows "monsters (fst (step e (g, wd))) = monsters g"
    and "obstacles (fst (step e (g, wd))) = obstacles g"
    and "bubbles (fst (step e (g, wd))) = bubbles g"
    and "nextMonsterId (fst (step e (g, wd))) = nextMonsterId g"
    and "depth (gameState (fst (step e (g, wd)))) = depth (gameState g)"
    and "score (gameState (fst (step e (g, wd)))) = score (gameState g)"
    and "claimedRewards (fst (step e (g, wd))) = claimedRewards g"
    and "gameOverTriggered (fst (step e (g, wd))) = gameOverTriggered g"
    and "gameOverReason (fst (step e (g, wd))) = gameOverReason g"
  using assms by (cases e; simp add: frame)+

lemma step_other_range:
  assumes "e \<noteq> ClickRestart" "\<forall>t. e \<noteq> Frame t"
  shows "resourcesInRange (gameState g) \<Longrightarrow> resourcesInRange (gameState (fst (step e (g, wd))))"
  using assms by (cases e) (simp_all add: handleKeyDown_range frame resourcesInRange_sonar)

lemma step_inv:
  "resourcesInRange (gameState (fst st)) \<Longrightarrow> resourcesInRange (gameState (fst (step e st)))"
  "idsValid (fst st) \<Longrightarrow> idsValid (fst (step e st))"
  "allOnScreen (fst st) \<Longrightarrow> allOnScreen (fst (step e st))"
  "rewardsPaidOnce (fst st) \<Longrightarrow> depth (gameState (fst st)) \<le> 11000 \<Longrightarrow> rewardsPaidOnce (fst (step e st))"
proof -
  obtain g wd where st: "st = (g, wd)" by (cases st)
  consider (restart) "e = ClickRestart" | (frame) t where "e = Frame t"
    | (other) "e \<noteq> ClickRestart" "\<forall>t. e \<noteq> Frame t" by blast
  then have "(resourcesInRange (gameState g) \<longrightarrow> resourcesInRange (gameState (fst (step e (g, wd))))) \<and>
    (idsValid g \<longrightarrow> idsValid (fst (step e (g, wd)))) \<and>
    (allOnScreen g \<longrightarrow> allOnScreen (fst (step e (g, wd)))) \<and>
    (rewardsPaidOnce g \<and> depth (gameState g) \<le> 11000 \<longrightarrow> rewardsPaidOnce (fst (step e (g, wd))))"
  proof cases
    case restart
    from fresh_game [OF restart_fields(1-4,6), of g wd] show ?thesis
      unfolding restart by simp
  next
    case (frame t)
    from gameLoop_inv(1,2,4,5) [of g t wd] show ?thesis unfolding frame by simp
  next
    case other
    note f = step_other_fields [OF other, of g wd]
    from step_other_range [OF other, of g wd] view_cong(1) [OF f(1-4)] view_cong(3) [OF f(1-5)]
      rewardsPaidOnce_cong [OF f(7,5,6)]
    show ?thesis by simp
  qed
  then show "resourcesInRange (gameState (fst st)) \<Longrightarrow> resourcesInRange (gameState (fst (step e st)))"
    and "idsValid (fst st) \<Longrightarrow> idsValid (fst (step e st))"
    and "allOnScreen (fst st) \<Longrightarrow> allOnScreen (fst (step e st))"
    and "rewardsPaidOnce (fst st) \<Longrightarrow> depth (gameState (fst st)) \<le> 11000 \<Longrightarrow> rewardsPaidOnce (fst (step e st))"
    unfolding st by simp_all
qed

lemma step_run_inv:
  assumes "e \<noteq> ClickRestart"
  shows "retiredId i (fst st) \<Longrightarrow> retiredId i (fst (step e st))"
    and "gameOverTriggered (fst st) \<Longrightarrow>
         gameOverTriggered (fst (step e st)) \<and> gameOverReason (fst (step e st)) = gameOverReason (fst st)"
proof -
  obtain g wd where st: "st = (g, wd)" by (cases st)
  consider (frame) t where "e = Frame t" | (other) "e \<noteq> ClickRestart" "\<forall>t. e \<noteq> Frame t"
    using assms by blast
  then have "(retiredId i g \<longrightarrow> retiredId i (fst (step e (g, wd)))) \<and>
    (gameOverTriggered g \<longrightarrow> gameOverTriggered (fst (step e (g, wd))) \<and>
       gameOverReason (fst (step e (g, wd))) = gameOverReason g)"
  proof cases
    case (frame t)
    from gameLoop_inv(3) [of i g t wd] gameLoop_inv(6) [of g t wd] show ?thesis
      unfolding frame by simp
  next
    case other
    note f = step_other_fields [OF other, of g wd]
    from view_cong(2) [OF f(1-4)] f(8,9) show ?thesis by simp
  qed
  then show "retiredId i (fst st) \<Longrightarrow> retiredId i (fst (step e st))"
    and "gameOverTriggered (fst st) \<Longrightarrow>
         gameOverTriggered (fst (step e st)) \<and> gameOverReason (fst (step e st)) = gameOverReason (fst st)"
    unfolding st by simp_all
qed

lemma reachable_inv:
  "reachable st \<Longrightarrow>
     resourcesInRange (gameState (fst st)) \<and> idsValid (fst st) \<and> allOnScreen (fst st) \<and>
     rewardsPaidOnce (fst st)"
proof (induction rule: reachable.induct)
  case (reach_new wd)
  from fresh_game [OF new_Game_fields(1-4,6), of wd] show ?case by simp
next
  case (reach_step st e)
  then have "depth (gameState (fst st)) \<le> 11000" by (simp add: resourcesInRange_def)
  with reach_step.IH step_inv [of st e] show ?case by simp
qed

lemma run_retired:
  "ClickRestart \<notin> set es \<Longrightarrow> retiredId i (fst st) \<Longrightarrow> retiredId i (fst (run es st))"
proof (induction es arbitrary: st)
  case Nil
  then show ?case by simp
next
  case (Cons e es)
  then have "e \<noteq> ClickRestart" and es: "ClickRestart \<notin> set es" by auto
  from step_run_inv(1) [OF this(1) Cons.prems(2)] have "retiredId i (fst (step e st))" .
  from Cons.IH [OF es this] show ?case by simp
qed

lemma run_gameOver:
  "ClickRestart \<notin> set es \<Longrightarrow> gameOverTriggered (fst st) \<Longrightarrow>
     gameOverTriggered (fst (run es st)) \<and> gameOverReason (fst (run es st)) = gameOverReason (fst st) \<and>
     gameOverTriggers es st = 0"
proof (induction es arbitrary: st)
  case Nil
  then show ?case by simp
next
  case (Cons e es)
  then have "e \<noteq> ClickRestart" and es: "ClickRestart \<notin> set es" by auto
  from step_run_inv(2) [OF this(1) Cons.prems(2)]
  have t: "gameOverTriggered (fst (step e st))"
    and r: "gameOverReason (fst (step e st)) = gameOverReason (fst st)" by simp_all
  from Cons.IH [OF es t] r Cons.prems(2) show ?case by simp
qed

lemma triggers_once:
  "ClickRestart \<notin> set es \<Longrightarrow> gameOverTriggers es st \<le> 1"
proof (induction es arbitrary: st)
  case Nil
  then show ?case by simp
next
  case (Cons e es)
  then have es: "ClickRestart \<notin> set es" by simp
  show ?case
  proof (cases "\<not> gameOverTriggered (fst st) \<and> gameOverTriggered (fst (step e st))")
    case True
    with run_gameOver [OF es, of "step e st"] show ?thesis by simp
  next
    case False
    with Cons.IH [OF es, of "step e st"] show ?thesis by auto
  qed
qed




text \<open>Evaluation of a tick on the concrete games.\<close>

lemma frac_half: "frac (1 / 2 :: real) = 1 / 2"
  by (simp add: frac_def)

lemmas tick_eval = update_def menuIsOpen_def tickUpToCull_def tickFromCollisions_def
  updateCameraOffset_def Submarine_update_def moveWorldObjects_def shiftY_def
  updateDepth_def updateDepthColor_def updateParticles_def updateResources_def Date_now_def
  updateMonsters_def cullOffScreen_def isOffScreen_def
  monsterCollisionPhase_def obstacleCollisionPhase_def bubbleCollisionPhase_def
  monsterDamage_def obstacleDamage_def
  checkMonsterCollisions_def checkObstacleCollisions_def checkBubbleCollisions_def
  gatedCollisionStep_def bubbleCollisionStep_def isInCollisionCooldown_def
  setCollisionCooldown_def calculateDepthOffset_def getWorldObjectScreenHitbox_def
  getHitbox_def getScreenHitbox_def checkAABB_def
  spawnMonsters_def spawnProceduralElements_def spawnObstacle_def spawnBubble_def
  Math_random_def frac_half checkGameOver_def endGame_def showHint_def
  Math_max_def Math_min_def
  exampleGame_def exampleWorld_def new_InputHandler_def new_Renderer_def
  new_CollisionDetector_def initialGameState_def initialUpgrades_def
  exampleSubmarine_simps exampleObject_def

lemma exampleGame_tick:
  "gameState (fst (update exampleGame 16 exampleWorld)) =
     \<lparr>oxygen = 99.95, energy = 100, health = 100, depth = 0, score = 0, sonarActive = False,
      sonarCooldown = 0\<rparr>"
  by (simp add: tick_eval)

lemma brittleGame_tick:
  "gameState (fst (update brittleGame 16 exampleWorld)) =
     \<lparr>oxygen = 100, energy = 100, health = 0, depth = 0, score = 0, sonarActive = False,
      sonarCooldown = 0\<rparr>"
  by (simp add: brittleGame_def tick_eval)

lemma airlessGame_tick:
  "gameState (fst (update airlessGame 16 exampleWorld)) =
     \<lparr>oxygen = 0, energy = 100, health = 0, depth = 0, score = 0, sonarActive = False,
      sonarCooldown = 0\<rparr>"
  by (simp add: airlessGame_def tick_eval)

lemma clutteredGame_tick:
  "obstacles (fst (update clutteredGame 16 exampleWorld)) = []"
  "bubbles (fst (update clutteredGame 16 exampleWorld)) = [farBubble]"
  "nextMonsterId (fst (update clutteredGame 16 exampleWorld)) = 3"
  by (simp_all add: clutteredGame_def strayRock_def farBubble_def tick_eval)

lemma example_running:
  "\<not> gameOverTriggered exampleGame" "\<not> menuIsOpen exampleGame"
  "\<not> gameOverTriggered brittleGame" "\<not> menuIsOpen brittleGame"
  "\<not> gameOverTriggered airlessGame" "\<not> menuIsOpen airlessGame"
  "\<not> gameOverTriggered bottomGame" "\<not> menuIsOpen bottomGame"
  "\<not> gameOverTriggered plungingGame" "\<not> menuIsOpen plungingGame"
  "\<not> gameOverTriggered clutteredGame" "\<not> menuIsOpen clutteredGame"
  "gameOverTriggered finishedGame"
  by (simp_all add: exampleGame_def brittleGame_def airlessGame_def bottomGame_def
      plungingGame_def clutteredGame_def finishedGame_def menuIsOpen_def)

lemma bottomGame_depth:
  "depth (gameState (fst (update bottomGame 16 exampleWorld))) = 11000"
  unfolding update_rewards_fields(2) [OF example_running(7,8)]
  by (simp add: bottomGame_def exampleGame_def new_InputHandler_def initialGameState_def
      updateDepth_def checkDepthRewards_frame Math_min_def)


section \<open>Resources, rewards, culling and the end of the game\<close>

text \<open>
  \<^bold>\<open>C2\<close> (resources stay in range).  If health, energy and oxygen lie in \<open>[0, 100]\<close> and
  depth in \<open>[0, 11000]\<close> before a tick, they do so after \<^verbatim>\<open>update\<close>, whatever the keys, the
  clock, the random draws and the collisions of that tick; \<^verbatim>\<open>activateSonar\<close> and
  \<^verbatim>\<open>checkDepthRewards\<close> keep them in range too; and they are in range in every state that
  the game reaches from its construction by frames, key and wheel events, timers and
  restarts.
\<close>

theorem resources_stay_in_range:
  "(resourcesInRange (gameState g) \<longrightarrow> resourcesInRange (gameState (fst (update g dt wd)))) \<and>
   (resourcesInRange (gameState g) \<longrightarrow> resourcesInRange (gameState (activateSonar g))) \<and>
   (resourcesInRange (gameState g) \<longrightarrow> resourcesInRange (gameState (checkDepthRewards g))) \<and>
   (reachable st \<longrightarrow> resourcesInRange (gameState (fst st)))"
  using update_range [of g dt wd] activateSonar_range [of g] checkDepthRewards_range [of g]
    reachable_inv [of st]
  by blast

theorem resources_stay_in_range_witness:
  "resourcesInRange (gameState brittleGame) \<and>
   gameState (fst (update brittleGame 16 exampleWorld)) =
     \<lparr>oxygen = 100, energy = 100, health = 0, depth = 0, score = 0, sonarActive = False,
      sonarCooldown = 0\<rparr> \<and>
   resourcesInRange (gameState (fst (update brittleGame 16 exampleWorld))) \<and>
   resourcesInRange (gameState (activateSonar brittleGame)) \<and>
   resourcesInRange (gameState (checkDepthRewards brittleGame)) \<and>
   reachable (step (KeyDown '' '') (new_Game exampleWorld)) \<and>
   resourcesInRange (gameState (fst (step (KeyDown '' '') (new_Game exampleWorld))))"
proof -
  have r: "resourcesInRange (gameState brittleGame)"
    by (simp add: brittleGame_def resourcesInRange_def initialGameState_def)
  have k: "reachable (step (KeyDown '' '') (new_Game exampleWorld))"
    by (intro reachable.intros)
  from resources_stay_in_range [of brittleGame 16 exampleWorld
      "step (KeyDown '' '') (new_Game exampleWorld)"] r k brittleGame_tick
  show ?thesis by simp
qed

text \<open>
  \<^bold>\<open>C4\<close> (terminal conditions).  \<^verbatim>\<open>update\<close> returns the state unchanged when the game is
  over or a menu is open.  Otherwise, looking at the state it returns: depth at 11000 or
  more ends the game with the victory message, whatever oxygen and health are; below
  that, oxygen at 0 or less ends it with the oxygen message, whatever health is; with
  oxygen left, health at 0 or less ends it with the destruction message; and with all
  three in order the game is not over.  In a run without restart the game ends at most
  once, and once it is over it stays over with the same reason.
\<close>

theorem terminal_conditions:
  "(gameOverTriggered g \<or> menuIsOpen g \<longrightarrow> update g dt wd = (g, wd)) \<and>
   (\<not> gameOverTriggered g \<and> \<not> menuIsOpen g \<longrightarrow>
      (depth (gameState (fst (update g dt wd))) \<ge> 11000 \<longrightarrow>
         gameOverTriggered (fst (update g dt wd)) \<and>
         gameOverReason (fst (update g dt wd)) = ''Vitoria! Voce alcancou o fundo do abismo!'') \<and>
      (depth (gameState (fst (update g dt wd))) < 11000 \<and>
       oxygen (gameState (fst (update g dt wd))) \<le> 0 \<longrightarrow>
         gameOverTriggered (fst (update g dt wd)) \<and>
         gameOverReason (fst (update g dt wd)) = ''Oxigenio esgotado!'') \<and>
      (depth (gameState (fst (update g dt wd))) < 11000 \<and>
       oxygen (gameState (fst (update g dt wd))) > 0 \<and>
       health (gameState (fst (update g dt wd))) \<le> 0 \<longrightarrow>
         gameOverTriggered (fst (update g dt wd)) \<and>
         gameOverReason (fst (update g dt wd)) = ''Submarino destruido!'') \<and>
      (depth (gameState (fst (update g dt wd))) < 11000 \<and>
       oxygen (gameState (fst (update g dt wd))) > 0 \<and>
       health (gameState (fst (update g dt wd))) > 0 \<longrightarrow>
         \<not> gameOverTriggered (fst (update g dt wd)) \<and>
         gameOverReason (fst (update g dt wd)) = gameOverReason g)) \<and>
   (ClickRestart \<notin> set es \<longrightarrow> gameOverTriggers es st \<le> 1) \<and>
   (gameOverTriggered (fst st) \<and> ClickRestart \<notin> set es \<longrightarrow>
      gameOverTriggered (fst (run es st)) \<and>
      gameOverReason (fst (run es st)) = gameOverReason (fst st) \<and>
      gameOverTriggers es st = 0)"
proof (intro conjI impI)
  assume "gameOverTriggered g \<or> menuIsOpen g"
  then show "update g dt wd = (g, wd)" by (rule update_halted)
next
  assume "ClickRestart \<notin> set es"
  then show "gameOverTriggers es st \<le> 1" by (rule triggers_once)
next
  assume a: "gameOverTriggered (fst st) \<and> ClickRestart \<notin> set es"
  from run_gameOver [of es st] a
  show "gameOverTriggered (fst (run es st))"
    and "gameOverReason (fst (run es st)) = gameOverReason (fst st)"
    and "gameOverTriggers es st = 0" by simp_all
next
  assume r: "\<not> gameOverTriggered g \<and> \<not> menuIsOpen g"
  note u = update_gameOver [of g dt wd]
  { assume "11000 \<le> depth (gameState (fst (update g dt wd)))"
    with r u show "gameOverTriggered (fst (update g dt wd))"
      and "gameOverReason (fst (update g dt wd)) = ''Vitoria! Voce alcancou o fundo do abismo!''"
      by simp_all }
  { assume "depth (gameState (fst (update g dt wd))) < 11000 \<and>
       oxygen (gameState (fst (update g dt wd))) \<le> 0"
    with r u show "gameOverTriggered (fst (update g dt wd))"
      and "gameOverReason (fst (update g dt wd)) = ''Oxigenio esgotado!''"
      by simp_all }
  { assume "depth (gameState (fst (update g dt wd))) < 11000 \<and>
       oxygen (gameState (fst (update g dt wd))) > 0 \<and>
       health (gameState (fst (update g dt wd))) \<le> 0"
    with r u show "gameOverTriggered (fst (update g dt wd))"
      and "gameOverReason (fst (update g dt wd)) = ''Submarino destruido!''"
      by simp_all }
  { assume "depth (gameState (fst (update g dt wd))) < 11000 \<and>
       oxygen (gameState (fst (update g dt wd))) > 0 \<and>
       health (gameState (fst (update g dt wd))) > 0"
    with r u show "\<not> gameOverTriggered (fst (update g dt wd))"
      and "gameOverReason (fst (update g dt wd)) = gameOverReason g"
      by simp_all }
qed

theorem terminal_conditions_witness:
  "update finishedGame 16 exampleWorld = (finishedGame, exampleWorld) \<and>
   depth (gameState (fst (update bottomGame 16 exampleWorld))) = 11000 \<and>
   gameOverTriggered (fst (update bottomGame 16 exampleWorld)) \<and>
   gameOverReason (fst (update bottomGame 16 exampleWorld)) = ''Vitoria! Voce alcancou o fundo do abismo!'' \<and>
   gameState (fst (update airlessGame 16 exampleWorld)) =
     \<lparr>oxygen = 0, energy = 100, health = 0, depth = 0, score = 0, sonarActive = False,
      sonarCooldown = 0\<rparr> \<and>
   gameOverTriggered (fst (update airlessGame 16 exampleWorld)) \<and>
   gameOverReason (fst (update airlessGame 16 exampleWorld)) = ''Oxigenio esgotado!'' \<and>
   gameOverTriggered (fst (update brittleGame 16 exampleWorld)) \<and>
   gameOverReason (fst (update brittleGame 16 exampleWorld)) = ''Submarino destruido!'' \<and>
   \<not> gameOverTriggered (fst (update exampleGame 16 exampleWorld)) \<and>
   gameOverTriggers [Frame 1017, KeyDown '' '', Frame 1033] (airlessGame, exampleWorld) \<le> 1 \<and>
   gameOverTriggered (fst (run [Frame 1017, KeyDown '' ''] (finishedGame, exampleWorld))) \<and>
   gameOverReason (fst (run [Frame 1017, KeyDown '' ''] (finishedGame, exampleWorld))) = ''Oxigenio esgotado!''"
proof -
  have nr: "ClickRestart \<notin> set [Frame 1017, KeyDown '' '', Frame 1033]"
    "ClickRestart \<notin> set [Frame 1017, KeyDown '' '']" by simp_all
  have fin: "gameOverTriggered (fst (finishedGame, exampleWorld))"
    "gameOverReason finishedGame = ''Oxigenio esgotado!''"
    by (simp_all add: finishedGame_def)
  from terminal_conditions [of finishedGame 16 exampleWorld "[Frame 1017, KeyDown '' '']"
      "(finishedGame, exampleWorld)"] nr fin example_running(13)
  have a: "update finishedGame 16 exampleWorld = (finishedGame, exampleWorld)"
    "gameOverTriggered (fst (run [Frame 1017, KeyDown '' ''] (finishedGame, exampleWorld)))"
    "gameOverReason (fst (run [Frame 1017, KeyDown '' ''] (finishedGame, exampleWorld))) = ''Oxigenio esgotado!''"
    by simp_all
  from terminal_conditions [of bottomGame 16 exampleWorld "[]" "(bottomGame, exampleWorld)"]
    example_running(7,8) bottomGame_depth
  have b: "gameOverTriggered (fst (update bottomGame 16 exampleWorld))"
    "gameOverReason (fst (update bottomGame 16 exampleWorld)) = ''Vitoria! Voce alcancou o fundo do abismo!''"
    by simp_all
  from terminal_conditions [of airlessGame 16 exampleWorld "[Frame 1017, KeyDown '' '', Frame 1033]"
      "(airlessGame, exampleWorld)"] example_running(5,6) airlessGame_tick nr
  have c: "gameOverTriggered (fst (update airlessGame 16 exampleWorld))"
    "gameOverReason (fst (update airlessGame 16 exampleWorld)) = ''Oxigenio esgotado!''"
    "gameOverTriggers [Frame 1017, KeyDown '' '', Frame 1033] (airlessGame, exampleWorld) \<le> 1"
    by simp_all
  from terminal_conditions [of brittleGame 16 exampleWorld "[]" "(brittleGame, exampleWorld)"]
    example_running(3,4) brittleGame_tick
  have d: "gameOverTriggered (fst (update brittleGame 16 exampleWorld))"
    "gameOverReason (fst (update brittleGame 16 exampleWorld)) = ''Submarino destruido!''"
    by simp_all
  from terminal_conditions [of exampleGame 16 exampleWorld "[]" "(exampleGame, exampleWorld)"]
    example_running(1,2) exampleGame_tick
  have e: "\<not> gameOverTriggered (fst (update exampleGame 16 exampleWorld))"
    by simp
  from a b c d e bottomGame_depth airlessGame_tick show ?thesis by simp
qed


lemma newlyClaimed_after: "newlyClaimed (checkDepthRewards g) = []"
  unfolding newlyClaimed_def filter_empty_conv
  by (auto simp: checkDepthRewards_claims checkDepthRewards_frame newlyClaimed_def)

lemma updateDepth_rewards_fields:
  "claimedRewards (updateDepth ks g) =
     (if ''s'' \<in> ks
      then claimedRewards g \<union> reward_depth ` set (newlyClaimed
             (g\<lparr>gameState := (gameState g)\<lparr>depth := Math_min 11000 (depth (gameState g) + 5)\<rparr>\<rparr>))
      else claimedRewards g)"
  "score (gameState (updateDepth ks g)) =
     (if ''s'' \<in> ks
      then score (gameState g) + sum_list (map reward_points (newlyClaimed
             (g\<lparr>gameState := (gameState g)\<lparr>depth := Math_min 11000 (depth (gameState g) + 5)\<rparr>\<rparr>)))
      else score (gameState g))"
  by (simp_all add: updateDepth_def checkDepthRewards_claims)

text \<open>
  \<^bold>\<open>C5\<close> (depth rewards are one-shot).  A call of \<^verbatim>\<open>checkDepthRewards\<close> claims exactly the
  rewards whose threshold (2000, 4000, 6000) the depth has reached and that are not in the
  claimed set, however many these are: each enters the claimed set, adds its points to the
  score once and its oxygen bonus (capped at 100) once; after the call none is left to
  claim.  A tick changes claimed set and score only through that call, which it makes
  only while the descend key is held.  In every state that the game reaches, the claimed
  set holds exactly the thresholds at or below the depth, and the score is the sum of the
  points of exactly these rewards, each counted once.
\<close>

theorem depth_rewards_once:
  "claimedRewards (checkDepthRewards g) = claimedRewards g \<union> reward_depth ` set (newlyClaimed g) \<and>
   score (gameState (checkDepthRewards g)) =
     score (gameState g) + sum_list (map reward_points (newlyClaimed g)) \<and>
   oxygen (gameState (checkDepthRewards g)) =
     foldl (\<lambda>ox rw. Math_min 100 (ox + reward_oxygen rw)) (oxygen (gameState g)) (newlyClaimed g) \<and>
   newlyClaimed (checkDepthRewards g) = [] \<and>
   (\<not> gameOverTriggered g \<and> \<not> menuIsOpen g \<and> ''s'' \<in> keys (inputHandler g) \<longrightarrow>
      claimedRewards (fst (update g dt wd)) =
        claimedRewards g \<union> reward_depth ` set (newlyClaimed
          (g\<lparr>gameState := (gameState g)\<lparr>depth := Math_min 11000 (depth (gameState g) + 5)\<rparr>\<rparr>)) \<and>
      score (gameState (fst (update g dt wd))) =
        score (gameState g) + sum_list (map reward_points (newlyClaimed
          (g\<lparr>gameState := (gameState g)\<lparr>depth := Math_min 11000 (depth (gameState g) + 5)\<rparr>\<rparr>)))) \<and>
   (''s'' \<notin> keys (inputHandler g) \<longrightarrow>
      claimedRewards (fst (update g dt wd)) = claimedRewards g \<and>
      score (gameState (fst (update g dt wd))) = score (gameState g)) \<and>
   (reachable st \<longrightarrow> rewardsPaidOnce (fst st))"
proof (intro conjI impI)
  show "claimedRewards (checkDepthRewards g) = claimedRewards g \<union> reward_depth ` set (newlyClaimed g)"
    and "score (gameState (checkDepthRewards g)) =
     score (gameState g) + sum_list (map reward_points (newlyClaimed g))"
    and "oxygen (gameState (checkDepthRewards g)) =
     foldl (\<lambda>ox rw. Math_min 100 (ox + reward_oxygen rw)) (oxygen (gameState g)) (newlyClaimed g)"
    by (rule checkDepthRewards_claims)+
  show "newlyClaimed (checkDepthRewards g) = []" by (rule newlyClaimed_after)
next
  assume a: "\<not> gameOverTriggered g \<and> \<not> menuIsOpen g \<and> ''s'' \<in> keys (inputHandler g)"
  then have r: "\<not> gameOverTriggered g" "\<not> menuIsOpen g" by simp_all
  from a show "claimedRewards (fst (update g dt wd)) =
        claimedRewards g \<union> reward_depth ` set (newlyClaimed
          (g\<lparr>gameState := (gameState g)\<lparr>depth := Math_min 11000 (depth (gameState g) + 5)\<rparr>\<rparr>))"
    and "score (gameState (fst (update g dt wd))) =
        score (gameState g) + sum_list (map reward_points (newlyClaimed
          (g\<lparr>gameState := (gameState g)\<lparr>depth := Math_min 11000 (depth (gameState g) + 5)\<rparr>\<rparr>)))"
    by (simp_all add: update_rewards_fields [OF r] updateDepth_rewards_fields)
next
  assume a: "''s'' \<notin> keys (inputHandler g)"
  show "claimedRewards (fst (update g dt wd)) = claimedRewards g"
    and "score (gameState (fst (update g dt wd))) = score (gameState g)"
    using a update_rewards_fields [of g dt wd] update_halted [of g dt wd]
    by (cases "gameOverTriggered g \<or> menuIsOpen g"; auto simp: updateDepth_rewards_fields)+
next
  assume "reachable st"
  then show "rewardsPaidOnce (fst st)" using reachable_inv by blast
qed

lemma plungingGame_simps:
  "claimedRewards plungingGame = {}" "score (gameState plungingGame) = 0"
  "oxygen (gameState plungingGame) = 50" "depth (gameState plungingGame) = 6000"
  "keys (inputHandler plungingGame) = {''s''}" "keys (inputHandler exampleGame) = {}"
  "claimedRewards exampleGame = {}" "score (gameState exampleGame) = 0"
  by (simp_all add: plungingGame_def exampleGame_def initialGameState_def new_InputHandler_def)

lemma plungingGame_newlyClaimed:
  "newlyClaimed plungingGame = rewards"
  "6000 \<le> d \<Longrightarrow>
   newlyClaimed (plungingGame\<lparr>gameState := (gameState plungingGame)\<lparr>depth := d\<rparr>\<rparr>) = rewards"
  by (simp_all add: newlyClaimed_def plungingGame_simps rewards_def)

theorem depth_rewards_once_witness:
  "newlyClaimed plungingGame = rewards \<and>
   claimedRewards (checkDepthRewards plungingGame) = {2000, 4000, 6000} \<and>
   score (gameState (checkDepthRewards plungingGame)) = 3500 \<and>
   oxygen (gameState (checkDepthRewards plungingGame)) = 100 \<and>
   newlyClaimed (checkDepthRewards plungingGame) = [] \<and>
   claimedRewards (checkDepthRewards (checkDepthRewards plungingGame)) = {2000, 4000, 6000} \<and>
   score (gameState (checkDepthRewards (checkDepthRewards plungingGame))) = 3500 \<and>
   ''s'' \<in> keys (inputHandler plungingGame) \<and>
   claimedRewards (fst (update plungingGame 16 exampleWorld)) = {2000, 4000, 6000} \<and>
   score (gameState (fst (update plungingGame 16 exampleWorld))) = 3500 \<and>
   ''s'' \<notin> keys (inputHandler exampleGame) \<and>
   claimedRewards (fst (update exampleGame 16 exampleWorld)) = {} \<and>
   score (gameState (fst (update exampleGame 16 exampleWorld))) = 0 \<and>
   reachable (new_Game exampleWorld) \<and> rewardsPaidOnce (fst (new_Game exampleWorld))"
proof -
  have k: "reachable (new_Game exampleWorld)" by (rule reachable.intros)
  note t1 = depth_rewards_once [of plungingGame 16 exampleWorld "new_Game exampleWorld"]
  note t2 = depth_rewards_once [of "checkDepthRewards plungingGame" 16 exampleWorld "new_Game exampleWorld"]
  note t3 = depth_rewards_once [of exampleGame 16 exampleWorld "new_Game exampleWorld"]
  from t1 have a: "claimedRewards (checkDepthRewards plungingGame) = {2000, 4000, 6000}"
    "score (gameState (checkDepthRewards plungingGame)) = 3500"
    "oxygen (gameState (checkDepthRewards plungingGame)) = 100"
    "newlyClaimed (checkDepthRewards plungingGame) = []"
    by (auto simp: plungingGame_newlyClaimed plungingGame_simps rewards_def Math_min_def)
  from t2 a have b: "claimedRewards (checkDepthRewards (checkDepthRewards plungingGame)) = {2000, 4000, 6000}"
    "score (gameState (checkDepthRewards (checkDepthRewards plungingGame))) = 3500"
    by simp_all
  from t1 example_running(9,10) have c:
    "claimedRewards (fst (update plungingGame 16 exampleWorld)) = {2000, 4000, 6000}"
    "score (gameState (fst (update plungingGame 16 exampleWorld))) = 3500"
    by (auto simp: plungingGame_newlyClaimed plungingGame_simps rewards_def Math_min_def)
  from t3 have d: "claimedRewards (fst (update exampleGame 16 exampleWorld)) = {}"
    "score (gameState (fst (update exampleGame 16 exampleWorld))) = 0"
    by (simp_all add: plungingGame_simps)
  from t1 k have e: "rewardsPaidOnce (fst (new_Game exampleWorld))" by simp
  from a b c d e k show ?thesis by (simp add: plungingGame_newlyClaimed plungingGame_simps)
qed

lemma isOffScreen_rule: "isOffScreen ob 800 600 d = offScreenRule ob d"
  by (simp add: isOffScreen_def offScreenRule_def)

lemma liveObjects_cull:
  "liveObjects (cullOffScreen g) =
     filter (\<lambda>ob. \<not> offScreenRule ob (depth (gameState g))) (liveObjects g)"
  by (simp add: liveObjects_def cullOffScreen_frame isOffScreen_rule)

lemma culled_retired:
  assumes "idsValid g" and "ob \<in> set (liveObjects g)" and "offScreenRule ob (depth (gameState g))"
  shows "retiredId (obj_id ob) (cullOffScreen g)"
proof -
  from assms(1) have d: "distinct (map obj_id (liveObjects g))"
    and l: "\<forall>i \<in> liveIds g. i < nextMonsterId g" by (simp_all add: idsValid_def)
  from d have inj: "inj_on obj_id (set (liveObjects g))" by (simp add: distinct_map)
  have "obj_id ob \<notin> liveIds (cullOffScreen g)"
  proof
    assume "obj_id ob \<in> liveIds (cullOffScreen g)"
    then obtain ob' where o: "ob' \<in> set (liveObjects g)"
      "\<not> offScreenRule ob' (depth (gameState g))" "obj_id ob' = obj_id ob"
      by (auto simp: liveIds_def liveObjects_cull)
    with inj assms(2) have "ob' = ob" by (auto dest: inj_onD)
    with o(2) assms(3) show False by simp
  qed
  moreover have "obj_id ob < nextMonsterId (cullOffScreen g)"
    using l assms(2) by (auto simp: liveIds_def cullOffScreen_frame)
  ultimately show ?thesis by (simp add: retiredId_def)
qed

text \<open>
  \<^bold>\<open>C9\<close> (culling rule).  \<^verbatim>\<open>isOffScreen\<close> for the 800 wide viewport is the predicate
  \<open>x < -200 \<or> x > 800 + 200 \<or> |y - depth| > 1200\<close>.  The culling block of \<^verbatim>\<open>update\<close> keeps
  in each of the three lists exactly the objects that do not satisfy it, in their order.
  A running tick is the blocks up to and including the culling followed by the blocks from
  the collision checks on; no object that is live after the culling, and none that is live
  after the tick, is off screen.  In every state that the game reaches the live objects
  have distinct ids below the id counter, and none of them is off screen.  With such
  ids, the id of an object that the culling removes is retired (below the counter and
  without a live object), and a retired id stays retired through every event of a run
  before the next restart.
\<close>

theorem culling_rule:
  "isOffScreen ob 800 600 d = offScreenRule ob d \<and>
   monsters (cullOffScreen g) = filter (\<lambda>m. \<not> offScreenRule m (depth (gameState g))) (monsters g) \<and>
   obstacles (cullOffScreen g) = filter (\<lambda>m. \<not> offScreenRule m (depth (gameState g))) (obstacles g) \<and>
   bubbles (cullOffScreen g) = filter (\<lambda>m. \<not> offScreenRule m (depth (gameState g))) (bubbles g) \<and>
   (\<not> gameOverTriggered g \<and> \<not> menuIsOpen g \<longrightarrow>
      update g dt wd = tickFromCollisions (fst (tickUpToCull g dt wd)) (snd (tickUpToCull g dt wd)) \<and>
      allOnScreen (fst (tickUpToCull g dt wd)) \<and> allOnScreen (fst (update g dt wd))) \<and>
   (reachable st \<longrightarrow> idsValid (fst st) \<and> allOnScreen (fst st)) \<and>
   (idsValid g \<and> ob \<in> set (liveObjects g) \<and> offScreenRule ob (depth (gameState g)) \<longrightarrow>
      retiredId (obj_id ob) (cullOffScreen g)) \<and>
   (retiredId i (fst st) \<and> ClickRestart \<notin> set es \<longrightarrow> retiredId i (fst (run es st)))"
proof (intro conjI impI)
  show "isOffScreen ob 800 600 d = offScreenRule ob d" by (rule isOffScreen_rule)
  show "monsters (cullOffScreen g) = filter (\<lambda>m. \<not> offScreenRule m (depth (gameState g))) (monsters g)"
    and "obstacles (cullOffScreen g) = filter (\<lambda>m. \<not> offScreenRule m (depth (gameState g))) (obstacles g)"
    and "bubbles (cullOffScreen g) = filter (\<lambda>m. \<not> offScreenRule m (depth (gameState g))) (bubbles g)"
    by (simp_all add: cullOffScreen_frame isOffScreen_rule)
next
  assume r: "\<not> gameOverTriggered g \<and> \<not> menuIsOpen g"
  then show "update g dt wd = tickFromCollisions (fst (tickUpToCull g dt wd)) (snd (tickUpToCull g dt wd))"
    by (simp add: update_running)
  show "allOnScreen (fst (tickUpToCull g dt wd))" by (rule tickUpToCull_lists(3))
  from r show "allOnScreen (fst (update g dt wd))" by (simp add: update_lists(4))
next
  assume "reachable st"
  from reachable_inv [OF this] show "idsValid (fst st)" and "allOnScreen (fst st)" by simp_all
next
  assume "idsValid g \<and> ob \<in> set (liveObjects g) \<and> offScreenRule ob (depth (gameState g))"
  then show "retiredId (obj_id ob) (cullOffScreen g)" by (simp add: culled_retired)
next
  assume "retiredId i (fst st) \<and> ClickRestart \<notin> set es"
  then show "retiredId i (fst (run es st))" by (simp add: run_retired)
qed

lemma clutteredGame_simps:
  "obstacles clutteredGame = [strayRock]" "bubbles clutteredGame = [farBubble]"
  "monsters clutteredGame = []" "nextMonsterId clutteredGame = 3"
  "depth (gameState clutteredGame) = 0"
  "obj_id strayRock = 1" "obj_id farBubble = 2" "obj_x strayRock = 1500" "obj_x farBubble = 400"
  "obj_y strayRock = 0" "obj_y farBubble = 700"
  by (simp_all add: clutteredGame_def exampleGame_def strayRock_def farBubble_def
      exampleObject_def initialGameState_def)

theorem culling_rule_witness:
  "offScreenRule strayRock 0 \<and> isOffScreen strayRock 800 600 0 \<and>
   obstacles (cullOffScreen clutteredGame) = [] \<and>
   bubbles (cullOffScreen clutteredGame) = [farBubble] \<and>
   allOnScreen (fst (update clutteredGame 16 exampleWorld)) \<and>
   obstacles (fst (update clutteredGame 16 exampleWorld)) = [] \<and>
   bubbles (fst (update clutteredGame 16 exampleWorld)) = [farBubble] \<and>
   idsValid clutteredGame \<and> strayRock \<in> set (liveObjects clutteredGame) \<and>
   retiredId 1 (cullOffScreen clutteredGame) \<and>
   retiredId 1 (fst (run [Frame 1017, KeyDown ''s'', Frame 1033] (cullOffScreen clutteredGame, exampleWorld))) \<and>
   reachable (new_Game exampleWorld) \<and> idsValid (fst (new_Game exampleWorld)) \<and>
   allOnScreen (fst (new_Game exampleWorld))"
proof -
  have off: "offScreenRule strayRock 0" "\<not> offScreenRule farBubble 0"
    by (simp_all add: offScreenRule_def clutteredGame_simps)
  have v: "idsValid clutteredGame"
    by (simp add: idsValid_def liveIds_def liveObjects_def clutteredGame_simps)
  have m: "strayRock \<in> set (liveObjects clutteredGame)"
    by (simp add: liveObjects_def clutteredGame_simps)
  have k: "reachable (new_Game exampleWorld)" by (rule reachable.intros)
  have nr: "ClickRestart \<notin> set [Frame 1017, KeyDown ''s'', Frame 1033]" by simp
  note t1 = culling_rule [of strayRock 0 clutteredGame 16 exampleWorld "new_Game exampleWorld" 1 "[]"]
  from t1 off have a: "isOffScreen strayRock 800 600 0" "obstacles (cullOffScreen clutteredGame) = []"
    "bubbles (cullOffScreen clutteredGame) = [farBubble]"
    by (simp_all add: clutteredGame_simps)
  from t1 example_running(11,12) have b: "allOnScreen (fst (update clutteredGame 16 exampleWorld))"
    by blast
  from t1 v m off have c: "retiredId 1 (cullOffScreen clutteredGame)"
    by (simp add: clutteredGame_simps)
  from t1 k have d: "idsValid (fst (new_Game exampleWorld))" "allOnScreen (fst (new_Game exampleWorld))"
    by simp_all
  from culling_rule [of strayRock 0 clutteredGame 16 exampleWorld
      "(cullOffScreen clutteredGame, exampleWorld)" 1 "[Frame 1017, KeyDown ''s'', Frame 1033]"] c nr
  have e: "retiredId 1 (fst (run [Frame 1017, KeyDown ''s'', Frame 1033] (cullOffScreen clutteredGame, exampleWorld)))"
    by simp
  from off a b c d e v m k clutteredGame_tick show ?thesis by simp
qed



section \<open>The vertical range of the submarine\<close>

text \<open>
  No block of a tick other than \<^verbatim>\<open>Submarine.update\<close> touches the submarine, so a frame of a
  running game updates it with the keys held and with
  \<open>deltaTime = min (currentTime - lastFrameTime) 16\<close>, which \<^verbatim>\<open>gameLoop\<close> bounds from above only.
\<close>

lemma phase_submarine [frame]:
  "submarine (claimReward d r g) = submarine g"
  "submarine (unlockUpgrades d g) = submarine g"
  "submarine (moveWorldObjects off g) = submarine g"
  "submarine (fst (updateParticles g wd)) = submarine g"
  "submarine (fst (updateResources g wd)) = submarine g"
  "submarine (fst (updateMonsters g wd)) = submarine g"
  "submarine (cullOffScreen g) = submarine g"
  "submarine (monsterDamage m g) = submarine g"
  "submarine (obstacleDamage m g) = submarine g"
  "submarine (fst (spawnOneMonster d (g, wd))) = submarine g"
  "submarine (fst (spawnObstacle g wd)) = submarine g"
  "submarine (fst (spawnBubble g wd)) = submarine g"
  "submarine (checkGameOver g) = submarine g"
  by (simp_all add: claimReward_def unlockUpgrades_def moveWorldObjects_def updateParticles_def
      updateResources_def updateMonsters_def cullOffScreen_def monsterDamage_def
      obstacleDamage_def spawnOneMonster_def spawnObstacle_def spawnBubble_def checkGameOver_def
      endGame_def showHint_def split_beta Let_def)

lemma checkDepthRewards_submarine [frame]: "submarine (checkDepthRewards g) = submarine g"
  by (simp add: checkDepthRewards_def Let_def forEach_rewards frame)

lemma updateDepth_submarine [frame]: "submarine (updateDepth ks g) = submarine g"
  by (simp add: updateDepth_def frame)

lemma forEach_damage_submarine [frame]:
  "submarine (forEach monsterDamage cs g) = submarine g"
  "submarine (forEach obstacleDamage cs g) = submarine g"
  by (induction cs arbitrary: g; simp add: frame)+

lemma collisionPhase_submarine [frame]:
  "submarine (fst (monsterCollisionPhase c g wd)) = submarine g"
  "submarine (fst (obstacleCollisionPhase c g wd)) = submarine g"
  "submarine (fst (bubbleCollisionPhase c g wd)) = submarine g"
  by (simp_all add: monsterCollisionPhase_def obstacleCollisionPhase_def bubbleCollisionPhase_def
      split_beta Let_def showHint_def frame)

lemma spawnMonsterLoop_submarine [frame]:
  "submarine (fst (spawnMonsterLoop k d st)) = submarine (fst st)"
proof (induction k arbitrary: st)
  case 0
  then show ?case by simp
next
  case (Suc k)
  have "submarine (fst (spawnOneMonster d st)) = submarine (fst st)"
    by (cases st) (simp add: frame)
  with Suc show ?case by simp
qed

lemma spawn_submarine [frame]:
  "submarine (fst (spawnMonsters g wd)) = submarine g"
  "submarine (fst (spawnProceduralElements g wd)) = submarine g"
  by (simp_all add: spawnMonsters_def spawnProceduralElements_def split_beta Let_def frame)

lemma update_submarine:
  assumes "\<not> gameOverTriggered g" "\<not> menuIsOpen g"
  shows "submarine (fst (update g dt wd)) =
           fst (Submarine_update (submarine g) (keys (inputHandler g)) dt)"
  by (simp add: update_running [OF assms] tickFromCollisions_def tickUpToCull_def split_beta
      Let_def frame updateCameraOffset_def)

lemma gameLoop_submarine:
  assumes "\<not> gameOverTriggered g" "\<not> menuIsOpen g"
  shows "submarine (fst (gameLoop t g wd)) =
           fst (Submarine_update (submarine g) (keys (inputHandler g)) (Math_min (t - lastFrameTime g) 16))"
proof -
  have "\<not> gameOverTriggered (g\<lparr>lastFrameTime := t\<rparr>)" "\<not> menuIsOpen (g\<lparr>lastFrameTime := t\<rparr>)"
    using assms by (simp_all add: menuIsOpen_def)
  from update_submarine [OF this] show ?thesis
    by (simp add: gameLoop_def split_beta Let_def)
qed

lemma new_Game_start:
  "submarine (fst (new_Game wd)) = fst (new_Submarine 350 270 100 60 wd)"
  "inputHandler (fst (new_Game wd)) = new_InputHandler"
  "lastFrameTime (fst (new_Game wd)) = of_int (clock wd (Suc (clockReads wd)))"
  by (simp_all add: new_Game_def initializeParticles_def new_Submarine_def new_GameObject_def
      Date_now_def split_beta Let_def)

lemma keyDown_w:
  "submarine (handleKeyDown ''w'' g) = submarine g"
  "keys (inputHandler (handleKeyDown ''w'' g)) = insert ''w'' (keys (inputHandler g))"
  "lastFrameTime (handleKeyDown ''w'' g) = lastFrameTime g"
  "gameOverTriggered (handleKeyDown ''w'' g) = gameOverTriggered g"
  "menuOpen (handleKeyDown ''w'' g) = menuOpen g"
  by (simp_all add: handleKeyDown_def Let_def)

text \<open>
  \<^bold>\<open>C6\<close> (vertical motion of the submarine).  The claim: only \<^verbatim>\<open>w\<close> held returns
  \<open>worldScrollDelta = +speed\<close>, only \<^verbatim>\<open>s\<close> held returns \<open>-speed\<close>, neither returns \<open>0\<close>, both
  held returns \<open>-speed\<close>; and, for every key set and \<open>deltaTime\<close>, \<open>screenY\<close> always stays
  within \<open>[centerY - maxVerticalOffset, centerY + maxVerticalOffset]\<close>.  The returned values
  are as claimed (\<open>Submarine_update_deltas\<close>), but the code does not keep the bound, which
  its own comments announce (\<^verbatim>\<open>limitado\<close>, \<^verbatim>\<open>Maximo de pixels para cima/baixo\<close>).

  The failing input is the first frame of a game.  The constructor sets \<^verbatim>\<open>lastFrameTime\<close> to
  \<^verbatim>\<open>Date.now()\<close> (here 1001), while \<^verbatim>\<open>gameLoop\<close> receives the time stamp of the animation
  frame (here 0) and only applies \<^verbatim>\<open>Math.min(deltaTime, 16)\<close>: \<open>deltaTime = -1001\<close>.  With
  \<^verbatim>\<open>w\<close> held, the state reached from the new game by the key press and this frame has
  \<open>screenY = max 190 (270 + 90.09) = 360.09\<close>, above \<open>centerY + maxVerticalOffset = 350\<close>.
  On \<^verbatim>\<open>Submarine.update\<close> alone, at the submarine of the game (350, 270, 100, 60) and
  \<open>deltaTime = -1000\<close>: only \<^verbatim>\<open>w\<close> held gives \<open>screenY = 360 > 350\<close>, only \<^verbatim>\<open>s\<close> held gives
  \<open>screenY = 180 < 190\<close>.
\<close>

theorem first_frame_breaks_vertical_bound:
  "reachable (run [KeyDown ''w'', Frame 0] (new_Game exampleWorld)) \<and>
   verticalInRange (submarine (fst (new_Game exampleWorld))) \<and>
   verticalInRange (submarine (fst (run [KeyDown ''w''] (new_Game exampleWorld)))) \<and>
   Math_min (0 - lastFrameTime (fst (run [KeyDown ''w''] (new_Game exampleWorld)))) 16 = - 1001 \<and>
   screenY (submarine (fst (run [KeyDown ''w'', Frame 0] (new_Game exampleWorld)))) = 360.09 \<and>
   centerY (submarine (fst (run [KeyDown ''w'', Frame 0] (new_Game exampleWorld)))) +
     maxVerticalOffset (submarine (fst (run [KeyDown ''w'', Frame 0] (new_Game exampleWorld)))) = 350 \<and>
   \<not> verticalInRange (submarine (fst (run [KeyDown ''w'', Frame 0] (new_Game exampleWorld)))) \<and>
   screenY (fst (Submarine_update exampleSubmarine {''w''} (- 1000))) = 360 \<and>
   \<not> verticalInRange (fst (Submarine_update exampleSubmarine {''w''} (- 1000))) \<and>
   screenY (fst (Submarine_update exampleSubmarine {''s''} (- 1000))) = 180 \<and>
   \<not> verticalInRange (fst (Submarine_update exampleSubmarine {''s''} (- 1000)))"
proof -
  obtain g0 w0 where n: "new_Game exampleWorld = (g0, w0)" by (cases "new_Game exampleWorld")
  have g0_eq: "g0 = fst (new_Game exampleWorld)" by (simp add: n)
  have lft: "lastFrameTime g0 = 1001"
    unfolding g0_eq new_Game_start by (simp add: exampleWorld_def)
  have g0: "submarine g0 = exampleSubmarine" "inputHandler g0 = new_InputHandler"
    "\<not> gameOverTriggered g0" "menuOpen g0 = None"
    unfolding g0_eq new_Game_start new_Game_fields exampleSubmarine_def by simp_all
  note g0 = g0 lft
  let ?g1 = "handleKeyDown ''w'' g0"
  have r1: "run [KeyDown ''w''] (new_Game exampleWorld) = (?g1, w0)" by (simp add: n)
  have r2: "run [KeyDown ''w'', Frame 0] (new_Game exampleWorld) = gameLoop 0 ?g1 w0"
    by (simp add: n)
  have run1: "\<not> gameOverTriggered ?g1" "\<not> menuIsOpen ?g1"
    using g0 by (simp_all add: keyDown_w menuIsOpen_def)
  have sub: "submarine (fst (gameLoop 0 ?g1 w0)) = fst (Submarine_update exampleSubmarine {''w''} (- 1001))"
    unfolding gameLoop_submarine [OF run1]
    by (simp add: keyDown_w g0 new_InputHandler_def Math_min_def)
  have reach: "reachable (run [KeyDown ''w'', Frame 0] (new_Game exampleWorld))"
    using reachable.intros(2) [OF reachable.intros(2) [OF reachable.intros(1) [of exampleWorld], of "KeyDown ''w''"], of "Frame 0"]
    by simp
  have a: "verticalInRange (submarine (fst (new_Game exampleWorld)))"
    "verticalInRange (submarine (fst (run [KeyDown ''w''] (new_Game exampleWorld))))"
    "Math_min (0 - lastFrameTime (fst (run [KeyDown ''w''] (new_Game exampleWorld)))) 16 = - 1001"
    by (simp_all add: r1 n g0 keyDown_w verticalInRange_def exampleSubmarine_simps Math_min_def)
  have b: "screenY (submarine (fst (run [KeyDown ''w'', Frame 0] (new_Game exampleWorld)))) = 360.09"
    "centerY (submarine (fst (run [KeyDown ''w'', Frame 0] (new_Game exampleWorld)))) +
     maxVerticalOffset (submarine (fst (run [KeyDown ''w'', Frame 0] (new_Game exampleWorld)))) = 350"
    "\<not> verticalInRange (submarine (fst (run [KeyDown ''w'', Frame 0] (new_Game exampleWorld))))"
    unfolding r2 sub
    by (simp_all add: verticalInRange_def Submarine_update_screenY exampleSubmarine_simps
        Math_max_def Math_min_def)
  have c: "screenY (fst (Submarine_update exampleSubmarine {''w''} (- 1000))) = 360"
    "\<not> verticalInRange (fst (Submarine_update exampleSubmarine {''w''} (- 1000)))"
    "screenY (fst (Submarine_update exampleSubmarine {''s''} (- 1000))) = 180"
    "\<not> verticalInRange (fst (Submarine_update exampleSubmarine {''s''} (- 1000)))"
    by (simp_all add: verticalInRange_def Submarine_update_screenY exampleSubmarine_simps
        Math_max_def Math_min_def)
  from reach a b c show ?thesis by simp
qed

end
